theory Spec2Isabelle
  imports Complex_Main "HOL-Library.Word"
begin

chapter \<open>The program\<close>

text \<open>
  The scraping core of the repository as HOL functions: the normalisation of a record
  (\<open>convertApiVehicleToVehicle\<close>), the batch scheduler (\<open>runInBatches\<close>), the job of
  one site (\<open>processSite\<close>), the run over all sites (\<open>scrapeAllSites\<close>), and the two
  site drivers whose source is at hand, CarToTrade and Disposal Network. A call into the
  browser is a field of a record that says what the browser answers; a throw is a value.
\<close>

section \<open>Result normalisation (frontend/src/services/api/vehicleApi.ts)\<close>

text \<open>
  \<open>convertApiVehicleToVehicle\<close> reads fields of a JSON object and casts each to the type
  the \<open>ApiVehicle\<close> interface declares. An optional field is an \<open>option\<close>: \<open>None\<close> is
  JavaScript's \<open>undefined\<close> (the key is absent). A JSON number is a finite double, taken
  here as a \<open>real\<close>: the code only tests it for truthiness, and a finite number is falsy
  exactly when it is zero. The price is a string or a number, as the interface says.
\<close>

datatype price_val = PStr string | PNum real

record ApiVehicle =
  av_id :: "string option"
  av_title :: "string option"
  av_primaryVehicleDescription :: "string option"
  av_make :: "string option"
  av_model :: "string option"
  av_price :: "price_val option"
  av_imageUrl :: "string option"
  av_image :: "string option"
  av_location :: "string option"
  av_localSaleLocation :: "string option"
  av_dealer :: "string option"
  av_registration :: "string option"
  av_reg :: "string option"
  av_vrm :: "string option"
  av_source :: "string option"
  av_website :: "string option"
  av_url :: "string option"
  av_mileage :: "real option"

record Vehicle =
  v_id :: string
  v_title :: string
  v_price :: price_val
  v_imageUrl :: string
  v_location :: string
  v_registration :: string
  v_source :: string
  v_url :: string
  v_timestamp :: string
  v_mileage :: "real option"

text \<open>\<open>a || d\<close> on an optional string: the operand itself when it is truthy (a non-empty
  string), the right operand otherwise.\<close>

definition str_or :: "string option \<Rightarrow> string \<Rightarrow> string" where
  "str_or a d = (case a of None \<Rightarrow> d | Some s \<Rightarrow> if s \<noteq> [] then s else d)"

text \<open>String concatenation converts \<open>undefined\<close> to the text \<open>undefined\<close>.\<close>

definition js_to_string :: "string option \<Rightarrow> string" where
  "js_to_string a = (case a of None \<Rightarrow> ''undefined'' | Some s \<Rightarrow> s)"

definition price_truthy :: "price_val \<Rightarrow> bool" where
  "price_truthy p = (case p of PStr s \<Rightarrow> s \<noteq> [] | PNum n \<Rightarrow> n \<noteq> 0)"

text \<open>
  The title expression is
  \<^verbatim>\<open>title || primaryVehicleDescription || make + " " + model || "Unknown Vehicle"\<close>.
  \<open>+\<close> binds tighter than \<open>||\<close>, so the third operand is the whole concatenation; it is
  tested for truthiness like the others. \<open>genId\<close> stands for the generated id
  (\<open>Date.now()\<close> and \<open>Math.random()\<close>) and \<open>now\<close> for \<open>new Date().toISOString()\<close>.
\<close>

definition convertApiVehicleToVehicle :: "string \<Rightarrow> string \<Rightarrow> ApiVehicle \<Rightarrow> Vehicle" where
  "convertApiVehicleToVehicle genId now apiVehicle =
    \<lparr> v_id = str_or (av_id apiVehicle) genId,
      v_title =
        str_or (av_title apiVehicle)
          (str_or (av_primaryVehicleDescription apiVehicle)
            (str_or (Some (js_to_string (av_make apiVehicle) @ '' '' @ js_to_string (av_model apiVehicle)))
              ''Unknown Vehicle'')),
      v_price =
        (case av_price apiVehicle of
           None \<Rightarrow> PStr ''0''
         | Some p \<Rightarrow> if price_truthy p then p else PStr ''0''),
      v_imageUrl =
        str_or (av_imageUrl apiVehicle)
          (str_or (av_image apiVehicle) ''https://via.placeholder.com/400''),
      v_location =
        str_or (av_location apiVehicle)
          (str_or (av_localSaleLocation apiVehicle)
            (str_or (av_dealer apiVehicle) ''Unknown'')),
      v_registration =
        str_or (av_registration apiVehicle)
          (str_or (av_reg apiVehicle) (str_or (av_vrm apiVehicle) ''Unknown'')),
      v_source =
        str_or (av_source apiVehicle) (str_or (av_website apiVehicle) ''Unknown Source''),
      v_url = str_or (av_url apiVehicle) ''#'',
      v_timestamp = now,
      v_mileage =
        (case av_mileage apiVehicle of
           None \<Rightarrow> None
         | Some m \<Rightarrow> if m \<noteq> 0 then Some m else None) \<rparr>"

text \<open>The object \<open>{}\<close>: every field absent.\<close>

definition emptyApiVehicle :: ApiVehicle where
  "emptyApiVehicle =
    \<lparr> av_id = None, av_title = None, av_primaryVehicleDescription = None, av_make = None,
      av_model = None, av_price = None, av_imageUrl = None, av_image = None,
      av_location = None, av_localSaleLocation = None, av_dealer = None,
      av_registration = None, av_reg = None, av_vrm = None, av_source = None,
      av_website = None, av_url = None, av_mileage = None \<rparr>"

section \<open>The batch scheduler (backend/index.ts, runInBatches)\<close>

text \<open>
  A task is a function \<open>() => Promise<T>\<close>. It is modelled by what the promise it returns
  does: \<open>Some (Inr v)\<close> when it is fulfilled with \<open>v\<close>, \<open>Some (Inl e)\<close> when it is rejected
  with the error \<open>e\<close>, \<open>None\<close> when it never settles. \<open>batchSize\<close> is a natural number:
  the spec types the limit as an integer, and the caller passes
  \<open>Math.min(concurrencyLimit, n)\<close>.
\<close>

type_synonym error = string

type_synonym 'a settled = "error + 'a"

type_synonym 'a task = "'a settled option"

text \<open>\<open>xs.slice(s, e)\<close> for indices that are not negative.\<close>

definition slice :: "'a list \<Rightarrow> nat \<Rightarrow> nat \<Rightarrow> 'a list" where
  "slice xs s e = take (e - s) (drop s xs)"

text \<open>
  \<open>await Promise.all(batch)\<close>: a rejection as soon as one promise is rejected; otherwise
  the values in the order of the array once every promise is fulfilled, which never
  happens when one of them never settles. (The rejection reported here is the first in
  the order of the array; the step relation below reports the first in time.)
\<close>

fun first_rejection :: "'a task list \<Rightarrow> error option" where
  "first_rejection [] = None"
| "first_rejection (Some (Inl e) # ps) = Some e"
| "first_rejection (p # ps) = first_rejection ps"

fun all_values :: "'a task list \<Rightarrow> 'a list option" where
  "all_values [] = Some []"
| "all_values (Some (Inr v) # ps) = map_option ((#) v) (all_values ps)"
| "all_values (p # ps) = None"

definition Promise_all :: "'a task list \<Rightarrow> 'a list settled option" where
  "Promise_all ps =
     (case first_rejection ps of
        Some e \<Rightarrow> Some (Inl e)
      | None \<Rightarrow> map_option Inr (all_values ps))"

text \<open>
  The \<open>for (let i = 0; i < tasks.length; i += batchSize)\<close> loop. With \<open>batchSize = 0\<close> the
  loop never ends, so the result is an \<open>option\<close>: \<open>None\<close> is "does not return",
  \<open>Some (Inl e)\<close> a rejected promise, \<open>Some (Inr results)\<close> the returned array.
\<close>

partial_function (option) runInBatches_loop ::
  "'a task list \<Rightarrow> nat \<Rightarrow> nat \<Rightarrow> 'a list \<Rightarrow> 'a list settled option" where
  "runInBatches_loop tasks batchSize i results =
     (if i < length tasks then
        (case Promise_all (slice tasks i (i + batchSize)) of
           None \<Rightarrow> None
         | Some (Inl e) \<Rightarrow> Some (Inl e)
         | Some (Inr batchResults) \<Rightarrow>
             runInBatches_loop tasks batchSize (i + batchSize) (results @ batchResults))
      else Some (Inr results))"

definition runInBatches :: "'a task list \<Rightarrow> nat \<Rightarrow> 'a list settled option" where
  "runInBatches tasks batchSize = runInBatches_loop tasks batchSize 0 []"

text \<open>The task that resolves with \<open>v\<close>.\<close>

definition fulfilled_with :: "'a \<Rightarrow> 'a task" where
  "fulfilled_with v = Some (Inr v)"

subsection \<open>The scheduler step by step\<close>

text \<open>
  The same function as a transition system, one state per point in time. A task is
  \<^emph>\<open>started\<close> when \<open>map((fn) => fn())\<close> calls it and \<^emph>\<open>settled\<close> when its promise
  resolves or rejects; a task settles at any time after it was started, in any order.
  \<open>LoopHead\<close> is the loop test, \<open>Mapping js\<close> the \<open>map\<close> over the slice with the indices
  \<open>js\<close> still to call, \<open>Awaiting\<close> the \<open>await Promise.all(batch)\<close>, \<open>Returned\<close> and
  \<open>Thrown\<close> the two ways the function ends. After \<open>Thrown\<close> the tasks already started
  keep running, and nothing new is started.
\<close>

datatype rb_phase = LoopHead | Mapping "nat list" | Awaiting | Returned | Thrown string

record 'a rb_state =
  rb_i :: nat
  rb_results :: "'a list"
  rb_phase :: rb_phase
  rb_batch :: "nat list"
  rb_started :: "nat list"
  rb_settled :: "nat list"

definition rb_init :: "'a rb_state" where
  "rb_init = \<lparr> rb_i = 0, rb_results = [], rb_phase = LoopHead, rb_batch = [],
               rb_started = [], rb_settled = [] \<rparr>"

inductive rb_step :: "'a task list \<Rightarrow> nat \<Rightarrow> 'a rb_state \<Rightarrow> 'a rb_state \<Rightarrow> bool"
  for tasks :: "'a task list" and batchSize :: nat where
  enter:
    "rb_phase s = LoopHead \<Longrightarrow> rb_i s < length tasks \<Longrightarrow>
     rb_step tasks batchSize s
       (s\<lparr>rb_phase := Mapping [rb_i s ..< min (rb_i s + batchSize) (length tasks)],
          rb_batch := []\<rparr>)"
| call:
    "rb_phase s = Mapping (j # js) \<Longrightarrow>
     rb_step tasks batchSize s
       (s\<lparr>rb_phase := Mapping js, rb_batch := rb_batch s @ [j],
          rb_started := rb_started s @ [j]\<rparr>)"
| await:
    "rb_phase s = Mapping [] \<Longrightarrow>
     rb_step tasks batchSize s (s\<lparr>rb_phase := Awaiting\<rparr>)"
| settle:
    "j \<in> set (rb_started s) \<Longrightarrow> j \<notin> set (rb_settled s) \<Longrightarrow> tasks ! j \<noteq> None \<Longrightarrow>
     rb_step tasks batchSize s (s\<lparr>rb_settled := rb_settled s @ [j]\<rparr>)"
| fulfilled:
    "rb_phase s = Awaiting \<Longrightarrow> set (rb_batch s) \<subseteq> set (rb_settled s) \<Longrightarrow>
     all_values (map ((!) tasks) (rb_batch s)) = Some vs \<Longrightarrow>
     rb_step tasks batchSize s
       (s\<lparr>rb_phase := LoopHead, rb_i := rb_i s + batchSize,
          rb_results := rb_results s @ vs\<rparr>)"
| rejected:
    "rb_phase s = Awaiting \<Longrightarrow>
     find (\<lambda>j. j \<in> set (rb_batch s) \<and> (\<exists>e. tasks ! j = Some (Inl e))) (rb_settled s) = Some j \<Longrightarrow>
     tasks ! j = Some (Inl e) \<Longrightarrow>
     rb_step tasks batchSize s (s\<lparr>rb_phase := Thrown e\<rparr>)"
| return:
    "rb_phase s = LoopHead \<Longrightarrow> \<not> rb_i s < length tasks \<Longrightarrow>
     rb_step tasks batchSize s (s\<lparr>rb_phase := Returned\<rparr>)"

inductive rb_reachable :: "'a task list \<Rightarrow> nat \<Rightarrow> 'a rb_state \<Rightarrow> bool"
  for tasks :: "'a task list" and batchSize :: nat where
  init: "rb_reachable tasks batchSize rb_init"
| step: "rb_reachable tasks batchSize s \<Longrightarrow> rb_step tasks batchSize s s' \<Longrightarrow>
         rb_reachable tasks batchSize s'"


definition chunk :: "'a list \<Rightarrow> nat \<Rightarrow> nat \<Rightarrow> nat list" where
  "chunk tasks batchSize i = [i ..< min (i + batchSize) (length tasks)]"

text \<open>The invariant of the transition system.\<close>

definition rb_inv :: "'a task list \<Rightarrow> nat \<Rightarrow> 'a rb_state \<Rightarrow> bool" where
  "rb_inv tasks b s \<longleftrightarrow>
     b dvd rb_i s \<and>
     map fulfilled_with (rb_results s) = take (rb_i s) tasks \<and>
     set (rb_settled s) \<subseteq> set (rb_started s) \<and>
     distinct (rb_settled s) \<and>
     (case rb_phase s of
        LoopHead \<Rightarrow> rb_started s = [0 ..< min (rb_i s) (length tasks)]
                    \<and> set (rb_settled s) = set (rb_started s)
      | Mapping js \<Rightarrow> rb_i s < length tasks \<and> rb_batch s @ js = chunk tasks b (rb_i s)
                    \<and> rb_started s = [0 ..< rb_i s] @ rb_batch s
                    \<and> {0 ..< rb_i s} \<subseteq> set (rb_settled s)
      | Awaiting \<Rightarrow> rb_i s < length tasks \<and> rb_batch s = chunk tasks b (rb_i s)
                    \<and> rb_started s = [0 ..< rb_i s] @ rb_batch s
                    \<and> {0 ..< rb_i s} \<subseteq> set (rb_settled s)
      | Returned \<Rightarrow> length tasks \<le> rb_i s \<and> rb_started s = [0 ..< length tasks]
                    \<and> set (rb_settled s) = set (rb_started s)
      | Thrown e \<Rightarrow> rb_i s < length tasks \<and> rb_batch s = chunk tasks b (rb_i s)
                    \<and> rb_started s = [0 ..< rb_i s] @ rb_batch s
                    \<and> {0 ..< rb_i s} \<subseteq> set (rb_settled s))"



section \<open>JavaScript strings\<close>

text \<open>
  The strings of the search parameters and of the pages are trimmed, case-mapped,
  searched and parsed by the drivers. They are sequences of UTF-16 code units, as
  JavaScript has them; \<open>js\<close> is the string of an ASCII literal of the source. (Site names,
  credentials, error messages and the fields of a vehicle record, which the program only
  compares, tests for emptiness, concatenates and hands on, are lists of \<open>char\<close>.)
\<close>

type_synonym code_unit = "16 word"

type_synonym jstring = "code_unit list"

definition js :: "string \<Rightarrow> jstring" where
  "js literal = map of_char literal"

text \<open>
  \<open>StringToCodePoints\<close> and \<open>CodePointsToString\<close> of ECMAScript: a high surrogate followed
  by a low surrogate is one code point, any other code unit is the code point of its
  value (a surrogate on its own included).
\<close>

fun StringToCodePoints :: "jstring \<Rightarrow> nat list" where
  "StringToCodePoints [] = []"
| "StringToCodePoints [c] = [unat c]"
| "StringToCodePoints (c # d # s) =
     (if 0xD800 \<le> c \<and> c \<le> 0xDBFF \<and> 0xDC00 \<le> d \<and> d \<le> 0xDFFF
      then (0x10000 + (unat c - 0xD800) * 0x400 + (unat d - 0xDC00)) # StringToCodePoints s
      else unat c # StringToCodePoints (d # s))"

definition UTF16EncodeCodePoint :: "nat \<Rightarrow> jstring" where
  "UTF16EncodeCodePoint cp =
     (if cp < 0x10000 then [of_nat cp]
      else [of_nat (0xD800 + (cp - 0x10000) div 0x400),
            of_nat (0xDC00 + (cp - 0x10000) mod 0x400)])"

definition CodePointsToString :: "nat list \<Rightarrow> jstring" where
  "CodePointsToString cps = concat (map UTF16EncodeCodePoint cps)"

subsection \<open>The case mappings of Unicode\<close>

text \<open>
  \<open>toUpperCase\<close> and \<open>toLowerCase\<close> map the code points of a string by the default case
  conversion of Unicode, whatever the locale: the simple mappings of UnicodeData.txt, the
  unconditional mappings of SpecialCasing.txt, which may give up to three code points for
  one, and for the capital sigma the rule \<open>Final_Sigma\<close>. The tables below are those of
  Unicode 15.0, for the code points from 128 on. A run \<open>(lo, hi, stride, to)\<close> maps the
  code points \<open>lo\<close>, \<open>lo + stride\<close>, ... up to \<open>hi\<close> to \<open>to\<close>, \<open>to + stride\<close>, ...; every
  code point in no run is mapped to itself.
\<close>

definition upper_runs :: "(nat \<times> nat \<times> nat \<times> nat) list" where
  "upper_runs =
     [
      (0xB5, 0xB5, 1, 0x39C), (0xE0, 0xF6, 1, 0xC0), (0xF8, 0xFE, 1, 0xD8), (0xFF, 0xFF, 1, 0x178),
      (0x101, 0x12F, 2, 0x100), (0x131, 0x131, 1, 0x49), (0x133, 0x137, 2, 0x132), (0x13A, 0x148, 2, 0x139),
      (0x14B, 0x177, 2, 0x14A), (0x17A, 0x17E, 2, 0x179), (0x17F, 0x17F, 1, 0x53), (0x180, 0x180, 1, 0x243),
      (0x183, 0x185, 2, 0x182), (0x188, 0x188, 1, 0x187), (0x18C, 0x18C, 1, 0x18B), (0x192, 0x192, 1, 0x191),
      (0x195, 0x195, 1, 0x1F6), (0x199, 0x199, 1, 0x198), (0x19A, 0x19A, 1, 0x23D), (0x19E, 0x19E, 1, 0x220),
      (0x1A1, 0x1A5, 2, 0x1A0), (0x1A8, 0x1A8, 1, 0x1A7), (0x1AD, 0x1AD, 1, 0x1AC), (0x1B0, 0x1B0, 1, 0x1AF),
      (0x1B4, 0x1B6, 2, 0x1B3), (0x1B9, 0x1B9, 1, 0x1B8), (0x1BD, 0x1BD, 1, 0x1BC), (0x1BF, 0x1BF, 1, 0x1F7),
      (0x1C5, 0x1C5, 1, 0x1C4), (0x1C6, 0x1C6, 1, 0x1C4), (0x1C8, 0x1C8, 1, 0x1C7), (0x1C9, 0x1C9, 1, 0x1C7),
      (0x1CB, 0x1CB, 1, 0x1CA), (0x1CC, 0x1CC, 1, 0x1CA), (0x1CE, 0x1DC, 2, 0x1CD), (0x1DD, 0x1DD, 1, 0x18E),
      (0x1DF, 0x1EF, 2, 0x1DE), (0x1F2, 0x1F2, 1, 0x1F1), (0x1F3, 0x1F3, 1, 0x1F1), (0x1F5, 0x1F5, 1, 0x1F4),
      (0x1F9, 0x21F, 2, 0x1F8), (0x223, 0x233, 2, 0x222), (0x23C, 0x23C, 1, 0x23B), (0x23F, 0x240, 1, 0x2C7E),
      (0x242, 0x242, 1, 0x241), (0x247, 0x24F, 2, 0x246), (0x250, 0x250, 1, 0x2C6F), (0x251, 0x251, 1, 0x2C6D),
      (0x252, 0x252, 1, 0x2C70), (0x253, 0x253, 1, 0x181), (0x254, 0x254, 1, 0x186), (0x256, 0x257, 1, 0x189),
      (0x259, 0x259, 1, 0x18F), (0x25B, 0x25B, 1, 0x190), (0x25C, 0x25C, 1, 0xA7AB), (0x260, 0x260, 1, 0x193),
      (0x261, 0x261, 1, 0xA7AC), (0x263, 0x263, 1, 0x194), (0x265, 0x265, 1, 0xA78D), (0x266, 0x266, 1, 0xA7AA),
      (0x268, 0x268, 1, 0x197), (0x269, 0x269, 1, 0x196), (0x26A, 0x26A, 1, 0xA7AE), (0x26B, 0x26B, 1, 0x2C62),
      (0x26C, 0x26C, 1, 0xA7AD), (0x26F, 0x26F, 1, 0x19C), (0x271, 0x271, 1, 0x2C6E), (0x272, 0x272, 1, 0x19D),
      (0x275, 0x275, 1, 0x19F), (0x27D, 0x27D, 1, 0x2C64), (0x280, 0x280, 1, 0x1A6), (0x282, 0x282, 1, 0xA7C5),
      (0x283, 0x283, 1, 0x1A9), (0x287, 0x287, 1, 0xA7B1), (0x288, 0x288, 1, 0x1AE), (0x289, 0x289, 1, 0x244),
      (0x28A, 0x28B, 1, 0x1B1), (0x28C, 0x28C, 1, 0x245), (0x292, 0x292, 1, 0x1B7), (0x29D, 0x29D, 1, 0xA7B2),
      (0x29E, 0x29E, 1, 0xA7B0), (0x345, 0x345, 1, 0x399), (0x371, 0x373, 2, 0x370), (0x377, 0x377, 1, 0x376),
      (0x37B, 0x37D, 1, 0x3FD), (0x3AC, 0x3AC, 1, 0x386), (0x3AD, 0x3AF, 1, 0x388), (0x3B1, 0x3C1, 1, 0x391),
      (0x3C2, 0x3C2, 1, 0x3A3), (0x3C3, 0x3CB, 1, 0x3A3), (0x3CC, 0x3CC, 1, 0x38C), (0x3CD, 0x3CE, 1, 0x38E),
      (0x3D0, 0x3D0, 1, 0x392), (0x3D1, 0x3D1, 1, 0x398), (0x3D5, 0x3D5, 1, 0x3A6), (0x3D6, 0x3D6, 1, 0x3A0),
      (0x3D7, 0x3D7, 1, 0x3CF), (0x3D9, 0x3EF, 2, 0x3D8), (0x3F0, 0x3F0, 1, 0x39A), (0x3F1, 0x3F1, 1, 0x3A1),
      (0x3F2, 0x3F2, 1, 0x3F9), (0x3F3, 0x3F3, 1, 0x37F), (0x3F5, 0x3F5, 1, 0x395), (0x3F8, 0x3F8, 1, 0x3F7),
      (0x3FB, 0x3FB, 1, 0x3FA), (0x430, 0x44F, 1, 0x410), (0x450, 0x45F, 1, 0x400), (0x461, 0x481, 2, 0x460),
      (0x48B, 0x4BF, 2, 0x48A), (0x4C2, 0x4CE, 2, 0x4C1), (0x4CF, 0x4CF, 1, 0x4C0), (0x4D1, 0x52F, 2, 0x4D0),
      (0x561, 0x586, 1, 0x531), (0x10D0, 0x10FA, 1, 0x1C90), (0x10FD, 0x10FF, 1, 0x1CBD), (0x13F8, 0x13FD, 1, 0x13F0),
      (0x1C80, 0x1C80, 1, 0x412), (0x1C81, 0x1C81, 1, 0x414), (0x1C82, 0x1C82, 1, 0x41E), (0x1C83, 0x1C84, 1, 0x421),
      (0x1C85, 0x1C85, 1, 0x422), (0x1C86, 0x1C86, 1, 0x42A), (0x1C87, 0x1C87, 1, 0x462), (0x1C88, 0x1C88, 1, 0xA64A),
      (0x1D79, 0x1D79, 1, 0xA77D), (0x1D7D, 0x1D7D, 1, 0x2C63), (0x1D8E, 0x1D8E, 1, 0xA7C6), (0x1E01, 0x1E95, 2, 0x1E00),
      (0x1E9B, 0x1E9B, 1, 0x1E60), (0x1EA1, 0x1EFF, 2, 0x1EA0), (0x1F00, 0x1F07, 1, 0x1F08), (0x1F10, 0x1F15, 1, 0x1F18),
      (0x1F20, 0x1F27, 1, 0x1F28), (0x1F30, 0x1F37, 1, 0x1F38), (0x1F40, 0x1F45, 1, 0x1F48), (0x1F51, 0x1F57, 2, 0x1F59),
      (0x1F60, 0x1F67, 1, 0x1F68), (0x1F70, 0x1F71, 1, 0x1FBA), (0x1F72, 0x1F75, 1, 0x1FC8), (0x1F76, 0x1F77, 1, 0x1FDA),
      (0x1F78, 0x1F79, 1, 0x1FF8), (0x1F7A, 0x1F7B, 1, 0x1FEA), (0x1F7C, 0x1F7D, 1, 0x1FFA), (0x1FB0, 0x1FB1, 1, 0x1FB8),
      (0x1FBE, 0x1FBE, 1, 0x399), (0x1FD0, 0x1FD1, 1, 0x1FD8), (0x1FE0, 0x1FE1, 1, 0x1FE8), (0x1FE5, 0x1FE5, 1, 0x1FEC),
      (0x214E, 0x214E, 1, 0x2132), (0x2170, 0x217F, 1, 0x2160), (0x2184, 0x2184, 1, 0x2183), (0x24D0, 0x24E9, 1, 0x24B6),
      (0x2C30, 0x2C5F, 1, 0x2C00), (0x2C61, 0x2C61, 1, 0x2C60), (0x2C65, 0x2C65, 1, 0x23A), (0x2C66, 0x2C66, 1, 0x23E),
      (0x2C68, 0x2C6C, 2, 0x2C67), (0x2C73, 0x2C73, 1, 0x2C72), (0x2C76, 0x2C76, 1, 0x2C75), (0x2C81, 0x2CE3, 2, 0x2C80),
      (0x2CEC, 0x2CEE, 2, 0x2CEB), (0x2CF3, 0x2CF3, 1, 0x2CF2), (0x2D00, 0x2D25, 1, 0x10A0), (0x2D27, 0x2D27, 1, 0x10C7),
      (0x2D2D, 0x2D2D, 1, 0x10CD), (0xA641, 0xA66D, 2, 0xA640), (0xA681, 0xA69B, 2, 0xA680), (0xA723, 0xA72F, 2, 0xA722),
      (0xA733, 0xA76F, 2, 0xA732), (0xA77A, 0xA77C, 2, 0xA779), (0xA77F, 0xA787, 2, 0xA77E), (0xA78C, 0xA78C, 1, 0xA78B),
      (0xA791, 0xA793, 2, 0xA790), (0xA794, 0xA794, 1, 0xA7C4), (0xA797, 0xA7A9, 2, 0xA796), (0xA7B5, 0xA7C3, 2, 0xA7B4),
      (0xA7C8, 0xA7CA, 2, 0xA7C7), (0xA7D1, 0xA7D1, 1, 0xA7D0), (0xA7D7, 0xA7D9, 2, 0xA7D6), (0xA7F6, 0xA7F6, 1, 0xA7F5),
      (0xAB53, 0xAB53, 1, 0xA7B3), (0xAB70, 0xABBF, 1, 0x13A0), (0xFF41, 0xFF5A, 1, 0xFF21), (0x10428, 0x1044F, 1, 0x10400),
      (0x104D8, 0x104FB, 1, 0x104B0), (0x10597, 0x105A1, 1, 0x10570), (0x105A3, 0x105B1, 1, 0x1057C), (0x105B3, 0x105B9, 1, 0x1058C),
      (0x105BB, 0x105BC, 1, 0x10594), (0x10CC0, 0x10CF2, 1, 0x10C80), (0x118C0, 0x118DF, 1, 0x118A0), (0x16E60, 0x16E7F, 1, 0x16E40),
      (0x1E922, 0x1E943, 1, 0x1E900)]"

definition special_upper :: "(nat \<times> nat list) list" where
  "special_upper =
     [
      (0xDF, [0x53, 0x53]), (0x149, [0x2BC, 0x4E]), (0x1F0, [0x4A, 0x30C]),
      (0x390, [0x399, 0x308, 0x301]), (0x3B0, [0x3A5, 0x308, 0x301]), (0x587, [0x535, 0x552]),
      (0x1E96, [0x48, 0x331]), (0x1E97, [0x54, 0x308]), (0x1E98, [0x57, 0x30A]),
      (0x1E99, [0x59, 0x30A]), (0x1E9A, [0x41, 0x2BE]), (0x1F50, [0x3A5, 0x313]),
      (0x1F52, [0x3A5, 0x313, 0x300]), (0x1F54, [0x3A5, 0x313, 0x301]), (0x1F56, [0x3A5, 0x313, 0x342]),
      (0x1F80, [0x1F08, 0x399]), (0x1F81, [0x1F09, 0x399]), (0x1F82, [0x1F0A, 0x399]),
      (0x1F83, [0x1F0B, 0x399]), (0x1F84, [0x1F0C, 0x399]), (0x1F85, [0x1F0D, 0x399]),
      (0x1F86, [0x1F0E, 0x399]), (0x1F87, [0x1F0F, 0x399]), (0x1F88, [0x1F08, 0x399]),
      (0x1F89, [0x1F09, 0x399]), (0x1F8A, [0x1F0A, 0x399]), (0x1F8B, [0x1F0B, 0x399]),
      (0x1F8C, [0x1F0C, 0x399]), (0x1F8D, [0x1F0D, 0x399]), (0x1F8E, [0x1F0E, 0x399]),
      (0x1F8F, [0x1F0F, 0x399]), (0x1F90, [0x1F28, 0x399]), (0x1F91, [0x1F29, 0x399]),
      (0x1F92, [0x1F2A, 0x399]), (0x1F93, [0x1F2B, 0x399]), (0x1F94, [0x1F2C, 0x399]),
      (0x1F95, [0x1F2D, 0x399]), (0x1F96, [0x1F2E, 0x399]), (0x1F97, [0x1F2F, 0x399]),
      (0x1F98, [0x1F28, 0x399]), (0x1F99, [0x1F29, 0x399]), (0x1F9A, [0x1F2A, 0x399]),
      (0x1F9B, [0x1F2B, 0x399]), (0x1F9C, [0x1F2C, 0x399]), (0x1F9D, [0x1F2D, 0x399]),
      (0x1F9E, [0x1F2E, 0x399]), (0x1F9F, [0x1F2F, 0x399]), (0x1FA0, [0x1F68, 0x399]),
      (0x1FA1, [0x1F69, 0x399]), (0x1FA2, [0x1F6A, 0x399]), (0x1FA3, [0x1F6B, 0x399]),
      (0x1FA4, [0x1F6C, 0x399]), (0x1FA5, [0x1F6D, 0x399]), (0x1FA6, [0x1F6E, 0x399]),
      (0x1FA7, [0x1F6F, 0x399]), (0x1FA8, [0x1F68, 0x399]), (0x1FA9, [0x1F69, 0x399]),
      (0x1FAA, [0x1F6A, 0x399]), (0x1FAB, [0x1F6B, 0x399]), (0x1FAC, [0x1F6C, 0x399]),
      (0x1FAD, [0x1F6D, 0x399]), (0x1FAE, [0x1F6E, 0x399]), (0x1FAF, [0x1F6F, 0x399]),
      (0x1FB2, [0x1FBA, 0x399]), (0x1FB3, [0x391, 0x399]), (0x1FB4, [0x386, 0x399]),
      (0x1FB6, [0x391, 0x342]), (0x1FB7, [0x391, 0x342, 0x399]), (0x1FBC, [0x391, 0x399]),
      (0x1FC2, [0x1FCA, 0x399]), (0x1FC3, [0x397, 0x399]), (0x1FC4, [0x389, 0x399]),
      (0x1FC6, [0x397, 0x342]), (0x1FC7, [0x397, 0x342, 0x399]), (0x1FCC, [0x397, 0x399]),
      (0x1FD2, [0x399, 0x308, 0x300]), (0x1FD3, [0x399, 0x308, 0x301]), (0x1FD6, [0x399, 0x342]),
      (0x1FD7, [0x399, 0x308, 0x342]), (0x1FE2, [0x3A5, 0x308, 0x300]), (0x1FE3, [0x3A5, 0x308, 0x301]),
      (0x1FE4, [0x3A1, 0x313]), (0x1FE6, [0x3A5, 0x342]), (0x1FE7, [0x3A5, 0x308, 0x342]),
      (0x1FF2, [0x1FFA, 0x399]), (0x1FF3, [0x3A9, 0x399]), (0x1FF4, [0x38F, 0x399]),
      (0x1FF6, [0x3A9, 0x342]), (0x1FF7, [0x3A9, 0x342, 0x399]), (0x1FFC, [0x3A9, 0x399]),
      (0xFB00, [0x46, 0x46]), (0xFB01, [0x46, 0x49]), (0xFB02, [0x46, 0x4C]),
      (0xFB03, [0x46, 0x46, 0x49]), (0xFB04, [0x46, 0x46, 0x4C]), (0xFB05, [0x53, 0x54]),
      (0xFB06, [0x53, 0x54]), (0xFB13, [0x544, 0x546]), (0xFB14, [0x544, 0x535]),
      (0xFB15, [0x544, 0x53B]), (0xFB16, [0x54E, 0x546]), (0xFB17, [0x544, 0x53D])]"

definition lower_runs :: "(nat \<times> nat \<times> nat \<times> nat) list" where
  "lower_runs =
     [
      (0xC0, 0xD6, 1, 0xE0), (0xD8, 0xDE, 1, 0xF8), (0x100, 0x12E, 2, 0x101), (0x132, 0x136, 2, 0x133),
      (0x139, 0x147, 2, 0x13A), (0x14A, 0x176, 2, 0x14B), (0x178, 0x178, 1, 0xFF), (0x179, 0x17D, 2, 0x17A),
      (0x181, 0x181, 1, 0x253), (0x182, 0x184, 2, 0x183), (0x186, 0x186, 1, 0x254), (0x187, 0x187, 1, 0x188),
      (0x189, 0x18A, 1, 0x256), (0x18B, 0x18B, 1, 0x18C), (0x18E, 0x18E, 1, 0x1DD), (0x18F, 0x18F, 1, 0x259),
      (0x190, 0x190, 1, 0x25B), (0x191, 0x191, 1, 0x192), (0x193, 0x193, 1, 0x260), (0x194, 0x194, 1, 0x263),
      (0x196, 0x196, 1, 0x269), (0x197, 0x197, 1, 0x268), (0x198, 0x198, 1, 0x199), (0x19C, 0x19C, 1, 0x26F),
      (0x19D, 0x19D, 1, 0x272), (0x19F, 0x19F, 1, 0x275), (0x1A0, 0x1A4, 2, 0x1A1), (0x1A6, 0x1A6, 1, 0x280),
      (0x1A7, 0x1A7, 1, 0x1A8), (0x1A9, 0x1A9, 1, 0x283), (0x1AC, 0x1AC, 1, 0x1AD), (0x1AE, 0x1AE, 1, 0x288),
      (0x1AF, 0x1AF, 1, 0x1B0), (0x1B1, 0x1B2, 1, 0x28A), (0x1B3, 0x1B5, 2, 0x1B4), (0x1B7, 0x1B7, 1, 0x292),
      (0x1B8, 0x1B8, 1, 0x1B9), (0x1BC, 0x1BC, 1, 0x1BD), (0x1C4, 0x1C4, 1, 0x1C6), (0x1C5, 0x1C5, 1, 0x1C6),
      (0x1C7, 0x1C7, 1, 0x1C9), (0x1C8, 0x1C8, 1, 0x1C9), (0x1CA, 0x1CA, 1, 0x1CC), (0x1CB, 0x1DB, 2, 0x1CC),
      (0x1DE, 0x1EE, 2, 0x1DF), (0x1F1, 0x1F1, 1, 0x1F3), (0x1F2, 0x1F4, 2, 0x1F3), (0x1F6, 0x1F6, 1, 0x195),
      (0x1F7, 0x1F7, 1, 0x1BF), (0x1F8, 0x21E, 2, 0x1F9), (0x220, 0x220, 1, 0x19E), (0x222, 0x232, 2, 0x223),
      (0x23A, 0x23A, 1, 0x2C65), (0x23B, 0x23B, 1, 0x23C), (0x23D, 0x23D, 1, 0x19A), (0x23E, 0x23E, 1, 0x2C66),
      (0x241, 0x241, 1, 0x242), (0x243, 0x243, 1, 0x180), (0x244, 0x244, 1, 0x289), (0x245, 0x245, 1, 0x28C),
      (0x246, 0x24E, 2, 0x247), (0x370, 0x372, 2, 0x371), (0x376, 0x376, 1, 0x377), (0x37F, 0x37F, 1, 0x3F3),
      (0x386, 0x386, 1, 0x3AC), (0x388, 0x38A, 1, 0x3AD), (0x38C, 0x38C, 1, 0x3CC), (0x38E, 0x38F, 1, 0x3CD),
      (0x391, 0x3A1, 1, 0x3B1), (0x3A3, 0x3AB, 1, 0x3C3), (0x3CF, 0x3CF, 1, 0x3D7), (0x3D8, 0x3EE, 2, 0x3D9),
      (0x3F4, 0x3F4, 1, 0x3B8), (0x3F7, 0x3F7, 1, 0x3F8), (0x3F9, 0x3F9, 1, 0x3F2), (0x3FA, 0x3FA, 1, 0x3FB),
      (0x3FD, 0x3FF, 1, 0x37B), (0x400, 0x40F, 1, 0x450), (0x410, 0x42F, 1, 0x430), (0x460, 0x480, 2, 0x461),
      (0x48A, 0x4BE, 2, 0x48B), (0x4C0, 0x4C0, 1, 0x4CF), (0x4C1, 0x4CD, 2, 0x4C2), (0x4D0, 0x52E, 2, 0x4D1),
      (0x531, 0x556, 1, 0x561), (0x10A0, 0x10C5, 1, 0x2D00), (0x10C7, 0x10C7, 1, 0x2D27), (0x10CD, 0x10CD, 1, 0x2D2D),
      (0x13A0, 0x13EF, 1, 0xAB70), (0x13F0, 0x13F5, 1, 0x13F8), (0x1C90, 0x1CBA, 1, 0x10D0), (0x1CBD, 0x1CBF, 1, 0x10FD),
      (0x1E00, 0x1E94, 2, 0x1E01), (0x1E9E, 0x1E9E, 1, 0xDF), (0x1EA0, 0x1EFE, 2, 0x1EA1), (0x1F08, 0x1F0F, 1, 0x1F00),
      (0x1F18, 0x1F1D, 1, 0x1F10), (0x1F28, 0x1F2F, 1, 0x1F20), (0x1F38, 0x1F3F, 1, 0x1F30), (0x1F48, 0x1F4D, 1, 0x1F40),
      (0x1F59, 0x1F5F, 2, 0x1F51), (0x1F68, 0x1F6F, 1, 0x1F60), (0x1F88, 0x1F8F, 1, 0x1F80), (0x1F98, 0x1F9F, 1, 0x1F90),
      (0x1FA8, 0x1FAF, 1, 0x1FA0), (0x1FB8, 0x1FB9, 1, 0x1FB0), (0x1FBA, 0x1FBB, 1, 0x1F70), (0x1FBC, 0x1FBC, 1, 0x1FB3),
      (0x1FC8, 0x1FCB, 1, 0x1F72), (0x1FCC, 0x1FCC, 1, 0x1FC3), (0x1FD8, 0x1FD9, 1, 0x1FD0), (0x1FDA, 0x1FDB, 1, 0x1F76),
      (0x1FE8, 0x1FE9, 1, 0x1FE0), (0x1FEA, 0x1FEB, 1, 0x1F7A), (0x1FEC, 0x1FEC, 1, 0x1FE5), (0x1FF8, 0x1FF9, 1, 0x1F78),
      (0x1FFA, 0x1FFB, 1, 0x1F7C), (0x1FFC, 0x1FFC, 1, 0x1FF3), (0x2126, 0x2126, 1, 0x3C9), (0x212A, 0x212A, 1, 0x6B),
      (0x212B, 0x212B, 1, 0xE5), (0x2132, 0x2132, 1, 0x214E), (0x2160, 0x216F, 1, 0x2170), (0x2183, 0x2183, 1, 0x2184),
      (0x24B6, 0x24CF, 1, 0x24D0), (0x2C00, 0x2C2F, 1, 0x2C30), (0x2C60, 0x2C60, 1, 0x2C61), (0x2C62, 0x2C62, 1, 0x26B),
      (0x2C63, 0x2C63, 1, 0x1D7D), (0x2C64, 0x2C64, 1, 0x27D), (0x2C67, 0x2C6B, 2, 0x2C68), (0x2C6D, 0x2C6D, 1, 0x251),
      (0x2C6E, 0x2C6E, 1, 0x271), (0x2C6F, 0x2C6F, 1, 0x250), (0x2C70, 0x2C70, 1, 0x252), (0x2C72, 0x2C72, 1, 0x2C73),
      (0x2C75, 0x2C75, 1, 0x2C76), (0x2C7E, 0x2C7F, 1, 0x23F), (0x2C80, 0x2CE2, 2, 0x2C81), (0x2CEB, 0x2CED, 2, 0x2CEC),
      (0x2CF2, 0x2CF2, 1, 0x2CF3), (0xA640, 0xA66C, 2, 0xA641), (0xA680, 0xA69A, 2, 0xA681), (0xA722, 0xA72E, 2, 0xA723),
      (0xA732, 0xA76E, 2, 0xA733), (0xA779, 0xA77B, 2, 0xA77A), (0xA77D, 0xA77D, 1, 0x1D79), (0xA77E, 0xA786, 2, 0xA77F),
      (0xA78B, 0xA78B, 1, 0xA78C), (0xA78D, 0xA78D, 1, 0x265), (0xA790, 0xA792, 2, 0xA791), (0xA796, 0xA7A8, 2, 0xA797),
      (0xA7AA, 0xA7AA, 1, 0x266), (0xA7AB, 0xA7AB, 1, 0x25C), (0xA7AC, 0xA7AC, 1, 0x261), (0xA7AD, 0xA7AD, 1, 0x26C),
      (0xA7AE, 0xA7AE, 1, 0x26A), (0xA7B0, 0xA7B0, 1, 0x29E), (0xA7B1, 0xA7B1, 1, 0x287), (0xA7B2, 0xA7B2, 1, 0x29D),
      (0xA7B3, 0xA7B3, 1, 0xAB53), (0xA7B4, 0xA7C2, 2, 0xA7B5), (0xA7C4, 0xA7C4, 1, 0xA794), (0xA7C5, 0xA7C5, 1, 0x282),
      (0xA7C6, 0xA7C6, 1, 0x1D8E), (0xA7C7, 0xA7C9, 2, 0xA7C8), (0xA7D0, 0xA7D0, 1, 0xA7D1), (0xA7D6, 0xA7D8, 2, 0xA7D7),
      (0xA7F5, 0xA7F5, 1, 0xA7F6), (0xFF21, 0xFF3A, 1, 0xFF41), (0x10400, 0x10427, 1, 0x10428), (0x104B0, 0x104D3, 1, 0x104D8),
      (0x10570, 0x1057A, 1, 0x10597), (0x1057C, 0x1058A, 1, 0x105A3), (0x1058C, 0x10592, 1, 0x105B3), (0x10594, 0x10595, 1, 0x105BB),
      (0x10C80, 0x10CB2, 1, 0x10CC0), (0x118A0, 0x118BF, 1, 0x118C0), (0x16E40, 0x16E5F, 1, 0x16E60), (0x1E900, 0x1E921, 1, 0x1E922)]"

definition cased_ranges :: "(nat \<times> nat) list" where
  "cased_ranges =
     [
      (0x41, 0x5A), (0x61, 0x7A), (0xAA, 0xAA), (0xB5, 0xB5), (0xBA, 0xBA), (0xC0, 0xD6),
      (0xD8, 0xF6), (0xF8, 0x1BA), (0x1BC, 0x1BF), (0x1C4, 0x293), (0x295, 0x2B8), (0x2C0, 0x2C1),
      (0x2E0, 0x2E4), (0x345, 0x345), (0x370, 0x373), (0x376, 0x377), (0x37A, 0x37D), (0x37F, 0x37F),
      (0x386, 0x386), (0x388, 0x38A), (0x38C, 0x38C), (0x38E, 0x3A1), (0x3A3, 0x3F5), (0x3F7, 0x481),
      (0x48A, 0x52F), (0x531, 0x556), (0x560, 0x588), (0x10A0, 0x10C5), (0x10C7, 0x10C7), (0x10CD, 0x10CD),
      (0x10D0, 0x10FA), (0x10FC, 0x10FF), (0x13A0, 0x13F5), (0x13F8, 0x13FD), (0x1C80, 0x1C88), (0x1C90, 0x1CBA),
      (0x1CBD, 0x1CBF), (0x1D00, 0x1DBF), (0x1E00, 0x1F15), (0x1F18, 0x1F1D), (0x1F20, 0x1F45), (0x1F48, 0x1F4D),
      (0x1F50, 0x1F57), (0x1F59, 0x1F59), (0x1F5B, 0x1F5B), (0x1F5D, 0x1F5D), (0x1F5F, 0x1F7D), (0x1F80, 0x1FB4),
      (0x1FB6, 0x1FBC), (0x1FBE, 0x1FBE), (0x1FC2, 0x1FC4), (0x1FC6, 0x1FCC), (0x1FD0, 0x1FD3), (0x1FD6, 0x1FDB),
      (0x1FE0, 0x1FEC), (0x1FF2, 0x1FF4), (0x1FF6, 0x1FFC), (0x2071, 0x2071), (0x207F, 0x207F), (0x2090, 0x209C),
      (0x2102, 0x2102), (0x2107, 0x2107), (0x210A, 0x2113), (0x2115, 0x2115), (0x2119, 0x211D), (0x2124, 0x2124),
      (0x2126, 0x2126), (0x2128, 0x2128), (0x212A, 0x212D), (0x212F, 0x2134), (0x2139, 0x2139), (0x213C, 0x213F),
      (0x2145, 0x2149), (0x214E, 0x214E), (0x2160, 0x217F), (0x2183, 0x2184), (0x24B6, 0x24E9), (0x2C00, 0x2CE4),
      (0x2CEB, 0x2CEE), (0x2CF2, 0x2CF3), (0x2D00, 0x2D25), (0x2D27, 0x2D27), (0x2D2D, 0x2D2D), (0xA640, 0xA66D),
      (0xA680, 0xA69D), (0xA722, 0xA787), (0xA78B, 0xA78E), (0xA790, 0xA7CA), (0xA7D0, 0xA7D1), (0xA7D3, 0xA7D3),
      (0xA7D5, 0xA7D9), (0xA7F2, 0xA7F6), (0xA7F8, 0xA7FA), (0xAB30, 0xAB5A), (0xAB5C, 0xAB69), (0xAB70, 0xABBF),
      (0xFB00, 0xFB06), (0xFB13, 0xFB17), (0xFF21, 0xFF3A), (0xFF41, 0xFF5A), (0x10400, 0x1044F), (0x104B0, 0x104D3),
      (0x104D8, 0x104FB), (0x10570, 0x1057A), (0x1057C, 0x1058A), (0x1058C, 0x10592), (0x10594, 0x10595), (0x10597, 0x105A1),
      (0x105A3, 0x105B1), (0x105B3, 0x105B9), (0x105BB, 0x105BC), (0x10780, 0x10780), (0x10783, 0x10785), (0x10787, 0x107B0),
      (0x107B2, 0x107BA), (0x10C80, 0x10CB2), (0x10CC0, 0x10CF2), (0x118A0, 0x118DF), (0x16E40, 0x16E7F), (0x1D400, 0x1D454),
      (0x1D456, 0x1D49C), (0x1D49E, 0x1D49F), (0x1D4A2, 0x1D4A2), (0x1D4A5, 0x1D4A6), (0x1D4A9, 0x1D4AC), (0x1D4AE, 0x1D4B9),
      (0x1D4BB, 0x1D4BB), (0x1D4BD, 0x1D4C3), (0x1D4C5, 0x1D505), (0x1D507, 0x1D50A), (0x1D50D, 0x1D514), (0x1D516, 0x1D51C),
      (0x1D51E, 0x1D539), (0x1D53B, 0x1D53E), (0x1D540, 0x1D544), (0x1D546, 0x1D546), (0x1D54A, 0x1D550), (0x1D552, 0x1D6A5),
      (0x1D6A8, 0x1D6C0), (0x1D6C2, 0x1D6DA), (0x1D6DC, 0x1D6FA), (0x1D6FC, 0x1D714), (0x1D716, 0x1D734), (0x1D736, 0x1D74E),
      (0x1D750, 0x1D76E), (0x1D770, 0x1D788), (0x1D78A, 0x1D7A8), (0x1D7AA, 0x1D7C2), (0x1D7C4, 0x1D7CB), (0x1DF00, 0x1DF09),
      (0x1DF0B, 0x1DF1E), (0x1DF25, 0x1DF2A), (0x1E030, 0x1E06D), (0x1E900, 0x1E943), (0x1F130, 0x1F149), (0x1F150, 0x1F169),
      (0x1F170, 0x1F189)]"

definition case_ignorable_ranges :: "(nat \<times> nat) list" where
  "case_ignorable_ranges =
     [
      (0x27, 0x27), (0x2E, 0x2E), (0x3A, 0x3A), (0x5E, 0x5E), (0x60, 0x60), (0xA8, 0xA8),
      (0xAD, 0xAD), (0xAF, 0xAF), (0xB4, 0xB4), (0xB7, 0xB8), (0x2B0, 0x36F), (0x374, 0x375),
      (0x37A, 0x37A), (0x384, 0x385), (0x387, 0x387), (0x483, 0x489), (0x559, 0x559), (0x55F, 0x55F),
      (0x591, 0x5BD), (0x5BF, 0x5BF), (0x5C1, 0x5C2), (0x5C4, 0x5C5), (0x5C7, 0x5C7), (0x5F4, 0x5F4),
      (0x600, 0x605), (0x610, 0x61A), (0x61C, 0x61C), (0x640, 0x640), (0x64B, 0x65F), (0x670, 0x670),
      (0x6D6, 0x6DD), (0x6DF, 0x6E8), (0x6EA, 0x6ED), (0x70F, 0x70F), (0x711, 0x711), (0x730, 0x74A),
      (0x7A6, 0x7B0), (0x7EB, 0x7F5), (0x7FA, 0x7FA), (0x7FD, 0x7FD), (0x816, 0x82D), (0x859, 0x85B),
      (0x888, 0x888), (0x890, 0x891), (0x898, 0x89F), (0x8C9, 0x902), (0x93A, 0x93A), (0x93C, 0x93C),
      (0x941, 0x948), (0x94D, 0x94D), (0x951, 0x957), (0x962, 0x963), (0x971, 0x971), (0x981, 0x981),
      (0x9BC, 0x9BC), (0x9C1, 0x9C4), (0x9CD, 0x9CD), (0x9E2, 0x9E3), (0x9FE, 0x9FE), (0xA01, 0xA02),
      (0xA3C, 0xA3C), (0xA41, 0xA42), (0xA47, 0xA48), (0xA4B, 0xA4D), (0xA51, 0xA51), (0xA70, 0xA71),
      (0xA75, 0xA75), (0xA81, 0xA82), (0xABC, 0xABC), (0xAC1, 0xAC5), (0xAC7, 0xAC8), (0xACD, 0xACD),
      (0xAE2, 0xAE3), (0xAFA, 0xAFF), (0xB01, 0xB01), (0xB3C, 0xB3C), (0xB3F, 0xB3F), (0xB41, 0xB44),
      (0xB4D, 0xB4D), (0xB55, 0xB56), (0xB62, 0xB63), (0xB82, 0xB82), (0xBC0, 0xBC0), (0xBCD, 0xBCD),
      (0xC00, 0xC00), (0xC04, 0xC04), (0xC3C, 0xC3C), (0xC3E, 0xC40), (0xC46, 0xC48), (0xC4A, 0xC4D),
      (0xC55, 0xC56), (0xC62, 0xC63), (0xC81, 0xC81), (0xCBC, 0xCBC), (0xCBF, 0xCBF), (0xCC6, 0xCC6),
      (0xCCC, 0xCCD), (0xCE2, 0xCE3), (0xD00, 0xD01), (0xD3B, 0xD3C), (0xD41, 0xD44), (0xD4D, 0xD4D),
      (0xD62, 0xD63), (0xD81, 0xD81), (0xDCA, 0xDCA), (0xDD2, 0xDD4), (0xDD6, 0xDD6), (0xE31, 0xE31),
      (0xE34, 0xE3A), (0xE46, 0xE4E), (0xEB1, 0xEB1), (0xEB4, 0xEBC), (0xEC6, 0xEC6), (0xEC8, 0xECE),
      (0xF18, 0xF19), (0xF35, 0xF35), (0xF37, 0xF37), (0xF39, 0xF39), (0xF71, 0xF7E), (0xF80, 0xF84),
      (0xF86, 0xF87), (0xF8D, 0xF97), (0xF99, 0xFBC), (0xFC6, 0xFC6), (0x102D, 0x1030), (0x1032, 0x1037),
      (0x1039, 0x103A), (0x103D, 0x103E), (0x1058, 0x1059), (0x105E, 0x1060), (0x1071, 0x1074), (0x1082, 0x1082),
      (0x1085, 0x1086), (0x108D, 0x108D), (0x109D, 0x109D), (0x10FC, 0x10FC), (0x135D, 0x135F), (0x1712, 0x1714),
      (0x1732, 0x1733), (0x1752, 0x1753), (0x1772, 0x1773), (0x17B4, 0x17B5), (0x17B7, 0x17BD), (0x17C6, 0x17C6),
      (0x17C9, 0x17D3), (0x17D7, 0x17D7), (0x17DD, 0x17DD), (0x180B, 0x180F), (0x1843, 0x1843), (0x1885, 0x1886),
      (0x18A9, 0x18A9), (0x1920, 0x1922), (0x1927, 0x1928), (0x1932, 0x1932), (0x1939, 0x193B), (0x1A17, 0x1A18),
      (0x1A1B, 0x1A1B), (0x1A56, 0x1A56), (0x1A58, 0x1A5E), (0x1A60, 0x1A60), (0x1A62, 0x1A62), (0x1A65, 0x1A6C),
      (0x1A73, 0x1A7C), (0x1A7F, 0x1A7F), (0x1AA7, 0x1AA7), (0x1AB0, 0x1ACE), (0x1B00, 0x1B03), (0x1B34, 0x1B34),
      (0x1B36, 0x1B3A), (0x1B3C, 0x1B3C), (0x1B42, 0x1B42), (0x1B6B, 0x1B73), (0x1B80, 0x1B81), (0x1BA2, 0x1BA5),
      (0x1BA8, 0x1BA9), (0x1BAB, 0x1BAD), (0x1BE6, 0x1BE6), (0x1BE8, 0x1BE9), (0x1BED, 0x1BED), (0x1BEF, 0x1BF1),
      (0x1C2C, 0x1C33), (0x1C36, 0x1C37), (0x1C78, 0x1C7D), (0x1CD0, 0x1CD2), (0x1CD4, 0x1CE0), (0x1CE2, 0x1CE8),
      (0x1CED, 0x1CED), (0x1CF4, 0x1CF4), (0x1CF8, 0x1CF9), (0x1D2C, 0x1D6A), (0x1D78, 0x1D78), (0x1D9B, 0x1DFF),
      (0x1FBD, 0x1FBD), (0x1FBF, 0x1FC1), (0x1FCD, 0x1FCF), (0x1FDD, 0x1FDF), (0x1FED, 0x1FEF), (0x1FFD, 0x1FFE),
      (0x200B, 0x200F), (0x2018, 0x2019), (0x2024, 0x2024), (0x2027, 0x2027), (0x202A, 0x202E), (0x2060, 0x2064),
      (0x2066, 0x206F), (0x2071, 0x2071), (0x207F, 0x207F), (0x2090, 0x209C), (0x20D0, 0x20F0), (0x2C7C, 0x2C7D),
      (0x2CEF, 0x2CF1), (0x2D6F, 0x2D6F), (0x2D7F, 0x2D7F), (0x2DE0, 0x2DFF), (0x2E2F, 0x2E2F), (0x3005, 0x3005),
      (0x302A, 0x302D), (0x3031, 0x3035), (0x303B, 0x303B), (0x3099, 0x309E), (0x30FC, 0x30FE), (0xA015, 0xA015),
      (0xA4F8, 0xA4FD), (0xA60C, 0xA60C), (0xA66F, 0xA672), (0xA674, 0xA67D), (0xA67F, 0xA67F), (0xA69C, 0xA69F),
      (0xA6F0, 0xA6F1), (0xA700, 0xA721), (0xA770, 0xA770), (0xA788, 0xA78A), (0xA7F2, 0xA7F4), (0xA7F8, 0xA7F9),
      (0xA802, 0xA802), (0xA806, 0xA806), (0xA80B, 0xA80B), (0xA825, 0xA826), (0xA82C, 0xA82C), (0xA8C4, 0xA8C5),
      (0xA8E0, 0xA8F1), (0xA8FF, 0xA8FF), (0xA926, 0xA92D), (0xA947, 0xA951), (0xA980, 0xA982), (0xA9B3, 0xA9B3),
      (0xA9B6, 0xA9B9), (0xA9BC, 0xA9BD), (0xA9CF, 0xA9CF), (0xA9E5, 0xA9E6), (0xAA29, 0xAA2E), (0xAA31, 0xAA32),
      (0xAA35, 0xAA36), (0xAA43, 0xAA43), (0xAA4C, 0xAA4C), (0xAA70, 0xAA70), (0xAA7C, 0xAA7C), (0xAAB0, 0xAAB0),
      (0xAAB2, 0xAAB4), (0xAAB7, 0xAAB8), (0xAABE, 0xAABF), (0xAAC1, 0xAAC1), (0xAADD, 0xAADD), (0xAAEC, 0xAAED),
      (0xAAF3, 0xAAF4), (0xAAF6, 0xAAF6), (0xAB5B, 0xAB5F), (0xAB69, 0xAB6B), (0xABE5, 0xABE5), (0xABE8, 0xABE8),
      (0xABED, 0xABED), (0xFB1E, 0xFB1E), (0xFBB2, 0xFBC2), (0xFE00, 0xFE0F), (0xFE13, 0xFE13), (0xFE20, 0xFE2F),
      (0xFE52, 0xFE52), (0xFE55, 0xFE55), (0xFEFF, 0xFEFF), (0xFF07, 0xFF07), (0xFF0E, 0xFF0E), (0xFF1A, 0xFF1A),
      (0xFF3E, 0xFF3E), (0xFF40, 0xFF40), (0xFF70, 0xFF70), (0xFF9E, 0xFF9F), (0xFFE3, 0xFFE3), (0xFFF9, 0xFFFB),
      (0x101FD, 0x101FD), (0x102E0, 0x102E0), (0x10376, 0x1037A), (0x10780, 0x10785), (0x10787, 0x107B0), (0x107B2, 0x107BA),
      (0x10A01, 0x10A03), (0x10A05, 0x10A06), (0x10A0C, 0x10A0F), (0x10A38, 0x10A3A), (0x10A3F, 0x10A3F), (0x10AE5, 0x10AE6),
      (0x10D24, 0x10D27), (0x10EAB, 0x10EAC), (0x10EFD, 0x10EFF), (0x10F46, 0x10F50), (0x10F82, 0x10F85), (0x11001, 0x11001),
      (0x11038, 0x11046), (0x11070, 0x11070), (0x11073, 0x11074), (0x1107F, 0x11081), (0x110B3, 0x110B6), (0x110B9, 0x110BA),
      (0x110BD, 0x110BD), (0x110C2, 0x110C2), (0x110CD, 0x110CD), (0x11100, 0x11102), (0x11127, 0x1112B), (0x1112D, 0x11134),
      (0x11173, 0x11173), (0x11180, 0x11181), (0x111B6, 0x111BE), (0x111C9, 0x111CC), (0x111CF, 0x111CF), (0x1122F, 0x11231),
      (0x11234, 0x11234), (0x11236, 0x11237), (0x1123E, 0x1123E), (0x11241, 0x11241), (0x112DF, 0x112DF), (0x112E3, 0x112EA),
      (0x11300, 0x11301), (0x1133B, 0x1133C), (0x11340, 0x11340), (0x11366, 0x1136C), (0x11370, 0x11374), (0x11438, 0x1143F),
      (0x11442, 0x11444), (0x11446, 0x11446), (0x1145E, 0x1145E), (0x114B3, 0x114B8), (0x114BA, 0x114BA), (0x114BF, 0x114C0),
      (0x114C2, 0x114C3), (0x115B2, 0x115B5), (0x115BC, 0x115BD), (0x115BF, 0x115C0), (0x115DC, 0x115DD), (0x11633, 0x1163A),
      (0x1163D, 0x1163D), (0x1163F, 0x11640), (0x116AB, 0x116AB), (0x116AD, 0x116AD), (0x116B0, 0x116B5), (0x116B7, 0x116B7),
      (0x1171D, 0x1171F), (0x11722, 0x11725), (0x11727, 0x1172B), (0x1182F, 0x11837), (0x11839, 0x1183A), (0x1193B, 0x1193C),
      (0x1193E, 0x1193E), (0x11943, 0x11943), (0x119D4, 0x119D7), (0x119DA, 0x119DB), (0x119E0, 0x119E0), (0x11A01, 0x11A0A),
      (0x11A33, 0x11A38), (0x11A3B, 0x11A3E), (0x11A47, 0x11A47), (0x11A51, 0x11A56), (0x11A59, 0x11A5B), (0x11A8A, 0x11A96),
      (0x11A98, 0x11A99), (0x11C30, 0x11C36), (0x11C38, 0x11C3D), (0x11C3F, 0x11C3F), (0x11C92, 0x11CA7), (0x11CAA, 0x11CB0),
      (0x11CB2, 0x11CB3), (0x11CB5, 0x11CB6), (0x11D31, 0x11D36), (0x11D3A, 0x11D3A), (0x11D3C, 0x11D3D), (0x11D3F, 0x11D45),
      (0x11D47, 0x11D47), (0x11D90, 0x11D91), (0x11D95, 0x11D95), (0x11D97, 0x11D97), (0x11EF3, 0x11EF4), (0x11F00, 0x11F01),
      (0x11F36, 0x11F3A), (0x11F40, 0x11F40), (0x11F42, 0x11F42), (0x13430, 0x13440), (0x13447, 0x13455), (0x16AF0, 0x16AF4),
      (0x16B30, 0x16B36), (0x16B40, 0x16B43), (0x16F4F, 0x16F4F), (0x16F8F, 0x16F9F), (0x16FE0, 0x16FE1), (0x16FE3, 0x16FE4),
      (0x1AFF0, 0x1AFF3), (0x1AFF5, 0x1AFFB), (0x1AFFD, 0x1AFFE), (0x1BC9D, 0x1BC9E), (0x1BCA0, 0x1BCA3), (0x1CF00, 0x1CF2D),
      (0x1CF30, 0x1CF46), (0x1D167, 0x1D169), (0x1D173, 0x1D182), (0x1D185, 0x1D18B), (0x1D1AA, 0x1D1AD), (0x1D242, 0x1D244),
      (0x1DA00, 0x1DA36), (0x1DA3B, 0x1DA6C), (0x1DA75, 0x1DA75), (0x1DA84, 0x1DA84), (0x1DA9B, 0x1DA9F), (0x1DAA1, 0x1DAAF),
      (0x1E000, 0x1E006), (0x1E008, 0x1E018), (0x1E01B, 0x1E021), (0x1E023, 0x1E024), (0x1E026, 0x1E02A), (0x1E030, 0x1E06D),
      (0x1E08F, 0x1E08F), (0x1E130, 0x1E13D), (0x1E2AE, 0x1E2AE), (0x1E2EC, 0x1E2EF), (0x1E4EB, 0x1E4EF), (0x1E8D0, 0x1E8D6),
      (0x1E944, 0x1E94B), (0x1F3FB, 0x1F3FF), (0xE0001, 0xE0001), (0xE0020, 0xE007F), (0xE0100, 0xE01EF)]"

definition map_runs :: "(nat \<times> nat \<times> nat \<times> nat) list \<Rightarrow> nat \<Rightarrow> nat" where
  "map_runs runs c =
     (case find (\<lambda>(lo, hi, stride, to). lo \<le> c \<and> c \<le> hi \<and> (c - lo) mod stride = 0) runs of
        None \<Rightarrow> c
      | Some (lo, hi, stride, to) \<Rightarrow> to + (c - lo))"

definition in_ranges :: "(nat \<times> nat) list \<Rightarrow> nat \<Rightarrow> bool" where
  "in_ranges ranges c = list_ex (\<lambda>(lo, hi). lo \<le> c \<and> c \<le> hi) ranges"

text \<open>The upper case and the lower case of one code point. The only code point whose
  lower case is more than one code point is U+0130.\<close>

definition toUppercase :: "nat \<Rightarrow> nat list" where
  "toUppercase c =
     (if c < 0x80 then [if 0x61 \<le> c \<and> c \<le> 0x7A then c - 0x20 else c]
      else (case map_of special_upper c of
              Some cs \<Rightarrow> cs
            | None \<Rightarrow> [map_runs upper_runs c]))"

definition toLowercase :: "nat \<Rightarrow> nat list" where
  "toLowercase c =
     (if c < 0x80 then [if 0x41 \<le> c \<and> c \<le> 0x5A then c + 0x20 else c]
      else if c = 0x130 then [0x69, 0x307]
      else [map_runs lower_runs c])"

text \<open>
  \<open>Final_Sigma\<close>: the capital sigma U+03A3 becomes the final small sigma U+03C2 when a
  cased letter comes before it, with nothing but case-ignorable code points in between,
  and no cased letter comes after it in the same way; otherwise it becomes U+03C3.
  \<open>before\<close> is the text before the sigma, the nearest code point first.
\<close>

definition cased_next :: "nat list \<Rightarrow> bool" where
  "cased_next cps =
     (case dropWhile (in_ranges case_ignorable_ranges) cps of
        [] \<Rightarrow> False
      | c # rest \<Rightarrow> in_ranges cased_ranges c)"

definition Final_Sigma :: "nat list \<Rightarrow> nat list \<Rightarrow> bool" where
  "Final_Sigma before after \<longleftrightarrow> cased_next before \<and> \<not> cased_next after"

fun lowercase_from :: "nat list \<Rightarrow> nat list \<Rightarrow> nat list" where
  "lowercase_from before [] = []"
| "lowercase_from before (c # after) =
     (if c = 0x3A3 then [if Final_Sigma before after then 0x3C2 else 0x3C3]
      else toLowercase c)
     @ lowercase_from (c # before) after"

definition toUpperCase :: "jstring \<Rightarrow> jstring" where
  "toUpperCase s = CodePointsToString (concat (map toUppercase (StringToCodePoints s)))"

definition toLowerCase :: "jstring \<Rightarrow> jstring" where
  "toLowerCase s = CodePointsToString (lowercase_from [] (StringToCodePoints s))"

subsection \<open>Trimming, searching and parsing\<close>

text \<open>White space as \<open>trim\<close> and \<open>parseInt\<close> see it: the white space and the line
  terminators of ECMAScript, which are tab, line feed, vertical tab, form feed, carriage
  return, the space separators of Unicode, U+2028, U+2029 and U+FEFF.\<close>

definition is_ws :: "code_unit \<Rightarrow> bool" where
  "is_ws c \<longleftrightarrow>
     c \<in> set [0x09, 0x0A, 0x0B, 0x0C, 0x0D, 0x20, 0xA0, 0x1680, 0x2028, 0x2029, 0x202F,
               0x205F, 0x3000, 0xFEFF]
     \<or> (0x2000 \<le> c \<and> c \<le> 0x200A)"

definition trim :: "jstring \<Rightarrow> jstring" where
  "trim s = rev (dropWhile is_ws (rev (dropWhile is_ws s)))"

text \<open>\<open>x && x.trim()\<close> as a condition: the parameter is present and not blank.\<close>

definition given :: "jstring option \<Rightarrow> bool" where
  "given x = (case x of None \<Rightarrow> False | Some s \<Rightarrow> trim s \<noteq> [])"

fun startsWith :: "jstring \<Rightarrow> jstring \<Rightarrow> bool" where
  "startsWith s [] = True"
| "startsWith [] (c # cs) = False"
| "startsWith (d # ds) (c # cs) = (d = c \<and> startsWith ds cs)"

fun js_includes :: "jstring \<Rightarrow> jstring \<Rightarrow> bool" where
  "js_includes [] n = (n = [])"
| "js_includes (c # cs) n = (startsWith (c # cs) n \<or> js_includes cs n)"

text \<open>\<open>parseInt(s)\<close> without a radix: leading white space, a sign, then hexadecimal
  digits after \<open>0x\<close> or decimal digits; \<open>None\<close> is \<open>NaN\<close>. The digits are the code units
  of 0 to 9, a to f and A to F.\<close>

definition digit_of :: "nat \<Rightarrow> code_unit \<Rightarrow> nat option" where
  "digit_of radix c =
     (case map_of
        [(0x30, 0), (0x31, 1), (0x32, 2), (0x33, 3), (0x34, 4),
         (0x35, 5), (0x36, 6), (0x37, 7), (0x38, 8), (0x39, 9),
         (0x61, 10), (0x62, 11), (0x63, 12), (0x64, 13), (0x65, 14),
         (0x66, 15), (0x41, 10), (0x42, 11), (0x43, 12), (0x44, 13),
         (0x45, 14), (0x46, 15)] c of
        Some d \<Rightarrow> if d < radix then Some d else None
      | None \<Rightarrow> None)"

fun digits :: "nat \<Rightarrow> jstring \<Rightarrow> nat option \<Rightarrow> nat option" where
  "digits radix [] acc = acc"
| "digits radix (c # cs) acc =
     (case digit_of radix c of
        None \<Rightarrow> acc
      | Some d \<Rightarrow> digits radix cs (Some ((case acc of None \<Rightarrow> 0 | Some a \<Rightarrow> a) * radix + d)))"

definition parseInt :: "jstring \<Rightarrow> int option" where
  "parseInt s =
     (let s1 = dropWhile is_ws s;
          negative = startsWith s1 (js ''-'');
          s2 = (if startsWith s1 (js ''-'') \<or> startsWith s1 (js ''+'') then tl s1 else s1);
          magnitude = (if startsWith s2 (js ''0x'') \<or> startsWith s2 (js ''0X'')
                       then digits 16 (drop 2 s2) None else digits 10 s2 None)
      in map_option (\<lambda>n. if negative then - int n else int n) magnitude)"

section \<open>One site's job (backend/index.ts, processSite)\<close>

text \<open>
  A function of the page that may throw returns the error, if any, and the page as it is
  left: \<open>Some e\<close> is a throw. The page type \<open>'p\<close> holds whatever a driver keeps on the page
  object and the state of the browser behind it; the car type \<open>'c\<close> is the driver's record.
\<close>

record LoginCredentials =
  username :: string
  password :: string

text \<open>The search parameters (\<open>SearchParams\<close> of \<open>src/types\<close>): every field optional, the
  bounds integers as the spec says.\<close>

record SearchParams =
  sp_make :: "jstring option"
  sp_model :: "jstring option"
  sp_color :: "jstring option"
  sp_minPrice :: "int option"
  sp_maxPrice :: "int option"
  sp_minMileage :: "int option"
  sp_maxMileage :: "int option"
  sp_minAge :: "int option"
  sp_maxAge :: "int option"

text \<open>
  \<open>SiteConfig\<close>. \<open>useProxies\<close> and \<open>shouldNavigateToSearchUrl\<close> are only tested for
  truthiness, so a missing key is \<open>False\<close>. \<open>extractCars\<close> is the one driver function
  with a loop of its own: its result is an \<open>option\<close>, \<open>None\<close> when it never returns.
\<close>

record ('p, 'c) SiteConfig =
  name :: string
  useProxies :: bool
  shouldNavigateToSearchUrl :: bool
  buildSearchUrl :: "(SearchParams \<Rightarrow> string) option"
  login :: "'p \<Rightarrow> LoginCredentials \<Rightarrow> error option \<times> 'p"
  applyFilters :: "('p \<Rightarrow> SearchParams \<Rightarrow> error option \<times> 'p) option"
  extractCars :: "('p \<Rightarrow> SearchParams option \<Rightarrow> ((error + 'c list) \<times> 'p) option) option"

text \<open>
  What the browser answers to the calls \<open>scrapeAllSites\<close> and \<open>processSite\<close> make
  themselves: \<open>Stagehand.init()\<close> of both instances, \<open>context.newPage()\<close> for the job of
  the named site, \<open>page.route\<close> (setupSiteSpecificResourceBlocking), \<open>context.route\<close>,
  the two waits after the login, \<open>goto\<close> with its wait, \<open>page.close()\<close>, and
  \<open>Stagehand.close()\<close> of the instance with proxies (\<open>True\<close>) or without.
\<close>

record 'p Browser =
  br_init :: "error option"
  br_newPage :: "string \<Rightarrow> error + 'p"
  br_route :: "'p \<Rightarrow> error option"
  br_contextRoute :: "string \<Rightarrow> error option"
  br_waitAfterLogin :: "'p \<Rightarrow> error option \<times> 'p"
  br_goto :: "'p \<Rightarrow> string \<Rightarrow> error option \<times> 'p"
  br_close :: "'p \<Rightarrow> error option"
  br_closeStagehand :: "bool \<Rightarrow> error option"

text \<open>The calls a job makes, in the order it makes them; \<open>Progress\<close> is a call of the
  caller's \<open>onProgress(siteName, cars, totalSites, currentSite)\<close>.\<close>

datatype 'c event =
    NewPage string
  | RouteSetup string
  | ContextRoute string
  | Login string
  | Goto string string
  | ApplyFilters string
  | ExtractCars string
  | Progress string "'c list" nat nat
  | ClosePage string

text \<open>How the body of the \<open>try\<close> block ends: it returns \<open>extractedData\<close> (an array, or
  \<open>null\<close> when the site has no \<open>extractCars\<close>), throws, or never comes back.\<close>

datatype 'c try_result = Returns "'c list option" | Throws error | Hangs

text \<open>
  The result of a job: what its promise does (\<open>None\<close>: never settles; \<open>Some (Inl e)\<close>:
  rejected; \<open>Some (Inr v)\<close>: resolved with \<open>v\<close>, where \<open>None\<close> is \<open>null\<close>), the calls it
  made, and \<open>currentSiteIndex\<close> as it leaves it.
\<close>

record 'c job =
  ps_outcome :: "'c list option task"
  ps_events :: "'c event list"
  ps_index :: nat

text \<open>
  The caller's \<open>onProgress(siteName, cars, totalSites, currentSite)\<close>, when one is given.
  The job calls it inside its \<open>try\<close> and does nothing with what it returns: the call
  comes back, throws, or never comes back.
\<close>

datatype callback_end = CallReturns | CallThrows error | CallHangs

type_synonym 'c callback = "string \<Rightarrow> 'c list \<Rightarrow> nat \<Rightarrow> nat \<Rightarrow> callback_end"

text \<open>Lines 427-486: extraction and the progress callback. An array, even an empty one,
  is truthy, so the callback is called whenever \<open>extractCars\<close> returned; a throw of the
  callback is a throw of the \<open>try\<close> like any other.\<close>

definition ps_extract ::
  "'c callback option \<Rightarrow> nat \<Rightarrow> SearchParams \<Rightarrow> ('p, 'c) SiteConfig \<Rightarrow> nat \<Rightarrow> 'p
    \<Rightarrow> 'c try_result \<times> 'c event list \<times> 'p" where
  "ps_extract onProgress totalSites searchParams siteConfig currentSiteIndex p =
    (case extractCars siteConfig of
       None \<Rightarrow> (Returns None, [], p)
     | Some extract \<Rightarrow>
        (case extract p (if name siteConfig = ''disposalnetwork''
                          then Some searchParams else None) of
           None \<Rightarrow> (Hangs, [ExtractCars (name siteConfig)], p)
         | Some (Inl e, p') \<Rightarrow> (Throws e, [ExtractCars (name siteConfig)], p')
         | Some (Inr extractedData, p') \<Rightarrow>
            (case onProgress of
               None \<Rightarrow> (Returns (Some extractedData), [ExtractCars (name siteConfig)], p')
             | Some callback \<Rightarrow>
                ((case callback (name siteConfig) extractedData totalSites
                         (currentSiteIndex + 1) of
                    CallReturns \<Rightarrow> Returns (Some extractedData)
                  | CallThrows e \<Rightarrow> Throws e
                  | CallHangs \<Rightarrow> Hangs),
                 [ExtractCars (name siteConfig),
                  Progress (name siteConfig) extractedData totalSites (currentSiteIndex + 1)],
                 p'))))"

text \<open>Lines 418-426: the filters.\<close>

definition ps_filter ::
  "'c callback option \<Rightarrow> nat \<Rightarrow> SearchParams \<Rightarrow> ('p, 'c) SiteConfig \<Rightarrow> nat \<Rightarrow> 'p
    \<Rightarrow> 'c try_result \<times> 'c event list \<times> 'p" where
  "ps_filter onProgress totalSites searchParams siteConfig currentSiteIndex p =
    (case applyFilters siteConfig of
       None \<Rightarrow> ps_extract onProgress totalSites searchParams siteConfig currentSiteIndex p
     | Some apply \<Rightarrow>
        (case apply p searchParams of
           (Some e, p') \<Rightarrow> (Throws e, [ApplyFilters (name siteConfig)], p')
         | (None, p') \<Rightarrow>
            (case ps_extract onProgress totalSites searchParams siteConfig currentSiteIndex p' of
               (r, evs, p'') \<Rightarrow> (r, ApplyFilters (name siteConfig) # evs, p''))))"

text \<open>Lines 397-417: navigation to the search URL, for a site that builds one.\<close>

definition ps_navigate ::
  "'p Browser \<Rightarrow> 'c callback option \<Rightarrow> nat \<Rightarrow> SearchParams \<Rightarrow> ('p, 'c) SiteConfig \<Rightarrow> nat \<Rightarrow> 'p
    \<Rightarrow> 'c try_result \<times> 'c event list \<times> 'p" where
  "ps_navigate br onProgress totalSites searchParams siteConfig currentSiteIndex p =
    (case (if shouldNavigateToSearchUrl siteConfig then buildSearchUrl siteConfig else None) of
       None \<Rightarrow> ps_filter onProgress totalSites searchParams siteConfig currentSiteIndex p
     | Some build \<Rightarrow>
        (case br_goto br p (build searchParams) of
           (Some e, p') \<Rightarrow> (Throws e, [Goto (name siteConfig) (build searchParams)], p')
         | (None, p') \<Rightarrow>
            (case ps_filter onProgress totalSites searchParams siteConfig currentSiteIndex p' of
               (r, evs, p'') \<Rightarrow> (r, Goto (name siteConfig) (build searchParams) # evs, p''))))"

text \<open>Lines 362-486, the body of the \<open>try\<close>: the credentials check, the login and the
  rest.\<close>

definition ps_try ::
  "'p Browser \<Rightarrow> (string \<rightharpoonup> LoginCredentials) \<Rightarrow> 'c callback option \<Rightarrow> nat
    \<Rightarrow> SearchParams \<Rightarrow> ('p, 'c) SiteConfig \<Rightarrow> nat \<Rightarrow> 'p
    \<Rightarrow> 'c try_result \<times> 'c event list \<times> 'p" where
  "ps_try br siteCredentials onProgress totalSites searchParams siteConfig currentSiteIndex p =
    (case siteCredentials (name siteConfig) of
       None \<Rightarrow> (Throws (''No credentials found for '' @ name siteConfig), [], p)
     | Some credentials \<Rightarrow>
        if username credentials = [] \<or> password credentials = []
        then (Throws (''Missing username or password for '' @ name siteConfig), [], p)
        else
          (case login siteConfig p credentials of
             (Some e, p1) \<Rightarrow> (Throws e, [Login (name siteConfig)], p1)
           | (None, p1) \<Rightarrow>
              (case br_waitAfterLogin br p1 of
                 (Some e, p2) \<Rightarrow> (Throws e, [Login (name siteConfig)], p2)
               | (None, p2) \<Rightarrow>
                  (case ps_navigate br onProgress totalSites searchParams siteConfig
                          currentSiteIndex p2 of
                     (r, evs, p3) \<Rightarrow> (r, Login (name siteConfig) # evs, p3)))))"

text \<open>Lines 347-360: a site with proxies other than bca also gets a route on the context.\<close>

definition contextBlocking :: "('p, 'c) SiteConfig \<Rightarrow> bool" where
  "contextBlocking siteConfig \<longleftrightarrow> useProxies siteConfig \<and> name siteConfig \<noteq> ''bca''"

definition ps_setup :: "('p, 'c) SiteConfig \<Rightarrow> 'c event list" where
  "ps_setup siteConfig =
     [NewPage (name siteConfig), RouteSetup (name siteConfig)]
     @ (if contextBlocking siteConfig then [ContextRoute (name siteConfig)] else [])"

text \<open>
  \<open>processSite\<close>. The page is created and the routes are installed before the \<open>try\<close>: a
  throw there rejects the job's promise and nothing closes the page. The \<open>catch\<close> turns
  every throw of the body into the value \<open>null\<close> and only logs the error; the \<open>finally\<close>
  closes the page, and a throw of \<open>close\<close> rejects the promise. The argument
  \<open>currentSiteIndex\<close> is what the job finds in the counter that all jobs share when it
  comes to the progress call or to the \<open>catch\<close>; it adds one to it there, with no \<open>await\<close>
  in between.
\<close>

definition processSite ::
  "'p Browser \<Rightarrow> (string \<rightharpoonup> LoginCredentials) \<Rightarrow> 'c callback option \<Rightarrow> nat
    \<Rightarrow> SearchParams \<Rightarrow> ('p, 'c) SiteConfig \<Rightarrow> nat \<Rightarrow> 'c job" where
  "processSite br siteCredentials onProgress totalSites searchParams siteConfig currentSiteIndex =
    (case br_newPage br (name siteConfig) of
       Inl e \<Rightarrow>
         \<lparr> ps_outcome = Some (Inl e), ps_events = [NewPage (name siteConfig)],
           ps_index = currentSiteIndex \<rparr>
     | Inr newPage \<Rightarrow>
        (case br_route br newPage of
           Some e \<Rightarrow>
             \<lparr> ps_outcome = Some (Inl e),
               ps_events = [NewPage (name siteConfig), RouteSetup (name siteConfig)],
               ps_index = currentSiteIndex \<rparr>
         | None \<Rightarrow>
            (case (if contextBlocking siteConfig then br_contextRoute br (name siteConfig)
                   else None) of
               Some e \<Rightarrow>
                 \<lparr> ps_outcome = Some (Inl e), ps_events = ps_setup siteConfig,
                   ps_index = currentSiteIndex \<rparr>
             | None \<Rightarrow>
                (case ps_try br siteCredentials onProgress totalSites searchParams siteConfig
                        currentSiteIndex newPage of
                   (Hangs, evs, p) \<Rightarrow>
                     \<lparr> ps_outcome = None, ps_events = ps_setup siteConfig @ evs,
                       ps_index = currentSiteIndex \<rparr>
                 | (Throws e, evs, p) \<Rightarrow>
                     \<lparr> ps_outcome =
                         (case br_close br p of Some e' \<Rightarrow> Some (Inl e') | None \<Rightarrow> Some (Inr None)),
                       ps_events = ps_setup siteConfig @ evs @ [ClosePage (name siteConfig)],
                       ps_index = currentSiteIndex + 1 \<rparr>
                 | (Returns extractedData, evs, p) \<Rightarrow>
                     \<lparr> ps_outcome =
                         (case br_close br p of
                            Some e' \<Rightarrow> Some (Inl e')
                          | None \<Rightarrow> Some (Inr extractedData)),
                       ps_events = ps_setup siteConfig @ evs @ [ClosePage (name siteConfig)],
                       ps_index = currentSiteIndex + 1 \<rparr>))))"

fun is_progress :: "'c event \<Rightarrow> bool" where
  "is_progress (Progress n cars t i) = True"
| "is_progress _ = False"

definition progress_count :: "'c event list \<Rightarrow> nat" where
  "progress_count evs = length (filter is_progress evs)"

text \<open>The test of lines 366-372: no entry for the site, or an empty username or password.\<close>

definition credentials_missing :: "(string \<rightharpoonup> LoginCredentials) \<Rightarrow> string \<Rightarrow> bool" where
  "credentials_missing siteCredentials n \<longleftrightarrow>
     (case siteCredentials n of
        None \<Rightarrow> True
      | Some c \<Rightarrow> username c = [] \<or> password c = [])"

text \<open>Lines 556-574: the records of every site in one list; \<open>null\<close> is skipped.\<close>

definition compile :: "'c list option list \<Rightarrow> 'c list" where
  "compile results =
     concat (map (\<lambda>siteData. case siteData of None \<Rightarrow> [] | Some cars \<Rightarrow> cars) results)"

section \<open>The whole run (backend/index.ts, scrapeAllSites)\<close>

text \<open>\<open>Number(process.env.CONCURRENCY_LIMIT) || 5\<close>, for a variable that is unset or not a
  number (\<open>None\<close>) or a natural number.\<close>

definition concurrencyLimit :: "nat option \<Rightarrow> nat" where
  "concurrencyLimit env = (case env of None \<Rightarrow> 5 | Some n \<Rightarrow> if n = 0 then 5 else n)"

text \<open>
  Lines 520-554, one group: \<open>runInBatches(...).then(close)\<close> when the group has a site,
  \<open>Promise.resolve([])\<close> when it has none. \<open>gr_closes\<close> counts the calls of
  \<open>Stagehand.close()\<close> on the group's instance.
\<close>

record 'c group_run =
  gr_result :: "'c list settled option"
  gr_closes :: nat

definition runGroup :: "'p Browser \<Rightarrow> bool \<Rightarrow> 'c task list \<Rightarrow> nat \<Rightarrow> 'c group_run" where
  "runGroup br proxied tasks limit =
    (if 0 < length tasks then
       (case runInBatches tasks (min limit (length tasks)) of
          None \<Rightarrow> \<lparr> gr_result = None, gr_closes = 0 \<rparr>
        | Some (Inl e) \<Rightarrow> \<lparr> gr_result = Some (Inl e), gr_closes = 0 \<rparr>
        | Some (Inr results) \<Rightarrow>
            \<lparr> gr_result =
                (case br_closeStagehand br proxied of
                   Some e \<Rightarrow> Some (Inl e)
                 | None \<Rightarrow> Some (Inr results)),
              gr_closes = 1 \<rparr>)
     else \<lparr> gr_result = Some (Inr []), gr_closes = 0 \<rparr>)"

text \<open>
  \<open>scrapeAllSites\<close>: what the returned promise does, and how often each instance was
  closed. \<open>siteConfigs\<close> is \<open>Object.values\<close> of the registry. The jobs share the counter
  \<open>currentSiteIndex\<close>, and what a job finds in it depends on the order in which the jobs
  of the run come to their end: the argument \<open>currentSiteIndex\<close> gives it for each site.
\<close>

record 'c run =
  run_result :: "'c list settled option"
  run_proxyCloses :: nat
  run_directCloses :: nat

definition scrapeAllSites ::
  "'p Browser \<Rightarrow> (string \<rightharpoonup> LoginCredentials) \<Rightarrow> nat option \<Rightarrow> 'c callback option
    \<Rightarrow> SearchParams \<Rightarrow> (('p, 'c) SiteConfig \<Rightarrow> nat) \<Rightarrow> ('p, 'c) SiteConfig list \<Rightarrow> 'c run" where
  "scrapeAllSites br siteCredentials envLimit onProgress searchParams currentSiteIndex siteConfigs =
    (case br_init br of
       Some e \<Rightarrow> \<lparr> run_result = Some (Inl e), run_proxyCloses = 0, run_directCloses = 0 \<rparr>
     | None \<Rightarrow>
        (let totalSites = length siteConfigs;
             task = (\<lambda>siteConfig.
               ps_outcome (processSite br siteCredentials onProgress totalSites searchParams
                             siteConfig (currentSiteIndex siteConfig)));
             proxySiteConfigs = filter useProxies siteConfigs;
             nonProxySiteConfigs = filter (\<lambda>config. \<not> useProxies config) siteConfigs;
             proxy = runGroup br True (map task proxySiteConfigs) (concurrencyLimit envLimit);
             direct = runGroup br False (map task nonProxySiteConfigs) (concurrencyLimit envLimit)
         in \<lparr> run_result =
               (case (gr_result proxy, gr_result direct) of
                  (Some (Inr proxyResults), Some (Inr nonProxyResults)) \<Rightarrow>
                    Some (Inr (compile (proxyResults @ nonProxyResults)))
                | (Some (Inl e), _) \<Rightarrow> Some (Inl e)
                | (_, Some (Inl e)) \<Rightarrow> Some (Inl e)
                | _ \<Rightarrow> None),
             run_proxyCloses = gr_closes proxy,
             run_directCloses = gr_closes direct \<rparr>))"

subsection \<open>The two groups step by step\<close>

text \<open>
  A group's promise chain as a transition system over the scheduler's: \<open>NoChain\<close> for a
  group without sites, \<open>Batching\<close> while \<open>runInBatches\<close> runs, \<open>Closed\<close> once the \<open>then\<close>
  callback has called \<open>close()\<close>, \<open>Rejected\<close> when \<open>runInBatches\<close> threw and the callback
  is skipped. The run is the two groups side by side: a step of the run is a step of one
  group, and no rule of one group reads the state of the other.
\<close>

datatype chain = NoChain | Batching | Closed | Rejected

record 'a group_state =
  g_rb :: "'a rb_state"
  g_chain :: chain
  g_closes :: nat

definition group_init :: "'a task list \<Rightarrow> 'a group_state" where
  "group_init tasks =
     \<lparr> g_rb = rb_init, g_chain = (if 0 < length tasks then Batching else NoChain),
       g_closes = 0 \<rparr>"

inductive group_step :: "'a task list \<Rightarrow> nat \<Rightarrow> 'a group_state \<Rightarrow> 'a group_state \<Rightarrow> bool"
  for tasks :: "'a task list" and limit :: nat where
  batch:
    "g_chain s \<noteq> NoChain \<Longrightarrow> rb_step tasks (min limit (length tasks)) (g_rb s) r \<Longrightarrow>
     group_step tasks limit s (s\<lparr>g_rb := r\<rparr>)"
| close:
    "g_chain s = Batching \<Longrightarrow> rb_phase (g_rb s) = Returned \<Longrightarrow>
     group_step tasks limit s (s\<lparr>g_chain := Closed, g_closes := g_closes s + 1\<rparr>)"
| reject:
    "g_chain s = Batching \<Longrightarrow> rb_phase (g_rb s) = Thrown e \<Longrightarrow>
     group_step tasks limit s (s\<lparr>g_chain := Rejected\<rparr>)"

inductive sys_step ::
  "'a task list \<Rightarrow> 'a task list \<Rightarrow> nat \<Rightarrow> 'a group_state \<times> 'a group_state
    \<Rightarrow> 'a group_state \<times> 'a group_state \<Rightarrow> bool"
  for proxyTasks :: "'a task list" and directTasks :: "'a task list" and limit :: nat where
  proxy:
    "group_step proxyTasks limit p p' \<Longrightarrow> sys_step proxyTasks directTasks limit (p, d) (p', d)"
| direct:
    "group_step directTasks limit d d' \<Longrightarrow> sys_step proxyTasks directTasks limit (p, d) (p, d')"

inductive sys_reachable ::
  "'a task list \<Rightarrow> 'a task list \<Rightarrow> nat \<Rightarrow> 'a group_state \<times> 'a group_state \<Rightarrow> bool"
  for proxyTasks :: "'a task list" and directTasks :: "'a task list" and limit :: nat where
  init: "sys_reachable proxyTasks directTasks limit (group_init proxyTasks, group_init directTasks)"
| step:
    "sys_reachable proxyTasks directTasks limit s \<Longrightarrow>
     sys_step proxyTasks directTasks limit s s' \<Longrightarrow>
     sys_reachable proxyTasks directTasks limit s'"

definition g_inv :: "'a task list \<Rightarrow> nat \<Rightarrow> 'a group_state \<Rightarrow> bool" where
  "g_inv tasks limit s \<longleftrightarrow>
     (case g_chain s of
        NoChain \<Rightarrow> tasks = [] \<and> g_closes s = 0
      | Batching \<Rightarrow> tasks \<noteq> [] \<and> g_closes s = 0
                    \<and> rb_reachable tasks (min limit (length tasks)) (g_rb s)
      | Closed \<Rightarrow> tasks \<noteq> [] \<and> g_closes s = 1 \<and> rb_phase (g_rb s) = Returned
                    \<and> rb_reachable tasks (min limit (length tasks)) (g_rb s)
      | Rejected \<Rightarrow> tasks \<noteq> [] \<and> g_closes s = 0
                    \<and> rb_reachable tasks (min limit (length tasks)) (g_rb s))"

text \<open>The value of a job whose page is created and closed without a throw.\<close>

definition try_value :: "'c try_result \<Rightarrow> 'c list option task" where
  "try_value r =
     (case r of Hangs \<Rightarrow> None | Throws e \<Rightarrow> Some (Inr None) | Returns d \<Rightarrow> Some (Inr d))"

subsection \<open>A browser and sites to run the definitions on\<close>

definition demo_browser :: "unit Browser" where
  "demo_browser =
     \<lparr> br_init = None, br_newPage = (\<lambda>n. Inr ()), br_route = (\<lambda>p. None),
       br_contextRoute = (\<lambda>n. None), br_waitAfterLogin = (\<lambda>p. (None, p)),
       br_goto = (\<lambda>p url. (None, p)), br_close = (\<lambda>p. None),
       br_closeStagehand = (\<lambda>proxied. None) \<rparr>"

definition demo_params :: SearchParams where
  "demo_params =
     \<lparr> sp_make = None, sp_model = None, sp_color = None, sp_minPrice = None,
       sp_maxPrice = None, sp_minMileage = None, sp_maxMileage = None, sp_minAge = None,
       sp_maxAge = None \<rparr>"

definition demo_credentials :: "string \<rightharpoonup> LoginCredentials" where
  "demo_credentials =
     [''motorway'' \<mapsto> \<lparr> username = ''user'', password = ''secret'' \<rparr>,
      ''carwow'' \<mapsto> \<lparr> username = ''user'', password = ''secret'' \<rparr>,
      ''bca'' \<mapsto> \<lparr> username = ''user'', password = [] \<rparr>]"

text \<open>A callback that returns and one that throws.\<close>

definition demo_callback :: "string callback" where
  "demo_callback siteName cars totalSites currentSite = CallReturns"

definition throwing_callback :: "string callback" where
  "throwing_callback siteName cars totalSites currentSite = CallThrows ''socket closed''"

text \<open>A site without proxies whose login and filters succeed and whose extraction returns
  the given records; and the same site with a login that throws.\<close>

definition demo_site :: "string \<Rightarrow> string list \<Rightarrow> (unit, string) SiteConfig" where
  "demo_site n cars =
     \<lparr> name = n, useProxies = False, shouldNavigateToSearchUrl = False,
       buildSearchUrl = None, login = (\<lambda>p c. (None, p)),
       applyFilters = Some (\<lambda>p sp. (None, p)),
       extractCars = Some (\<lambda>p sp. Some (Inr cars, p)) \<rparr>"

definition failing_site :: "string \<Rightarrow> (unit, string) SiteConfig" where
  "failing_site n = (demo_site n [])\<lparr> login := (\<lambda>p c. (Some ''Login error'', p)) \<rparr>"

text \<open>A run with one job in the group with proxies and two in the other, at the point where
  the first group has been closed and the second has not started a job yet.\<close>

definition demo_proxy_tasks :: "string task list" where
  "demo_proxy_tasks = map fulfilled_with [''a'']"

definition demo_direct_tasks :: "string task list" where
  "demo_direct_tasks = map fulfilled_with [''b'', ''c'']"

definition demo_proxy_closed :: "string group_state" where
  "demo_proxy_closed =
     \<lparr> g_rb = \<lparr> rb_i = 1, rb_results = [''a''], rb_phase = Returned, rb_batch = [0],
                rb_started = [0], rb_settled = [0] \<rparr>,
       g_chain = Closed, g_closes = 1 \<rparr>"

section \<open>The CarToTrade driver (sites/cartotrade, cartotradeConfig)\<close>

text \<open>
  What the driver keeps on the page object and what the browser shows: the flag
  \<open>_cartotradeSearchExecuted\<close> (\<open>None\<close> while it is undefined) and the number of result
  pages the browser has moved past.
\<close>

record ct_page =
  ct_searchExecuted :: "bool option"
  ct_shown :: nat

text \<open>
  The site as the driver sees it. Every field is the answer to the calls of the lines
  named beside it, \<open>Some e\<close> or \<open>Inl e\<close> when one of them throws \<open>e\<close>. A button is an
  element handle; a card is a \<open>.panel\<close> element, which gives a record (lines 311-387) or
  is skipped (no title link, or a read that throws inside the \<open>try\<close> of lines 302-394).
\<close>

record ct_button =
  bt_text :: "error + jstring option"    \<comment> \<open>438: textContent()\<close>
  bt_pageAttr :: "error + jstring option"  \<comment> \<open>466, 499: getAttribute("data-pagination-page")\<close>
  bt_visible :: "error + bool"          \<comment> \<open>493, 546: isVisible()\<close>
  bt_click :: "error option"            \<comment> \<open>550-554: scroll into view, wait, click\<close>

datatype 'c ct_card = Card 'c | Skipped

record 'c ct_view =
  cv_load :: "error option"                                    \<comment> \<open>289-290\<close>
  cv_panels :: "error + 'c ct_card list"                       \<comment> \<open>293\<close>
  cv_settle :: "error option"                                  \<comment> \<open>406\<close>
  cv_container :: "error + (error + ct_button option) option"  \<comment> \<open>413, 418\<close>
  cv_buttons :: "error + ct_button list"                       \<comment> \<open>434\<close>
  cv_pageButtons :: "error + ct_button list"                   \<comment> \<open>458, 502\<close>
  cv_nextButtons :: "error + ct_button list"                   \<comment> \<open>489\<close>
  cv_currentPageButton :: "error + ct_button option"           \<comment> \<open>495\<close>
  cv_loaded :: "error option"                                  \<comment> \<open>558-561, after the click\<close>
  cv_newCards :: "error + nat"                                 \<comment> \<open>564, after the click\<close>
  cv_waited :: "error option"                                  \<comment> \<open>583\<close>
  cv_newCardsLate :: "error + nat"                             \<comment> \<open>586\<close>

record 'c ct_site =
  ct_login :: "LoginCredentials \<Rightarrow> error option"             \<comment> \<open>28-67\<close>
  ct_checkMake :: "jstring \<Rightarrow> error option"                   \<comment> \<open>92-98\<close>
  ct_search :: "int \<times> int \<Rightarrow> int \<times> int \<Rightarrow> int \<times> int \<Rightarrow> error option"  \<comment> \<open>111-187\<close>
  ct_openRefine :: "error option"                              \<comment> \<open>193-199\<close>
  ct_options :: "error + (jstring \<times> jstring option) list"    \<comment> \<open>202-209: value, text\<close>
  ct_selectModel :: "jstring \<Rightarrow> error option"                 \<comment> \<open>222-230\<close>
  ct_views :: "nat \<Rightarrow> 'c ct_view"                            \<comment> \<open>the result pages, in order\<close>

text \<open>\<open>params.minPrice || 0\<close>: the default replaces an absent bound and the bound 0.\<close>

definition num_or :: "int option \<Rightarrow> int \<Rightarrow> int" where
  "num_or x d = (case x of None \<Rightarrow> d | Some v \<Rightarrow> if v \<noteq> 0 then v else d)"

text \<open>Lines 213-218: the first option whose text contains the model, whatever the case.\<close>

definition ct_match ::
  "jstring \<Rightarrow> (jstring \<times> jstring option) list \<Rightarrow> (jstring \<times> jstring option) option" where
  "ct_match model options =
     find (\<lambda>opt. case snd opt of
                   None \<Rightarrow> False
                 | Some text \<Rightarrow> text \<noteq> [] \<and> js_includes (toUpperCase text) (toUpperCase model))
          options"

text \<open>
  \<open>applyFilters\<close>, lines 75-256. The make is ticked without a look at whether its
  checkbox exists; the model is looked up among the options, and when none matches the
  flag is set to \<open>false\<close> and the function returns.
\<close>

definition ct_applyFilters :: "'c ct_site \<Rightarrow> ct_page \<Rightarrow> SearchParams \<Rightarrow> error option \<times> ct_page" where
  "ct_applyFilters site page params =
    (case (if given (sp_make params)
           then ct_checkMake site (toUpperCase (the (sp_make params))) else None) of
       Some e \<Rightarrow> (Some e, page)
     | None \<Rightarrow>
        (case ct_search site
                (num_or (sp_minPrice params) 0, num_or (sp_maxPrice params) 100000)
                (num_or (sp_minMileage params) 0, num_or (sp_maxMileage params) 100000)
                (num_or (sp_minAge params) 0, num_or (sp_maxAge params) 25) of
           Some e \<Rightarrow> (Some e, page)
         | None \<Rightarrow>
            if given (sp_model params) then
              (case ct_openRefine site of
                 Some e \<Rightarrow> (Some e, page)
               | None \<Rightarrow>
                  (case ct_options site of
                     Inl e \<Rightarrow> (Some e, page)
                   | Inr options \<Rightarrow>
                      (case ct_match (the (sp_model params)) options of
                         Some match \<Rightarrow>
                           (case ct_selectModel site (fst match) of
                              Some e \<Rightarrow> (Some e, page)
                            | None \<Rightarrow> (None, page\<lparr>ct_searchExecuted := Some True\<rparr>))
                       | None \<Rightarrow> (None, page\<lparr>ct_searchExecuted := Some False\<rparr>))))
            else (None, page\<lparr>ct_searchExecuted := Some True\<rparr>)))"

text \<open>Lines 301-395: the records of the cards that are not skipped.\<close>

fun ct_records :: "'c ct_card list \<Rightarrow> 'c list" where
  "ct_records [] = []"
| "ct_records (Card c # cards) = c # ct_records cards"
| "ct_records (Skipped # cards) = ct_records cards"

text \<open>
  Lines 408-540: the four ways to find the button to the next page. The result is
  \<open>nextButton\<close>; \<open>hasNextPage\<close> is true exactly when it is set. A throw ends the search
  (it is caught at line 623), except inside the loops of strategies 2 and 3, which catch
  it and go on to the next button.
\<close>

definition ct_nextText :: "ct_button \<Rightarrow> bool" where
  "ct_nextText b =
     (case bt_text b of
        Inr (Some buttonText) \<Rightarrow> buttonText \<noteq> [] \<and> js_includes (toLowerCase buttonText) (js ''next'')
      | _ \<Rightarrow> False)"

definition ct_pageAfter :: "nat \<Rightarrow> ct_button \<Rightarrow> bool" where
  "ct_pageAfter currentPage b =
     (case bt_pageAttr b of
        Inr (Some pageNum) \<Rightarrow>
          pageNum \<noteq> [] \<and> (case parseInt pageNum of None \<Rightarrow> False | Some n \<Rightarrow> int currentPage < n)
      | _ \<Rightarrow> False)"

definition ct_strategy4 :: "'c ct_view \<Rightarrow> error + ct_button option" where
  "ct_strategy4 view =
     (case cv_nextButtons view of
        Inl e \<Rightarrow> Inl e
      | Inr [] \<Rightarrow> Inr None
      | Inr (nextBtn # others) \<Rightarrow>
         (case bt_visible nextBtn of
            Inl e \<Rightarrow> Inl e
          | Inr False \<Rightarrow> Inr None
          | Inr True \<Rightarrow>
             (case cv_currentPageButton view of
                Inl e \<Rightarrow> Inl e
              | Inr None \<Rightarrow> Inr (Some nextBtn)
              | Inr (Some currentPageButton) \<Rightarrow>
                 (case bt_pageAttr currentPageButton of
                    Inl e \<Rightarrow> Inl e
                  | Inr currentPageNum \<Rightarrow>
                     (case cv_pageButtons view of
                        Inl e \<Rightarrow> Inl e
                      | Inr totalPages \<Rightarrow>
                         if currentPageNum \<noteq> None \<and> currentPageNum \<noteq> Some [] \<and> totalPages \<noteq> []
                         then (case parseInt (the currentPageNum) of
                                 None \<Rightarrow> Inr None
                               | Some current \<Rightarrow>
                                   if current < int (length totalPages) - 1
                                   then Inr (Some nextBtn) else Inr None)
                         else Inr (Some nextBtn))))))"

definition ct_strategy3 :: "'c ct_view \<Rightarrow> nat \<Rightarrow> error + ct_button option" where
  "ct_strategy3 view currentPage =
     (case cv_pageButtons view of
        Inl e \<Rightarrow> Inl e
      | Inr pageButtons \<Rightarrow>
         (case find (ct_pageAfter currentPage) pageButtons of
            Some pageButton \<Rightarrow> Inr (Some pageButton)
          | None \<Rightarrow> ct_strategy4 view))"

definition ct_strategy2 :: "'c ct_view \<Rightarrow> nat \<Rightarrow> error + ct_button option" where
  "ct_strategy2 view currentPage =
     (case cv_buttons view of
        Inl e \<Rightarrow> Inl e
      | Inr allButtons \<Rightarrow>
         (case find ct_nextText allButtons of
            Some button \<Rightarrow> Inr (Some button)
          | None \<Rightarrow> ct_strategy3 view currentPage))"

definition ct_findNext :: "'c ct_view \<Rightarrow> nat \<Rightarrow> error + ct_button option" where
  "ct_findNext view currentPage =
     (case cv_settle view of
        Some e \<Rightarrow> Inl e
      | None \<Rightarrow>
         (case cv_container view of
            Inl e \<Rightarrow> Inl e
          | Inr None \<Rightarrow> ct_strategy2 view currentPage
          | Inr (Some (Inl e)) \<Rightarrow> Inl e
          | Inr (Some (Inr None)) \<Rightarrow> ct_strategy2 view currentPage
          | Inr (Some (Inr (Some nextButton))) \<Rightarrow> Inr (Some nextButton)))"

text \<open>
  Lines 543-622: the move to the next page. The result says whether the browser moved
  and whether \<open>hasMorePages\<close> stays true, which it does only where the code increments
  \<open>currentPage\<close>. A throw of the wait after the click is caught at line 578, every other
  throw at line 607.
\<close>

definition ct_afterTimeout :: "'c ct_view \<Rightarrow> bool" where
  "ct_afterTimeout view =
     (case cv_waited view of
        Some e \<Rightarrow> False
      | None \<Rightarrow> (case cv_newCardsLate view of Inl e \<Rightarrow> False | Inr n \<Rightarrow> 0 < n))"

definition ct_move :: "'c ct_view \<Rightarrow> ct_button \<Rightarrow> bool \<times> bool" where
  "ct_move view nextButton =
     (case bt_visible nextButton of
        Inl e \<Rightarrow> (False, False)
      | Inr False \<Rightarrow> (False, False)
      | Inr True \<Rightarrow>
         (case bt_click nextButton of
            Some e \<Rightarrow> (False, False)
          | None \<Rightarrow>
             (case cv_loaded view of
                Some e \<Rightarrow> (True, ct_afterTimeout view)
              | None \<Rightarrow>
                 (case cv_newCards view of
                    Inl e \<Rightarrow> (True, ct_afterTimeout view)
                  | Inr n \<Rightarrow> (True, 0 < n)))))"

definition ct_paginate :: "'c ct_view \<Rightarrow> nat \<Rightarrow> bool \<times> bool" where
  "ct_paginate view currentPage =
     (case ct_findNext view currentPage of
        Inl e \<Rightarrow> (False, False)
      | Inr None \<Rightarrow> (False, False)
      | Inr (Some nextButton) \<Rightarrow> ct_move view nextButton)"

text \<open>
  Lines 285-631, the \<open>while (hasMorePages)\<close> loop. The wait and the query at the top of
  an iteration (lines 289-293) stand in no \<open>try\<close>: a throw there leaves \<open>extractCars\<close>.
  The loop ends only when a page offers no way on, so the result is an \<open>option\<close>.
\<close>

partial_function (option) ct_pages ::
  "'c ct_site \<Rightarrow> 'c list \<Rightarrow> nat \<Rightarrow> ct_page \<Rightarrow> ((error + 'c list) \<times> ct_page) option" where
  "ct_pages site allCarData currentPage page =
    (case cv_load (ct_views site (ct_shown page)) of
       Some e \<Rightarrow> Some (Inl e, page)
     | None \<Rightarrow>
        (case cv_panels (ct_views site (ct_shown page)) of
           Inl e \<Rightarrow> Some (Inl e, page)
         | Inr cards \<Rightarrow>
            (case ct_paginate (ct_views site (ct_shown page)) currentPage of
               (moved, hasMorePages) \<Rightarrow>
                 if hasMorePages
                 then ct_pages site (allCarData @ ct_records cards) (currentPage + 1)
                        (page\<lparr>ct_shown := ct_shown page + (if moved then 1 else 0)\<rparr>)
                 else Some (Inr (allCarData @ ct_records cards),
                            page\<lparr>ct_shown := ct_shown page + (if moved then 1 else 0)\<rparr>))))"

text \<open>\<open>extractCars\<close>, lines 265-641: nothing is read when the model was not selectable.\<close>

definition ct_extractCars ::
  "'c ct_site \<Rightarrow> ct_page \<Rightarrow> SearchParams option \<Rightarrow> ((error + 'c list) \<times> ct_page) option" where
  "ct_extractCars site page params =
    (if ct_searchExecuted page = Some False then Some (Inr [], page)
     else ct_pages site [] 0 page)"

definition cartotradeConfig :: "'c ct_site \<Rightarrow> (ct_page, 'c) SiteConfig" where
  "cartotradeConfig site =
     \<lparr> name = ''CarToTrade'', useProxies = False, shouldNavigateToSearchUrl = False,
       buildSearchUrl = None,
       login = (\<lambda>page credentials. (ct_login site credentials, page)),
       applyFilters = Some (ct_applyFilters site),
       extractCars = Some (ct_extractCars site) \<rparr>"

section \<open>The Disposal Network driver (sites/disposalnetwork, disposalnetworkConfig)\<close>

text \<open>
  A captured API response is what its \<open>json()\<close> gives: a throw, \<open>null\<close>, a value that is
  not an object, or an object with its \<open>vehicles\<close> when that is an array.
\<close>

datatype 'v dn_data = DNull | DOther | DObject "'v list option"

type_synonym 'v dn_response = "error + 'v dn_data"

text \<open>The flags the driver keeps on the page object: \<open>_disposalnetworkMakeApplied\<close>,
  \<open>_disposalnetworkModelApplied\<close> (\<open>None\<close> while undefined), \<open>_disposalnetworkNoResults\<close>
  (only ever set to true) and \<open>_lastDisposalNetworkResponse\<close>.\<close>

record 'v dn_page =
  dn_makeApplied :: "bool option"
  dn_modelApplied :: "bool option"
  dn_noResults :: bool
  dn_lastResponse :: "'v dn_response option"

definition dn_newPage :: "'v dn_page" where
  "dn_newPage =
     \<lparr> dn_makeApplied = None, dn_modelApplied = None, dn_noResults = False,
       dn_lastResponse = None \<rparr>"

text \<open>
  The site as the driver sees it, each field the answer to the calls of the lines named.
  An option of a filter is its text (or none) and whether it is disabled. Clicks whose
  throw is caught by the \<open>try\<close> around them with nothing after them are left out: whether
  they throw changes nothing the driver does.
\<close>

record ('v, 'c) dn_site =
  dn_login :: "LoginCredentials \<Rightarrow> error option"              \<comment> \<open>672-709\<close>
  dn_openMake :: "error option"                                 \<comment> \<open>742-751\<close>
  dn_makeLabel :: "jstring \<Rightarrow> error + bool"                    \<comment> \<open>755-757: is there a label\<close>
  dn_checkMake :: "error option"                                \<comment> \<open>759-760\<close>
  dn_openRange :: "error option"                                \<comment> \<open>791-793\<close>
  dn_modelLabels :: "jstring \<Rightarrow> error + nat"                   \<comment> \<open>796-798: how many labels\<close>
  dn_checkModels :: "error option"                              \<comment> \<open>801-804\<close>
  dn_pause :: "error option"                                    \<comment> \<open>833\<close>
  dn_mileageOptions :: "error + (jstring option \<times> bool) list"  \<comment> \<open>844-876\<close>
  dn_search :: "error option"                                   \<comment> \<open>1007-1014\<close>
  dn_openFilter :: "error option"                               \<comment> \<open>1020-1021\<close>
  dn_openPrice :: "error option"                                \<comment> \<open>1094-1102\<close>
  dn_priceOptions :: "error + (jstring option \<times> bool) list"    \<comment> \<open>1104\<close>
  dn_openAge :: "error option"                                  \<comment> \<open>1177-1183\<close>
  dn_ageOptions :: "error + (jstring option \<times> bool) list"      \<comment> \<open>1185\<close>
  dn_selectOption :: "jstring \<Rightarrow> error option"                 \<comment> \<open>1140, 1217\<close>
  dn_closeFilter :: "error option"                              \<comment> \<open>1157-1160, 1234-1237\<close>
  dn_captured :: "'v dn_response list"                          \<comment> \<open>listener of 722, up to 1281\<close>
  dn_finalWait :: "error option"                                \<comment> \<open>1277\<close>
  dn_finalCaptured :: "'v dn_response list"                     \<comment> \<open>listener of 1257-1278\<close>
  dn_openColour :: "error option"                               \<comment> \<open>1287-1289\<close>
  dn_colourLabel :: "jstring \<Rightarrow> error + bool"                  \<comment> \<open>1297-1299\<close>
  dn_clickColour :: "error option"                              \<comment> \<open>1301-1302\<close>
  dn_closeColour :: "error option"                              \<comment> \<open>1311-1314\<close>
  dn_capturedLate :: "'v dn_response list"                      \<comment> \<open>listener of 722, 1283 to 1320\<close>
  dn_settle :: "error option"                                   \<comment> \<open>1330\<close>
  dn_nextPage :: "nat \<Rightarrow> error + bool"                        \<comment> \<open>1413-1428: button found and clicked\<close>
  dn_pageCaptured :: "nat \<Rightarrow> 'v dn_response list"              \<comment> \<open>listener of 1368, after the click\<close>
  dn_transform :: "'v \<Rightarrow> 'c option"                            \<comment> \<open>1493-1518; none when it throws\<close>

text \<open>How a filter step inside a \<open>try\<close> ends: it goes on, a throw was caught (the rest of
  the \<open>try\<close> is skipped), or it found no option and the search has no results.\<close>

datatype flow = GoOn | Caught | NoResults

definition enabled_texts :: "(jstring option \<times> bool) list \<Rightarrow> jstring option list" where
  "enabled_texts options = map fst (filter (\<lambda>opt. \<not> snd opt) options)"

definition mileageRanges :: "(int \<times> jstring) list" where
  "mileageRanges =
     [(10000, js ''Up to 10,000''), (20000, js ''Up to 20,000''), (30000, js ''Up to 30,000''),
      (40000, js ''Up to 40,000''), (50000, js ''Up to 50,000''), (60000, js ''Up to 60,000''),
      (70000, js ''Up to 70,000''), (80000, js ''Up to 80,000''), (90000, js ''Up to 90,000''),
      (100000, js ''Up to 100,000'')]"

text \<open>The pound sign is the code unit 163.\<close>

definition priceRanges :: "(int \<times> jstring) list" where
  "priceRanges =
     [(2500, js ''Up to '' @ [0xA3] @ js ''2,500''), (5000, js ''Up to '' @ [0xA3] @ js ''5,000''),
      (10000, js ''Up to '' @ [0xA3] @ js ''10,000''),
      (15000, js ''Up to '' @ [0xA3] @ js ''15,000''),
      (20000, js ''Up to '' @ [0xA3] @ js ''20,000''),
      (30000, js ''Up to '' @ [0xA3] @ js ''30,000''),
      (50000, js ''Up to '' @ [0xA3] @ js ''50,000'')]"

definition ageRanges :: "(int \<times> jstring) list" where
  "ageRanges =
     [(1, js ''Up to 1 year''), (2, js ''Up to 2 years''), (3, js ''Up to 3 years''),
      (4, js ''Up to 4 years''), (5, js ''Up to 5 years'')]"

text \<open>
  Lines 836-1004, the mileage filter. When the target range is not on offer, the first
  range from the target on that is on offer is taken; when there is none, or the bound is
  above every range and "100,000 +" is not on offer, the search has no results.
\<close>

definition dn_mileage :: "('v, 'c) dn_site \<Rightarrow> int \<Rightarrow> flow" where
  "dn_mileage site maxMileage =
     (case dn_mileageOptions site of
        Inl e \<Rightarrow> Caught
      | Inr availableOptions \<Rightarrow>
         (let enabledOptions = enabled_texts availableOptions in
          if enabledOptions = [] then GoOn
          else
            (case find (\<lambda>range. maxMileage \<le> fst range) mileageRanges of
               Some targetRange \<Rightarrow>
                 if Some (snd targetRange) \<in> set enabledOptions then GoOn
                 else
                   (case find (\<lambda>fallbackRange. Some (snd fallbackRange) \<in> set enabledOptions)
                           (dropWhile (\<lambda>range. range \<noteq> targetRange) mileageRanges) of
                      Some fallbackRange \<Rightarrow> GoOn
                    | None \<Rightarrow> NoResults)
             | None \<Rightarrow>
                 if Some (js ''100,000 +'') \<in> set enabledOptions then GoOn else NoResults)))"

text \<open>Lines 1087-1168 and 1170-1245: the price and the age filter, alike. When the target
  range is not on offer the filter panel is closed and the search has no results.\<close>

definition dn_dropdown ::
  "('v, 'c) dn_site \<Rightarrow> error option \<Rightarrow> error + (jstring option \<times> bool) list
    \<Rightarrow> (int \<times> jstring) list \<Rightarrow> int \<Rightarrow> flow" where
  "dn_dropdown site opened options ranges bound =
     (case opened of
        Some e \<Rightarrow> Caught
      | None \<Rightarrow>
         (case options of
            Inl e \<Rightarrow> Caught
          | Inr availableOptions \<Rightarrow>
             (let enabledOptions = enabled_texts availableOptions in
              if enabledOptions = [] then GoOn
              else
                (case find (\<lambda>range. bound \<le> fst range) ranges of
                   None \<Rightarrow> GoOn
                 | Some targetRange \<Rightarrow>
                     if Some (snd targetRange) \<in> set enabledOptions
                     then (case dn_selectOption site (snd targetRange) of
                             Some e \<Rightarrow> Caught
                           | None \<Rightarrow> GoOn)
                     else (case dn_closeFilter site of
                             Some e \<Rightarrow> Caught
                           | None \<Rightarrow> NoResults)))))"

text \<open>Lines 1017-1253: both inside one \<open>try\<close>, so a caught throw of the price filter
  skips the age filter.\<close>

definition dn_priceAge :: "('v, 'c) dn_site \<Rightarrow> SearchParams \<Rightarrow> flow" where
  "dn_priceAge site params =
     (if sp_maxPrice params = None \<and> sp_maxAge params = None then GoOn
      else
        (case dn_openFilter site of
           Some e \<Rightarrow> Caught
         | None \<Rightarrow>
            (case (case sp_maxPrice params of
                     None \<Rightarrow> GoOn
                   | Some maxPrice \<Rightarrow>
                       dn_dropdown site (dn_openPrice site) (dn_priceOptions site)
                         priceRanges maxPrice) of
               GoOn \<Rightarrow>
                 (case sp_maxAge params of
                    None \<Rightarrow> GoOn
                  | Some maxAge \<Rightarrow>
                      dn_dropdown site (dn_openAge site) (dn_ageOptions site) ageRanges maxAge)
             | Caught \<Rightarrow> Caught
             | NoResults \<Rightarrow> NoResults)))"

text \<open>Lines 1255-1331: the last responses, the colour filter, and the response kept for
  the extraction.\<close>

definition dn_finish ::
  "('v, 'c) dn_site \<Rightarrow> 'v dn_page \<Rightarrow> SearchParams \<Rightarrow> error option \<times> 'v dn_page" where
  "dn_finish site page params =
     (case dn_finalWait site of
        Some e \<Rightarrow> (Some e, page)
      | None \<Rightarrow>
         (case (if given (sp_color params) then
                  (case dn_openColour site of
                     Some e \<Rightarrow> Some e
                   | None \<Rightarrow>
                      (case dn_colourLabel site
                              (toUpperCase (take 1 (the (sp_color params)))
                               @ toLowerCase (drop 1 (the (sp_color params)))) of
                         Inl e \<Rightarrow> Some e
                       | Inr found \<Rightarrow>
                          (case (if found then dn_clickColour site else None) of
                             Some e \<Rightarrow> Some e
                           | None \<Rightarrow> dn_closeColour site)))
                else None) of
            Some e \<Rightarrow> (Some e, page)
          | None \<Rightarrow>
             (let responses = dn_captured site @ dn_finalCaptured site @ dn_capturedLate site in
              if responses = []
              then (Some ''No matching API response found for vehicle search. Expected '/uk/micro/vehicles/Search' POST request.'',
                    page)
              else (dn_settle site, page\<lparr>dn_lastResponse := Some (last responses)\<rparr>))))"

text \<open>Lines 1006-1253, from the search button on.\<close>

definition dn_searchAndRefine ::
  "('v, 'c) dn_site \<Rightarrow> 'v dn_page \<Rightarrow> SearchParams \<Rightarrow> error option \<times> 'v dn_page" where
  "dn_searchAndRefine site page params =
     (case dn_search site of
        Some e \<Rightarrow> (Some e, page)
      | None \<Rightarrow>
         (case dn_priceAge site params of
            NoResults \<Rightarrow> (None, page\<lparr>dn_noResults := True\<rparr>)
          | _ \<Rightarrow> dn_finish site page params))"

text \<open>Lines 784-1004: the model filter, which is applied only together with a make, and
  the mileage filter.\<close>

definition dn_modelAndMileage ::
  "('v, 'c) dn_site \<Rightarrow> 'v dn_page \<Rightarrow> SearchParams \<Rightarrow> error option \<times> 'v dn_page" where
  "dn_modelAndMileage site page params =
     (case (if given (sp_make params) \<and> given (sp_model params) then
              (case dn_openRange site of
                 Some e \<Rightarrow> Inl e
               | None \<Rightarrow>
                  (case dn_modelLabels site (toUpperCase (the (sp_model params))) of
                     Inl e \<Rightarrow> Inl e
                   | Inr n \<Rightarrow>
                      if 0 < n
                      then (case dn_checkModels site of Some e \<Rightarrow> Inl e | None \<Rightarrow> Inr True)
                      else Inr False))
            else Inr True) of
        Inl e \<Rightarrow> (Some e, page)
      | Inr False \<Rightarrow> (None, page\<lparr>dn_modelApplied := Some False\<rparr>)
      | Inr True \<Rightarrow>
         (case dn_pause site of
            Some e \<Rightarrow> (Some e, page\<lparr>dn_modelApplied := Some True\<rparr>)
          | None \<Rightarrow>
             (case (case sp_maxMileage params of
                      None \<Rightarrow> GoOn
                    | Some maxMileage \<Rightarrow> dn_mileage site maxMileage) of
                NoResults \<Rightarrow>
                  (None, page\<lparr>dn_modelApplied := Some True, dn_noResults := True\<rparr>)
              | _ \<Rightarrow> dn_searchAndRefine site (page\<lparr>dn_modelApplied := Some True\<rparr>) params)))"

text \<open>
  \<open>applyFilters\<close>, lines 718-1331. A make that has no label sets the flag to \<open>false\<close> and
  returns; so does a model without labels.
\<close>

definition dn_applyFilters ::
  "('v, 'c) dn_site \<Rightarrow> 'v dn_page \<Rightarrow> SearchParams \<Rightarrow> error option \<times> 'v dn_page" where
  "dn_applyFilters site page params =
     (case dn_openMake site of
        Some e \<Rightarrow> (Some e, page)
      | None \<Rightarrow>
         if given (sp_make params) then
           (case dn_makeLabel site (toUpperCase (the (sp_make params))) of
              Inl e \<Rightarrow> (Some e, page)
            | Inr False \<Rightarrow> (None, page\<lparr>dn_makeApplied := Some False\<rparr>)
            | Inr True \<Rightarrow>
               (case dn_checkMake site of
                  Some e \<Rightarrow> (Some e, page)
                | None \<Rightarrow> dn_modelAndMileage site (page\<lparr>dn_makeApplied := Some True\<rparr>) params))
         else dn_modelAndMileage site (page\<lparr>dn_makeApplied := Some True\<rparr>) params)"

text \<open>
  Lines 1393-1482, the loop over the pages 1 to 3, each iteration inside a \<open>try\<close> whose
  \<open>catch\<close> leaves the loop. \<open>dn_turn\<close> is lines 1398-1429: the responses known once the
  page is shown, or none when the iteration ends the loop there.
\<close>

definition dn_turn ::
  "('v, 'c) dn_site \<Rightarrow> 'v dn_page \<Rightarrow> nat \<Rightarrow> 'v dn_response list \<Rightarrow> 'v dn_response list option" where
  "dn_turn site page pageNum allResponses =
     (if pageNum = 1 then
        (case dn_lastResponse page of
           None \<Rightarrow> None
         | Some lastResponse \<Rightarrow> Some (allResponses @ [lastResponse]))
      else
        (case dn_nextPage site pageNum of
           Inl e \<Rightarrow> None
         | Inr False \<Rightarrow> None
         | Inr True \<Rightarrow> Some (allResponses @ dn_pageCaptured site pageNum)))"

fun dn_pages ::
  "('v, 'c) dn_site \<Rightarrow> 'v dn_page \<Rightarrow> nat list \<Rightarrow> 'v dn_response list \<Rightarrow> 'v list \<Rightarrow> 'v list" where
  "dn_pages site page [] allResponses allCarData = allCarData"
| "dn_pages site page (pageNum # later) allResponses allCarData =
     (case dn_turn site page pageNum allResponses of
        None \<Rightarrow> allCarData
      | Some responses \<Rightarrow>
         if responses = [] then dn_pages site page later responses allCarData
         else
           (case last responses of
              Inl e \<Rightarrow> allCarData
            | Inr DNull \<Rightarrow> allCarData
            | Inr DOther \<Rightarrow> dn_pages site page later responses allCarData
            | Inr (DObject None) \<Rightarrow> dn_pages site page later responses allCarData
            | Inr (DObject (Some vehicles)) \<Rightarrow>
                if length vehicles < 25 then allCarData @ vehicles
                else dn_pages site page later responses (allCarData @ vehicles)))"

text \<open>\<open>extractCars\<close>, lines 1340-1527: the three guards, the pages, and the mapping of the
  vehicles, which drops a vehicle whose mapping throws.\<close>

definition dn_extractCars ::
  "('v, 'c) dn_site \<Rightarrow> 'v dn_page \<Rightarrow> SearchParams option \<Rightarrow> (error + 'c list) \<times> 'v dn_page" where
  "dn_extractCars site page params =
     (if dn_noResults page then (Inr [], page)
      else if dn_makeApplied page = Some False then (Inr [], page)
      else if dn_modelApplied page = Some False then (Inr [], page)
      else (Inr (List.map_filter (dn_transform site) (dn_pages site page [1, 2, 3] [] [])), page))"

definition disposalnetworkConfig :: "('v, 'c) dn_site \<Rightarrow> ('v dn_page, 'c) SiteConfig" where
  "disposalnetworkConfig site =
     \<lparr> name = ''disposalnetwork'', useProxies = False, shouldNavigateToSearchUrl = False,
       buildSearchUrl = None,
       login = (\<lambda>page credentials. (dn_login site credentials, page)),
       applyFilters = Some (dn_applyFilters site),
       extractCars = Some (\<lambda>page params. Some (dn_extractCars site page params)) \<rparr>"

section \<open>Conditions used in the statements\<close>

text \<open>
  The job is ready to run the driver: the page is created with its routes, the
  credentials are there, the login and the waits after it succeed and leave the page as
  it is, and the page closes.
\<close>

definition job_ready ::
  "'p Browser \<Rightarrow> (string \<rightharpoonup> LoginCredentials) \<Rightarrow> ('p, 'c) SiteConfig \<Rightarrow> 'p \<Rightarrow> bool" where
  "job_ready br cr sc p \<longleftrightarrow>
     br_newPage br (name sc) = Inr p \<and> br_route br p = None
     \<and> br_contextRoute br (name sc) = None \<and> br_waitAfterLogin br p = (None, p)
     \<and> (\<forall>q. br_close br q = None)
     \<and> (case cr (name sc) of
          None \<Rightarrow> False
        | Some c \<Rightarrow> username c \<noteq> [] \<and> password c \<noteq> [] \<and> login sc p c = (None, p))"

text \<open>Disposal Network offers no label for the make that is asked for; or it offers the
  make and no label for the model asked for with it. The steps before the look-up succeed.\<close>

definition dn_make_unavailable :: "('v, 'c) dn_site \<Rightarrow> SearchParams \<Rightarrow> bool" where
  "dn_make_unavailable site params \<longleftrightarrow>
     given (sp_make params) \<and> dn_openMake site = None
     \<and> dn_makeLabel site (toUpperCase (the (sp_make params))) = Inr False"

definition dn_model_unavailable :: "('v, 'c) dn_site \<Rightarrow> SearchParams \<Rightarrow> bool" where
  "dn_model_unavailable site params \<longleftrightarrow>
     given (sp_make params) \<and> given (sp_model params) \<and> dn_openMake site = None
     \<and> dn_makeLabel site (toUpperCase (the (sp_make params))) = Inr True
     \<and> dn_checkMake site = None \<and> dn_openRange site = None
     \<and> dn_modelLabels site (toUpperCase (the (sp_model params))) = Inr 0"

text \<open>CarToTrade offers no option for the model that is asked for; the make, if any, could
  be ticked and the first search ran.\<close>

definition ct_model_unavailable :: "'c ct_site \<Rightarrow> SearchParams \<Rightarrow> bool" where
  "ct_model_unavailable site params \<longleftrightarrow>
     given (sp_model params)
     \<and> (if given (sp_make params)
         then ct_checkMake site (toUpperCase (the (sp_make params))) else None) = None
     \<and> ct_search site
          (num_or (sp_minPrice params) 0, num_or (sp_maxPrice params) 100000)
          (num_or (sp_minMileage params) 0, num_or (sp_maxMileage params) 100000)
          (num_or (sp_minAge params) 0, num_or (sp_maxAge params) 25) = None
     \<and> ct_openRefine site = None
     \<and> (case ct_options site of
          Inl e \<Rightarrow> False
        | Inr options \<Rightarrow> ct_match (the (sp_model params)) options = None)"

text \<open>The job of a site whose driver ran to the end and extracted no record; \<open>called\<close>
  says whether a progress callback was given.\<close>

definition empty_job :: "string \<Rightarrow> bool \<Rightarrow> nat \<Rightarrow> nat \<Rightarrow> 'c job" where
  "empty_job n called totalSites i =
     \<lparr> ps_outcome = Some (Inr (Some [])),
       ps_events = [NewPage n, RouteSetup n, Login n, ApplyFilters n, ExtractCars n]
                   @ (if called then [Progress n [] totalSites (i + 1)] else [])
                   @ [ClosePage n],
       ps_index = i + 1 \<rparr>"

text \<open>No callback is given, or the one given comes back from the call with these
  arguments.\<close>

definition callback_returns :: "'c callback option \<Rightarrow> string \<Rightarrow> 'c list \<Rightarrow> nat \<Rightarrow> nat \<Rightarrow> bool" where
  "callback_returns onProgress n cars totalSites currentSite =
     (case onProgress of
        None \<Rightarrow> True
      | Some callback \<Rightarrow> callback n cars totalSites currentSite = CallReturns)"

text \<open>
  What \<open>extractCars\<close> returned to the job, if the job came that far: the result of the
  \<open>try\<close> of the same job without a callback, on the page that was created for it.
\<close>

definition extracted ::
  "'p Browser \<Rightarrow> (string \<rightharpoonup> LoginCredentials) \<Rightarrow> nat \<Rightarrow> SearchParams
    \<Rightarrow> ('p, 'c) SiteConfig \<Rightarrow> nat \<Rightarrow> 'c list option" where
  "extracted br siteCredentials totalSites searchParams siteConfig currentSiteIndex =
     (case br_newPage br (name siteConfig) of
        Inl e \<Rightarrow> None
      | Inr newPage \<Rightarrow>
         (case br_route br newPage of
            Some e \<Rightarrow> None
          | None \<Rightarrow>
             (case (if contextBlocking siteConfig then br_contextRoute br (name siteConfig)
                    else None) of
                Some e \<Rightarrow> None
              | None \<Rightarrow>
                 (case fst (ps_try br siteCredentials None totalSites searchParams siteConfig
                              currentSiteIndex newPage) of
                    Returns extractedData \<Rightarrow> extractedData
                  | Throws e \<Rightarrow> None
                  | Hangs \<Rightarrow> None))))"

text \<open>The end of a \<open>try\<close> that has run without a callback, when a callback is given: the
  call is the last thing the \<open>try\<close> does.\<close>

definition with_callback ::
  "'c callback option \<Rightarrow> string \<Rightarrow> nat \<Rightarrow> nat \<Rightarrow> 'c try_result \<times> 'c event list \<times> 'p
    \<Rightarrow> 'c try_result \<times> 'c event list \<times> 'p" where
  "with_callback onProgress n totalSites currentSite x =
     (case (onProgress, x) of
        (Some callback, Returns (Some cars), evs, p) \<Rightarrow>
          ((case callback n cars totalSites currentSite of
              CallReturns \<Rightarrow> Returns (Some cars)
            | CallThrows e \<Rightarrow> Throws e
            | CallHangs \<Rightarrow> Hangs),
           evs @ [Progress n cars totalSites currentSite], p)
      | _ \<Rightarrow> x)"

subsection \<open>Sites to run the drivers on\<close>

text \<open>A Disposal Network that offers the make BMW with two labels for the model X5 and
  nothing else, and answers every search with one vehicle.\<close>

definition demo_dn :: "(string, string) dn_site" where
  "demo_dn =
     \<lparr> dn_login = (\<lambda>c. None), dn_openMake = None,
       dn_makeLabel = (\<lambda>make. Inr (make = js ''BMW'')), dn_checkMake = None,
       dn_openRange = None,
       dn_modelLabels = (\<lambda>model. Inr (if model = js ''X5'' then 2 else 0)),
       dn_checkModels = None, dn_pause = None, dn_mileageOptions = Inr [],
       dn_search = None, dn_openFilter = None, dn_openPrice = None, dn_priceOptions = Inr [],
       dn_openAge = None, dn_ageOptions = Inr [], dn_selectOption = (\<lambda>text. None),
       dn_closeFilter = None, dn_captured = [Inr (DObject (Some [''vehicle 1'']))],
       dn_finalWait = None, dn_finalCaptured = [], dn_openColour = None,
       dn_colourLabel = (\<lambda>colour. Inr False), dn_clickColour = None, dn_closeColour = None,
       dn_capturedLate = [], dn_settle = None, dn_nextPage = (\<lambda>pageNum. Inr False),
       dn_pageCaptured = (\<lambda>pageNum. []), dn_transform = Some \<rparr>"

definition dn_browser :: "string dn_page Browser" where
  "dn_browser =
     \<lparr> br_init = None, br_newPage = (\<lambda>n. Inr dn_newPage), br_route = (\<lambda>p. None),
       br_contextRoute = (\<lambda>n. None), br_waitAfterLogin = (\<lambda>p. (None, p)),
       br_goto = (\<lambda>p url. (None, p)), br_close = (\<lambda>p. None),
       br_closeStagehand = (\<lambda>proxied. None) \<rparr>"

definition driver_credentials :: "string \<rightharpoonup> LoginCredentials" where
  "driver_credentials =
     [''disposalnetwork'' \<mapsto> \<lparr> username = ''user'', password = ''secret'' \<rparr>,
      ''CarToTrade'' \<mapsto> \<lparr> username = ''user'', password = ''secret'' \<rparr>]"

text \<open>A CarToTrade whose first result page shows one car and a working Next button, and
  whose second page does not finish loading; it offers the make BMW and two options for
  the model.\<close>

definition next_button :: ct_button where
  "next_button =
     \<lparr> bt_text = Inr (Some (js ''Next'')), bt_pageAttr = Inr None, bt_visible = Inr True,
       bt_click = None \<rparr>"

definition first_view :: "string ct_view" where
  "first_view =
     \<lparr> cv_load = None, cv_panels = Inr [Card ''car 1'', Skipped], cv_settle = None,
       cv_container = Inr (Some (Inr (Some next_button))), cv_buttons = Inr [],
       cv_pageButtons = Inr [], cv_nextButtons = Inr [], cv_currentPageButton = Inr None,
       cv_loaded = None, cv_newCards = Inr 1, cv_waited = None, cv_newCardsLate = Inr 1 \<rparr>"

definition stuck_view :: "string ct_view" where
  "stuck_view = first_view\<lparr> cv_load := Some ''page.waitForLoadState: Timeout 30000ms exceeded'' \<rparr>"

definition demo_ct :: "string ct_site" where
  "demo_ct =
     \<lparr> ct_login = (\<lambda>c. None),
       ct_checkMake = (\<lambda>make. if make = js ''BMW'' then None
                               else Some ''locator.check: Timeout 30000ms exceeded''),
       ct_search = (\<lambda>price mileage age. None), ct_openRefine = None,
       ct_options = Inr [([], Some (js ''Select range'')), (js ''17'', Some (js ''3 Series''))],
       ct_selectModel = (\<lambda>v. None),
       ct_views = (\<lambda>k. if k = 0 then first_view else stuck_view) \<rparr>"

definition ct_newPage :: ct_page where
  "ct_newPage = \<lparr> ct_searchExecuted = None, ct_shown = 0 \<rparr>"

definition ct_browser :: "ct_page Browser" where
  "ct_browser =
     \<lparr> br_init = None, br_newPage = (\<lambda>n. Inr ct_newPage), br_route = (\<lambda>p. None),
       br_contextRoute = (\<lambda>n. None), br_waitAfterLogin = (\<lambda>p. (None, p)),
       br_goto = (\<lambda>p url. (None, p)), br_close = (\<lambda>p. None),
       br_closeStagehand = (\<lambda>proxied. None) \<rparr>"

chapter \<open>Properties\<close>

text \<open>The claims C1 to C10 about the program, each stated before its theorem, and the
  lemmas they rest on.\<close>

section \<open>Result normalisation (frontend/src/services/api/vehicleApi.ts)\<close>

subsection \<open>Title\<close>

lemma title_priority:
  "v_title (convertApiVehicleToVehicle g n a) =
     (case av_title a of
        Some t \<Rightarrow> if t \<noteq> [] then t else
          str_or (av_primaryVehicleDescription a)
            (js_to_string (av_make a) @ '' '' @ js_to_string (av_model a))
      | None \<Rightarrow>
          str_or (av_primaryVehicleDescription a)
            (js_to_string (av_make a) @ '' '' @ js_to_string (av_model a)))"
  by (simp add: convertApiVehicleToVehicle_def str_or_def split: option.splits)

lemma title_never_fallback_when_short:
  "av_title a = None \<Longrightarrow> av_primaryVehicleDescription a = None \<Longrightarrow>
   v_title (convertApiVehicleToVehicle g n a) =
     js_to_string (av_make a) @ '' '' @ js_to_string (av_model a)"
  by (simp add: convertApiVehicleToVehicle_def str_or_def)

text \<open>
  C6. The claim: the normalized title is the title if non-empty, otherwise
  primaryVehicleDescription, otherwise make + " " + model, otherwise "Unknown Vehicle"; a
  record with none of the four set normalizes to "Unknown Vehicle". The code evaluated at
  the record with none of them set: the concatenation is the non-empty text
  \<open>undefined undefined\<close>, so the last operand is never reached.
\<close>

theorem C6_title_of_empty_record:
  "v_title (convertApiVehicleToVehicle g n emptyApiVehicle) = ''undefined undefined''
   \<and> v_title (convertApiVehicleToVehicle g n emptyApiVehicle) \<noteq> ''Unknown Vehicle''"
  by (simp add: convertApiVehicleToVehicle_def emptyApiVehicle_def str_or_def js_to_string_def)

subsection \<open>Price\<close>

text \<open>
  C7, as stated: every raw record whose price is present, the number 0 included, keeps
  that value. It fails at the number 0, which becomes the string "0".
\<close>

theorem C7_price_zero_counterexample:
  "v_price (convertApiVehicleToVehicle ''id'' ''t'' (emptyApiVehicle\<lparr>av_price := Some (PNum 0)\<rparr>))
     = PStr ''0''
   \<and> v_price (convertApiVehicleToVehicle ''id'' ''t'' (emptyApiVehicle\<lparr>av_price := Some (PNum 0)\<rparr>))
     \<noteq> PNum 0"
  by (simp add: convertApiVehicleToVehicle_def emptyApiVehicle_def price_truthy_def)

text \<open>
  C7, amended: a price that is a non-empty string or a non-zero number is kept unchanged,
  with its type; a price that is the number 0 or the empty string, like an absent price,
  becomes the string "0".
\<close>

theorem C7_price_preserved:
  "av_price a = Some p \<Longrightarrow>
   v_price (convertApiVehicleToVehicle g n a) = (if price_truthy p then p else PStr ''0'')"
  by (simp add: convertApiVehicleToVehicle_def)

theorem C7_price_preserved_witness:
  "av_price (emptyApiVehicle\<lparr>av_price := Some (PNum 12500)\<rparr>) = Some (PNum 12500)
   \<and> v_price (convertApiVehicleToVehicle ''id'' ''t'' (emptyApiVehicle\<lparr>av_price := Some (PNum 12500)\<rparr>))
       = PNum 12500"
  using C7_price_preserved [of "emptyApiVehicle\<lparr>av_price := Some (PNum 12500)\<rparr>" "PNum 12500" "''id''" "''t''"]
  by (simp add: price_truthy_def)

section \<open>The batch scheduler (backend/index.ts, runInBatches)\<close>

subsection \<open>Results of the loop\<close>

lemma first_rejection_fulfilled: "first_rejection (map fulfilled_with vs) = None"
  by (induction vs) (auto simp: fulfilled_with_def)

lemma all_values_fulfilled: "all_values (map fulfilled_with vs) = Some vs"
  by (induction vs) (auto simp: fulfilled_with_def)

lemma Promise_all_fulfilled: "Promise_all (map fulfilled_with vs) = Some (Inr vs)"
  by (simp add: Promise_all_def first_rejection_fulfilled all_values_fulfilled)

lemma runInBatches_loop_all_fulfilled:
  "0 < b \<Longrightarrow>
   runInBatches_loop (map fulfilled_with vs) b i acc = Some (Inr (acc @ drop i vs))"
proof (induction "length vs - i" arbitrary: i acc rule: less_induct)
  case less
  show ?case
  proof (cases "i < length vs")
    case True
    have sl: "slice (map fulfilled_with vs) i (i + b) = map fulfilled_with (take b (drop i vs))"
      by (simp add: slice_def take_map drop_map)
    have "length vs - (i + b) < length vs - i" using True less.prems by arith
    from less.hyps[OF this less.prems]
    have ih: "runInBatches_loop (map fulfilled_with vs) b (i + b) (acc @ take b (drop i vs))
              = Some (Inr ((acc @ take b (drop i vs)) @ drop (i + b) vs))" .
    have "take b (drop i vs) @ drop (i + b) vs = drop i vs"
      by (metis add.commute append_take_drop_id drop_drop)
    then show ?thesis
      using True ih
      by (subst runInBatches_loop.simps) (simp add: sl Promise_all_fulfilled)
  next
    case False
    then show ?thesis by (subst runInBatches_loop.simps) simp
  qed
qed

subsection \<open>The scheduler step by step\<close>

lemma all_values_Some: "all_values ps = Some vs \<Longrightarrow> ps = map fulfilled_with vs"
  by (induction ps arbitrary: vs rule: all_values.induct) (auto simp: fulfilled_with_def)

lemma map_nth_upt: "j \<le> length xs \<Longrightarrow> map ((!) xs) [i ..< j] = take (j - i) (drop i xs)"
  by (rule nth_equalityI) auto

lemma map_nth_chunk: "map ((!) tasks) (chunk tasks b i) = take b (drop i tasks)"
proof -
  have "map ((!) tasks) (chunk tasks b i)
        = take (min (i + b) (length tasks) - i) (drop i tasks)"
    unfolding chunk_def by (rule map_nth_upt) simp
  also have "\<dots> = take b (drop i tasks)"
    by (cases "i + b \<le> length tasks") (simp_all add: min_def)
  finally show ?thesis .
qed

lemma upt_join: "i \<le> m \<Longrightarrow> [0 ..< i] @ [i ..< m] = [0 ..< m]"
  using upt_add_eq_append [of 0 i "m - i"] by simp

lemma rb_inv_init: "rb_inv tasks b rb_init"
  by (simp add: rb_inv_def rb_init_def)

lemma rb_inv_step:
  assumes "0 < b" "rb_inv tasks b s" "rb_step tasks b s s'"
  shows "rb_inv tasks b s'"
  using assms(3)
proof cases
  case enter
  with assms(2) show ?thesis by (auto simp: rb_inv_def chunk_def)
next
  case (call j js)
  with assms(2) show ?thesis by (auto simp: rb_inv_def)
next
  case await
  with assms(2) show ?thesis by (auto simp: rb_inv_def)
next
  case (settle j)
  with assms(2) show ?thesis by (auto simp: rb_inv_def split: rb_phase.splits)
next
  case (fulfilled vs)
  from fulfilled assms(2) have bt: "rb_batch s = chunk tasks b (rb_i s)" and il: "rb_i s < length tasks"
    and res: "map fulfilled_with (rb_results s) = take (rb_i s) tasks" and dv: "b dvd rb_i s"
    and st: "rb_started s = [0 ..< rb_i s] @ rb_batch s"
    and se: "{0 ..< rb_i s} \<subseteq> set (rb_settled s)" "set (rb_settled s) \<subseteq> set (rb_started s)"
    and di: "distinct (rb_settled s)"
    by (auto simp: rb_inv_def)
  from fulfilled(4) bt have "take b (drop (rb_i s) tasks) = map fulfilled_with vs"
    using all_values_Some map_nth_chunk by metis
  then have r': "map fulfilled_with (rb_results s @ vs) = take (rb_i s + b) tasks"
    using res by (simp add: take_add)
  have "[0 ..< rb_i s] @ [rb_i s ..< min (rb_i s + b) (length tasks)]
        = [0 ..< min (rb_i s + b) (length tasks)]"
    by (rule upt_join) (use il in simp)
  then have s1: "rb_started s = [0 ..< min (rb_i s + b) (length tasks)]"
    using st bt by (simp add: chunk_def)
  have s2: "set (rb_settled s) = set (rb_started s)"
    using se fulfilled(3) st by auto
  show ?thesis
    using fulfilled(1) r' dv s1 s2 di by (simp add: rb_inv_def)
next
  case (rejected j e)
  with assms(2) show ?thesis by (auto simp: rb_inv_def)
next
  case return
  with assms(2) show ?thesis by (auto simp: rb_inv_def)
qed

lemma rb_reachable_inv: "rb_reachable tasks b s \<Longrightarrow> 0 < b \<Longrightarrow> rb_inv tasks b s"
  by (induction rule: rb_reachable.induct) (auto intro: rb_inv_init rb_inv_step)






lemma runInBatches_all_fulfilled:
  "0 < b \<Longrightarrow> runInBatches (map fulfilled_with vs) b = Some (Inr vs)"
  by (simp add: runInBatches_def runInBatches_loop_all_fulfilled)

lemma rb_returned_results:
  assumes "0 < b" "rb_reachable tasks b s" "rb_phase s = Returned"
  shows "tasks = map fulfilled_with (rb_results s)
         \<and> runInBatches tasks b = Some (Inr (rb_results s))"
proof -
  from rb_reachable_inv[OF assms(2,1)] assms(3)
  have "map fulfilled_with (rb_results s) = take (rb_i s) tasks" "length tasks \<le> rb_i s"
    by (auto simp: rb_inv_def)
  then have t: "tasks = map fulfilled_with (rb_results s)" by simp
  show ?thesis
    using t runInBatches_all_fulfilled[OF assms(1), of "rb_results s"] by simp
qed




text \<open>
  C10. For every batchSize of at least 1 and every list of tasks that all resolve,
  runInBatches returns, and returns the list of the values the tasks resolved with, in
  the order the tasks were submitted (so it has the length of the input, and its i-th
  element is the i-th task's value).
\<close>

theorem C10_runInBatches_order:
  assumes "0 < batchSize"
  shows "runInBatches (map fulfilled_with vs) batchSize = Some (Inr vs)"
  using assms by (rule runInBatches_all_fulfilled)

theorem C10_runInBatches_order_witness:
  "(0::nat) < 2
   \<and> runInBatches (map fulfilled_with [10, 20, 30::nat]) 2 = Some (Inr [10, 20, 30])"
  using C10_runInBatches_order [of 2 "[10, 20, 30::nat]"] by simp

section \<open>The jobs and the run (backend/index.ts, processSite and scrapeAllSites)\<close>

subsection \<open>The two groups step by step\<close>

lemma rb_step_Returned:
  "rb_step tasks b s s' \<Longrightarrow> rb_phase s = Returned \<Longrightarrow> rb_phase s' = Returned"
  by (induction rule: rb_step.induct) auto

lemma g_inv_init: "g_inv tasks limit (group_init tasks)"
  by (auto simp: g_inv_def group_init_def intro: rb_reachable.init)

lemma g_inv_step:
  assumes "g_inv tasks limit s" "group_step tasks limit s s'"
  shows "g_inv tasks limit s'"
  using assms(2)
proof cases
  case (batch r)
  then show ?thesis
    using assms(1)
    by (cases "g_chain s")
       (auto simp: g_inv_def intro: rb_reachable.step dest: rb_step_Returned)
next
  case close
  then show ?thesis using assms(1) by (auto simp: g_inv_def)
next
  case (reject e)
  then show ?thesis using assms(1) by (auto simp: g_inv_def)
qed

lemma sys_reachable_inv:
  "sys_reachable P D limit s \<Longrightarrow> g_inv P limit (fst s) \<and> g_inv D limit (snd s)"
proof (induction rule: sys_reachable.induct)
  case init
  then show ?case by (simp add: g_inv_init)
next
  case (step s s')
  from step.hyps(2) step.IH show ?case
    by cases (auto intro: g_inv_step)
qed

lemma g_inv_closed_settled:
  assumes "0 < limit" "g_inv tasks limit s" "g_closes s = 1"
  shows "set (rb_settled (g_rb s)) = {0 ..< length tasks}"
proof -
  from assms(2,3) have ne: "tasks \<noteq> []" and ph: "rb_phase (g_rb s) = Returned"
    and re: "rb_reachable tasks (min limit (length tasks)) (g_rb s)"
    by (auto simp: g_inv_def split: chain.splits)
  from ne assms(1) have "0 < min limit (length tasks)" by simp
  from rb_reachable_inv[OF re this] ph show ?thesis by (auto simp: rb_inv_def)
qed

lemma g_inv_closes:
  "g_inv tasks limit s \<Longrightarrow>
   g_closes s \<le> 1 \<and> (g_closes s = 1 \<longleftrightarrow> g_chain s = Closed) \<and> (tasks = [] \<longrightarrow> g_closes s = 0)"
  by (auto simp: g_inv_def split: chain.splits)

subsection \<open>Facts about one job\<close>

text \<open>The progress call is the last thing a \<open>try\<close> does: the \<open>try\<close> with a callback is
  the \<open>try\<close> without one, followed by the call when that \<open>try\<close> returned an array.\<close>

lemma with_callback_None [simp]: "with_callback None n t i x = x"
  by (simp add: with_callback_def)

lemma with_callback_Throws [simp]: "with_callback onP n t i (Throws e, evs, q) = (Throws e, evs, q)"
  by (simp add: with_callback_def split: option.splits)

lemma with_callback_Hangs [simp]: "with_callback onP n t i (Hangs, evs, q) = (Hangs, evs, q)"
  by (simp add: with_callback_def split: option.splits)

lemma with_callback_null [simp]:
  "with_callback onP n t i (Returns None, evs, q) = (Returns None, evs, q)"
  by (simp add: with_callback_def split: option.splits)

lemma with_callback_Cons:
  "with_callback onP n t i (r, ev # evs, q)
   = (case with_callback onP n t i (r, evs, q) of (r', evs', q') \<Rightarrow> (r', ev # evs', q'))"
  by (simp add: with_callback_def split: option.splits try_result.splits callback_end.splits)

lemma ps_extract_callback:
  "ps_extract onP t sp sc i p = with_callback onP (name sc) t (i + 1) (ps_extract None t sp sc i p)"
  by (simp add: ps_extract_def with_callback_def
      split: option.splits prod.splits sum.splits callback_end.splits)

lemma ps_filter_callback:
  "ps_filter onP t sp sc i p = with_callback onP (name sc) t (i + 1) (ps_filter None t sp sc i p)"
proof (cases "applyFilters sc")
  case None
  then show ?thesis using ps_extract_callback[of onP t sp sc i p] by (simp add: ps_filter_def)
next
  case (Some f)
  obtain eo p' where g: "f p sp = (eo, p')" by force
  show ?thesis
  proof (cases eo)
    case None
    obtain r evs q where x: "ps_extract None t sp sc i p' = (r, evs, q)"
      using prod_cases3 by blast
    from Some g None x ps_extract_callback[of onP t sp sc i p'] show ?thesis
      by (simp add: ps_filter_def with_callback_Cons)
  next
    case (Some e)
    with \<open>applyFilters sc = Some f\<close> g show ?thesis by (simp add: ps_filter_def)
  qed
qed

lemma ps_navigate_callback:
  "ps_navigate br onP t sp sc i p
   = with_callback onP (name sc) t (i + 1) (ps_navigate br None t sp sc i p)"
proof (cases "if shouldNavigateToSearchUrl sc then buildSearchUrl sc else None")
  case None
  then show ?thesis using ps_filter_callback[of onP t sp sc i p] by (simp add: ps_navigate_def)
next
  case (Some build)
  obtain eo p' where g: "br_goto br p (build sp) = (eo, p')" by force
  show ?thesis
  proof (cases eo)
    case None
    obtain r evs q where x: "ps_filter None t sp sc i p' = (r, evs, q)"
      using prod_cases3 by blast
    from Some g None x ps_filter_callback[of onP t sp sc i p'] show ?thesis
      by (simp add: ps_navigate_def with_callback_Cons)
  next
    case (Some e)
    with \<open>(if shouldNavigateToSearchUrl sc then buildSearchUrl sc else None) = Some build\<close> g
    show ?thesis by (simp add: ps_navigate_def)
  qed
qed

lemma ps_try_callback:
  "ps_try br cr onP t sp sc i p
   = with_callback onP (name sc) t (i + 1) (ps_try br cr None t sp sc i p)"
proof (cases "cr (name sc)")
  case None
  then show ?thesis by (simp add: ps_try_def)
next
  case (Some c)
  obtain e1 p1 where l: "login sc p c = (e1, p1)" by force
  obtain e2 p2 where w: "br_waitAfterLogin br p1 = (e2, p2)" by force
  show ?thesis
  proof (cases "username c = [] \<or> password c = [] \<or> e1 \<noteq> None \<or> e2 \<noteq> None")
    case True
    with Some l w show ?thesis
      by (auto simp: ps_try_def split: option.splits)
  next
    case False
    obtain r evs q where x: "ps_navigate br None t sp sc i p2 = (r, evs, q)"
      using prod_cases3 by blast
    from False Some l w x ps_navigate_callback[of br onP t sp sc i p2] show ?thesis
      by (simp add: ps_try_def with_callback_Cons)
  qed
qed

text \<open>Without a callback there is no progress call; with one, the calls of a job are the
  one call that reports what was extracted.\<close>

lemma ps_extract_silent: "filter is_progress (fst (snd (ps_extract None t sp sc i p))) = []"
  by (simp add: ps_extract_def split: option.splits prod.splits sum.splits)

lemma ps_filter_silent: "filter is_progress (fst (snd (ps_filter None t sp sc i p))) = []"
  using ps_extract_silent[of t sp sc i]
  by (simp add: ps_filter_def case_prod_beta split: option.splits)

lemma ps_navigate_silent: "filter is_progress (fst (snd (ps_navigate br None t sp sc i p))) = []"
  using ps_filter_silent[of t sp sc i]
  by (simp add: ps_navigate_def case_prod_beta split: option.splits)

lemma ps_try_silent: "filter is_progress (fst (snd (ps_try br cr None t sp sc i p))) = []"
  using ps_navigate_silent[of br t sp sc i]
  by (simp add: ps_try_def case_prod_beta split: option.splits)

lemma with_callback_progress:
  assumes "filter is_progress evs = []"
  shows "filter is_progress (fst (snd (with_callback onP n t i (r, evs, q))))
         = (case (onP, r) of
              (Some cb, Returns (Some cars)) \<Rightarrow> [Progress n cars t i]
            | _ \<Rightarrow> [])"
  using assms
  by (simp add: with_callback_def split: option.splits try_result.splits callback_end.splits)

lemma filter_progress_setup: "filter is_progress (ps_setup sc) = []"
  by (simp add: ps_setup_def)

lemma processSite_progress:
  "filter is_progress (ps_events (processSite br cr onP t sp sc i))
   = (case (onP, extracted br cr t sp sc i) of
        (Some cb, Some cars) \<Rightarrow> [Progress (name sc) cars t (i + 1)]
      | _ \<Rightarrow> [])"
proof (cases "br_newPage br (name sc)")
  case (Inl e)
  then show ?thesis
    by (simp add: processSite_def extracted_def split: option.splits)
next
  case (Inr newPage)
  show ?thesis
  proof (cases "br_route br newPage")
    case (Some e)
    with Inr show ?thesis
      by (simp add: processSite_def extracted_def split: option.splits)
  next
    case None
    note route = this
    show ?thesis
    proof (cases "if contextBlocking sc then br_contextRoute br (name sc) else None")
      case (Some e)
      with Inr route show ?thesis
        by (simp add: processSite_def extracted_def filter_progress_setup split: option.splits)
    next
      case None
      obtain r evs q where a: "ps_try br cr None t sp sc i newPage = (r, evs, q)"
        using prod_cases3 by blast
      from ps_try_silent[of br cr t sp sc i newPage] a have s: "filter is_progress evs = []"
        by simp
      obtain r' evs' q' where b:
        "with_callback onP (name sc) t (i + 1) (r, evs, q) = (r', evs', q')"
        using prod_cases3 by blast
      from with_callback_progress[OF s, of onP "name sc" t "i + 1" r q] b
      have c: "filter is_progress evs'
               = (case (onP, r) of
                    (Some cb, Returns (Some cars)) \<Rightarrow> [Progress (name sc) cars t (i + 1)]
                  | _ \<Rightarrow> [])"
        by simp
      have t: "ps_try br cr onP t sp sc i newPage = (r', evs', q')"
        using ps_try_callback[of br cr onP t sp sc i newPage] a b by simp
      have x: "extracted br cr t sp sc i = (case r of Returns d \<Rightarrow> d | _ \<Rightarrow> None)"
        using Inr route None a by (simp add: extracted_def split: try_result.splits)
      have ev: "filter is_progress (ps_events (processSite br cr onP t sp sc i))
                = filter is_progress evs'"
        using Inr route None t
        by (cases r') (simp_all add: processSite_def filter_progress_setup)
      show ?thesis
        unfolding ev c x
        by (simp split: option.splits try_result.splits)
    qed
  qed
qed

text \<open>A job that resolves with an array has extracted it; and what a job resolves with
  once the extraction has returned and the callback has been called.\<close>

lemma with_callback_Returns:
  "with_callback onP n t i (r, evs, q) = (Returns (Some cars), evs', q') \<Longrightarrow> r = Returns (Some cars)"
  by (auto simp: with_callback_def split: option.splits try_result.splits callback_end.splits)

lemma processSite_array:
  assumes "ps_outcome (processSite br cr onP t sp sc i) = Some (Inr (Some cars))"
  shows "extracted br cr t sp sc i = Some cars"
proof (cases "br_newPage br (name sc)")
  case (Inl e)
  with assms show ?thesis by (simp add: processSite_def)
next
  case (Inr newPage)
  show ?thesis
  proof (cases "br_route br newPage")
    case (Some e)
    with Inr assms show ?thesis by (simp add: processSite_def)
  next
    case None
    note route = this
    show ?thesis
    proof (cases "if contextBlocking sc then br_contextRoute br (name sc) else None")
      case (Some e)
      with Inr route assms show ?thesis by (simp add: processSite_def)
    next
      case None
      obtain r evs q where a: "ps_try br cr None t sp sc i newPage = (r, evs, q)"
        using prod_cases3 by blast
      obtain r' evs' q' where b:
        "with_callback onP (name sc) t (i + 1) (r, evs, q) = (r', evs', q')"
        using prod_cases3 by blast
      have t: "ps_try br cr onP t sp sc i newPage = (r', evs', q')"
        using ps_try_callback[of br cr onP t sp sc i newPage] a b by simp
      from assms Inr route None t have "r' = Returns (Some cars)"
        by (cases r'; cases "br_close br q'") (simp_all add: processSite_def)
      with b have "r = Returns (Some cars)" by (simp add: with_callback_Returns)
      with Inr route None a show ?thesis by (simp add: extracted_def)
    qed
  qed
qed

lemma processSite_called:
  assumes "extracted br cr t sp sc i = Some cars"
  shows "\<exists>q. ps_outcome (processSite br cr (Some cb) t sp sc i)
           = (case cb (name sc) cars t (i + 1) of
                CallReturns \<Rightarrow>
                  (case br_close br q of Some e' \<Rightarrow> Some (Inl e') | None \<Rightarrow> Some (Inr (Some cars)))
              | CallThrows e \<Rightarrow>
                  (case br_close br q of Some e' \<Rightarrow> Some (Inl e') | None \<Rightarrow> Some (Inr None))
              | CallHangs \<Rightarrow> None)"
proof (cases "br_newPage br (name sc)")
  case (Inl e)
  with assms show ?thesis by (simp add: extracted_def)
next
  case (Inr newPage)
  show ?thesis
  proof (cases "br_route br newPage")
    case (Some e)
    with Inr assms show ?thesis by (simp add: extracted_def)
  next
    case None
    note route = this
    show ?thesis
    proof (cases "if contextBlocking sc then br_contextRoute br (name sc) else None")
      case (Some e)
      with Inr route assms show ?thesis by (simp add: extracted_def)
    next
      case None
      obtain r evs q where a: "ps_try br cr None t sp sc i newPage = (r, evs, q)"
        using prod_cases3 by blast
      from assms Inr route None a have r: "r = Returns (Some cars)"
        by (simp add: extracted_def split: try_result.splits)
      have "ps_try br cr (Some cb) t sp sc i newPage
            = ((case cb (name sc) cars t (i + 1) of
                  CallReturns \<Rightarrow> Returns (Some cars)
                | CallThrows e \<Rightarrow> Throws e
                | CallHangs \<Rightarrow> Hangs),
               evs @ [Progress (name sc) cars t (i + 1)], q)"
        using ps_try_callback[of br cr "Some cb" t sp sc i newPage] a r
        by (simp add: with_callback_def)
      with Inr route None show ?thesis
        by (cases "cb (name sc) cars t (i + 1)") (auto simp: processSite_def)
    qed
  qed
qed

text \<open>A site without \<open>extractCars\<close> gives the job no array.\<close>

lemma ps_filter_no_extractCars:
  "extractCars sc = None \<Longrightarrow> fst (ps_filter onP t sp sc i p) \<noteq> Returns (Some cars)"
  by (simp add: ps_filter_def ps_extract_def case_prod_beta split: option.splits)

lemma ps_navigate_no_extractCars:
  "extractCars sc = None \<Longrightarrow> fst (ps_navigate br onP t sp sc i p) \<noteq> Returns (Some cars)"
  using ps_filter_no_extractCars[of sc onP t sp i _ cars]
  by (simp add: ps_navigate_def case_prod_beta split: option.splits)

lemma ps_try_no_extractCars:
  "extractCars sc = None \<Longrightarrow> fst (ps_try br cr onP t sp sc i p) \<noteq> Returns (Some cars)"
  using ps_navigate_no_extractCars[of sc br onP t sp i _ cars]
  by (simp add: ps_try_def case_prod_beta split: option.splits)

lemma extracted_no_extractCars:
  assumes "extractCars sc = None"
  shows "extracted br cr t sp sc i = None"
proof (rule ccontr)
  assume "extracted br cr t sp sc i \<noteq> None"
  then obtain cars newPage where "fst (ps_try br cr None t sp sc i newPage) = Returns (Some cars)"
    by (auto simp: extracted_def split: sum.splits option.splits try_result.splits if_splits)
  with ps_try_no_extractCars[OF assms] show False by blast
qed

lemma ps_try_credentials_missing:
  "credentials_missing cr (name sc) \<Longrightarrow>
   \<exists>e. ps_try br cr onProgress t sp sc i p = (Throws e, [], p)"
  by (auto simp: ps_try_def credentials_missing_def split: option.splits)

lemma extracted_credentials_missing:
  assumes "credentials_missing cr (name sc)"
  shows "extracted br cr t sp sc i = None"
proof (rule ccontr)
  assume "extracted br cr t sp sc i \<noteq> None"
  then obtain cars newPage where "fst (ps_try br cr None t sp sc i newPage) = Returns (Some cars)"
    by (auto simp: extracted_def split: sum.splits option.splits try_result.splits if_splits)
  with ps_try_credentials_missing[OF assms, of br None t sp i newPage] show False by auto
qed

lemma processSite_outcome:
  assumes "br_newPage br (name sc) = Inr p" "br_route br p = None"
    "br_contextRoute br (name sc) = None" "\<forall>q. br_close br q = None"
  shows "ps_outcome (processSite br cr onP t sp sc i)
         = try_value (fst (ps_try br cr onP t sp sc i p))"
  using assms
  by (auto simp: processSite_def try_value_def split: prod.splits try_result.splits)

lemma compile_null: "compile (xs @ None # ys) = compile (xs @ Some [] # ys)"
  by (simp add: compile_def)

subsection \<open>The jobs of the example sites\<close>

lemma demo_site_job:
  "demo_credentials n = Some \<lparr> username = ''user'', password = ''secret'' \<rparr> \<Longrightarrow>
   processSite demo_browser demo_credentials (Some demo_callback) t demo_params (demo_site n cars) i
   = \<lparr> ps_outcome = Some (Inr (Some cars)),
       ps_events = [NewPage n, RouteSetup n, Login n, ApplyFilters n, ExtractCars n,
                    Progress n cars t (i + 1), ClosePage n],
       ps_index = i + 1 \<rparr>"
  by (simp add: processSite_def ps_try_def ps_navigate_def ps_filter_def ps_extract_def
        ps_setup_def contextBlocking_def demo_site_def demo_browser_def demo_callback_def)

lemma failing_site_job:
  "demo_credentials n = Some \<lparr> username = ''user'', password = ''secret'' \<rparr> \<Longrightarrow>
   processSite demo_browser demo_credentials onP t demo_params (failing_site n) i
   = \<lparr> ps_outcome = Some (Inr None),
       ps_events = [NewPage n, RouteSetup n, Login n, ClosePage n],
       ps_index = i + 1 \<rparr>"
  by (simp add: processSite_def ps_try_def ps_setup_def contextBlocking_def failing_site_def
        demo_site_def demo_browser_def)

lemma demo_credentials_motorway:
  "demo_credentials ''motorway'' = Some \<lparr> username = ''user'', password = ''secret'' \<rparr>"
  by (simp add: demo_credentials_def)

lemma demo_credentials_carwow:
  "demo_credentials ''carwow'' = Some \<lparr> username = ''user'', password = ''secret'' \<rparr>"
  by (simp add: demo_credentials_def)

lemma runGroup_fulfilled:
  "vs \<noteq> [] \<Longrightarrow> 0 < limit \<Longrightarrow>
   runGroup br proxied (map fulfilled_with vs) limit =
     \<lparr> gr_result = (case br_closeStagehand br proxied of
                      Some e \<Rightarrow> Some (Inl e) | None \<Rightarrow> Some (Inr vs)),
       gr_closes = 1 \<rparr>"
  by (simp add: runGroup_def runInBatches_all_fulfilled)

lemma runGroup_empty: "runGroup br proxied [] limit = \<lparr> gr_result = Some (Inr []), gr_closes = 0 \<rparr>"
  by (simp add: runGroup_def)

lemma demo_browser_simps:
  "br_init demo_browser = None" "br_closeStagehand demo_browser proxied = None"
  by (simp_all add: demo_browser_def)

lemma scrape_one_site:
  assumes "\<not> useProxies sc"
    and "ps_outcome (processSite demo_browser cr onP 1 sp sc (idx sc)) = Some (Inr v)"
  shows "scrapeAllSites demo_browser cr None onP sp idx [sc]
         = \<lparr> run_result = Some (Inr (compile [v])), run_proxyCloses = 0, run_directCloses = 1 \<rparr>"
proof -
  have "runGroup demo_browser False (map fulfilled_with [v]) 5
        = \<lparr> gr_result = Some (Inr [v]), gr_closes = 1 \<rparr>"
    by (subst runGroup_fulfilled) (simp_all add: demo_browser_simps)
  then show ?thesis
    using assms unfolding scrapeAllSites_def Let_def
    by (simp add: runGroup_empty concurrencyLimit_def fulfilled_with_def demo_browser_simps)
qed

subsection \<open>Missing credentials\<close>

text \<open>
  C9, as stated: a site whose credentials are missing or empty fails before any
  authentication or navigation and without consuming a browser context. The second part
  fails: for bca, whose password is empty here, the job creates a page, installs the
  resource blocking on it and closes it.
\<close>

theorem C9_page_created_counterexample:
  "credentials_missing demo_credentials ''bca''
   \<and> ps_events (processSite demo_browser demo_credentials (Some demo_callback) 4 demo_params
                  (demo_site ''bca'' [''car'']) 0)
       = [NewPage ''bca'', RouteSetup ''bca'', ClosePage ''bca'']"
  by (simp add: credentials_missing_def demo_credentials_def processSite_def ps_try_def
        ps_setup_def contextBlocking_def demo_site_def demo_browser_def)

text \<open>
  C9, amended: for every site whose credentials are missing or empty (no entry, empty
  username or empty password), the job resolves as failed (with \<open>null\<close>) without calling
  the login, the navigation, the filters or the extraction and without a progress call;
  a page is nevertheless created for it, the resource blocking is installed, and the page
  is closed. (The page is created before the credentials are looked at; the statement
  is for a page that is created and closed without an error.)
\<close>

theorem C9_missing_credentials:
  assumes "credentials_missing siteCredentials (name siteConfig)"
    and "br_newPage br (name siteConfig) = Inr p"
    and "br_route br p = None"
    and "br_contextRoute br (name siteConfig) = None"
    and "br_close br p = None"
  shows "processSite br siteCredentials onProgress totalSites searchParams siteConfig i
         = \<lparr> ps_outcome = Some (Inr None),
             ps_events = ps_setup siteConfig @ [ClosePage (name siteConfig)],
             ps_index = i + 1 \<rparr>"
proof -
  from ps_try_credentials_missing[OF assms(1)]
  obtain e where "ps_try br siteCredentials onProgress totalSites searchParams siteConfig i p
                  = (Throws e, [], p)"
    by blast
  with assms(2-5) show ?thesis by (simp add: processSite_def)
qed

theorem C9_missing_credentials_witness:
  "credentials_missing demo_credentials ''bca''
   \<and> br_newPage demo_browser ''bca'' = Inr ()
   \<and> br_route demo_browser () = None
   \<and> br_contextRoute demo_browser ''bca'' = None
   \<and> br_close demo_browser () = None
   \<and> processSite demo_browser demo_credentials (Some demo_callback) 4 demo_params (demo_site ''bca'' [''car'']) 0
       = \<lparr> ps_outcome = Some (Inr None),
           ps_events = [NewPage ''bca'', RouteSetup ''bca'', ClosePage ''bca''],
           ps_index = 1 \<rparr>"
proof -
  have c: "credentials_missing demo_credentials (name (demo_site ''bca'' [''car'']))"
    by (simp add: credentials_missing_def demo_credentials_def demo_site_def)
  have n: "br_newPage demo_browser (name (demo_site ''bca'' [''car''])) = Inr ()"
    and r: "br_route demo_browser () = None"
    and x: "br_contextRoute demo_browser (name (demo_site ''bca'' [''car''])) = None"
    and cl: "br_close demo_browser () = None"
    by (simp_all add: demo_browser_def)
  from C9_missing_credentials[OF c n r x cl, of "Some demo_callback" 4 demo_params 0] c n r x cl
  show ?thesis
    by (simp add: ps_setup_def contextBlocking_def demo_site_def)
qed

subsection \<open>Progress calls\<close>

text \<open>
  C3, as stated: one progress notification for every completed job, failed ones included,
  so as many notifications as sites. It fails for a site whose login throws: the job
  completes (with \<open>null\<close>) and the callback, though given, is not called.
\<close>

theorem C3_failed_job_counterexample:
  "ps_outcome (processSite demo_browser demo_credentials (Some demo_callback) 1 demo_params
                 (failing_site ''motorway'') 0) = Some (Inr None)
   \<and> progress_count (ps_events (processSite demo_browser demo_credentials (Some demo_callback) 1
                                   demo_params (failing_site ''motorway'') 0)) = 0"
  by (simp add: failing_site_job demo_credentials_motorway progress_count_def)

text \<open>
  C3, amended: a job calls the progress callback at most once. It calls it exactly when a
  callback was given and the site's \<open>extractCars\<close> returned an array to the job, with
  records or without, and the call reports that array with the number of sites and the
  counter plus one. A job that ends before that (its page could not be set up, its
  credentials are missing, or the login, the navigation, \<open>applyFilters\<close> or \<open>extractCars\<close>
  threw or did not return) or whose site has no \<open>extractCars\<close> makes no call, although
  it may complete. So every job that resolved with an array has made its call when a
  callback was given; a job that resolved with \<open>null\<close> has made one only if the callback
  itself threw; and in a run with a callback the number of progress notifications is the
  number of sites whose extraction returned an array, not the number of sites.
\<close>

theorem C3_progress_per_job:
  "filter is_progress (ps_events (processSite br cr onProgress t sp sc i))
     = (case (onProgress, extracted br cr t sp sc i) of
          (Some callback, Some cars) \<Rightarrow> [Progress (name sc) cars t (i + 1)]
        | _ \<Rightarrow> [])
   \<and> progress_count (ps_events (processSite br cr onProgress t sp sc i)) \<le> 1
   \<and> (progress_count (ps_events (processSite br cr onProgress t sp sc i)) = 1
        \<longleftrightarrow> onProgress \<noteq> None \<and> extracted br cr t sp sc i \<noteq> None)
   \<and> (\<forall>cars. ps_outcome (processSite br cr onProgress t sp sc i) = Some (Inr (Some cars)) \<longrightarrow>
         extracted br cr t sp sc i = Some cars)
   \<and> (ps_outcome (processSite br cr onProgress t sp sc i) = Some (Inr None)
        \<and> progress_count (ps_events (processSite br cr onProgress t sp sc i)) = 1 \<longrightarrow>
         (\<exists>callback cars e. onProgress = Some callback \<and> extracted br cr t sp sc i = Some cars
            \<and> callback (name sc) cars t (i + 1) = CallThrows e))
   \<and> (credentials_missing cr (name sc) \<or> extractCars sc = None \<longrightarrow>
         progress_count (ps_events (processSite br cr onProgress t sp sc i)) = 0)
   \<and> sum_list (map (\<lambda>(sc', i'). progress_count
                     (ps_events (processSite br cr (Some given_callback) t sp sc' i'))) jobs)
       = length (filter (\<lambda>(sc', i'). extracted br cr t sp sc' i' \<noteq> None) jobs)"
proof -
  let ?J = "processSite br cr onProgress t sp sc i"
  have calls: "filter is_progress (ps_events (processSite br cr onP t sp sc' i'))
     = (case (onP, extracted br cr t sp sc' i') of
          (Some callback, Some cars) \<Rightarrow> [Progress (name sc') cars t (i' + 1)]
        | _ \<Rightarrow> [])" for onP sc' i'
    by (rule processSite_progress)
  have count: "progress_count (ps_events (processSite br cr onP t sp sc' i'))
     = (if onP \<noteq> None \<and> extracted br cr t sp sc' i' \<noteq> None then 1 else 0)" for onP sc' i'
    unfolding progress_count_def calls by (simp split: option.splits)
  have 2: "progress_count (ps_events ?J) \<le> 1"
    and 3: "progress_count (ps_events ?J) = 1
            \<longleftrightarrow> onProgress \<noteq> None \<and> extracted br cr t sp sc i \<noteq> None"
    unfolding count by simp_all
  have 4: "\<forall>cars. ps_outcome ?J = Some (Inr (Some cars)) \<longrightarrow> extracted br cr t sp sc i = Some cars"
    using processSite_array by blast
  have 5: "ps_outcome ?J = Some (Inr None) \<and> progress_count (ps_events ?J) = 1 \<longrightarrow>
         (\<exists>callback cars e. onProgress = Some callback \<and> extracted br cr t sp sc i = Some cars
            \<and> callback (name sc) cars t (i + 1) = CallThrows e)"
  proof
    assume h: "ps_outcome ?J = Some (Inr None) \<and> progress_count (ps_events ?J) = 1"
    with 3 obtain callback cars where c: "onProgress = Some callback"
      and x: "extracted br cr t sp sc i = Some cars"
      by auto
    from processSite_called[OF x, of callback] obtain q where
      "ps_outcome (processSite br cr (Some callback) t sp sc i)
           = (case callback (name sc) cars t (i + 1) of
                CallReturns \<Rightarrow>
                  (case br_close br q of Some e' \<Rightarrow> Some (Inl e') | None \<Rightarrow> Some (Inr (Some cars)))
              | CallThrows e \<Rightarrow>
                  (case br_close br q of Some e' \<Rightarrow> Some (Inl e') | None \<Rightarrow> Some (Inr None))
              | CallHangs \<Rightarrow> None)"
      by blast
    with h c obtain e where "callback (name sc) cars t (i + 1) = CallThrows e"
      by (cases "callback (name sc) cars t (i + 1)"; cases "br_close br q") simp_all
    with c x show "\<exists>callback cars e. onProgress = Some callback
            \<and> extracted br cr t sp sc i = Some cars
            \<and> callback (name sc) cars t (i + 1) = CallThrows e"
      by blast
  qed
  have 6: "sum_list (map (\<lambda>(sc', i'). progress_count
                     (ps_events (processSite br cr (Some given_callback) t sp sc' i'))) jobs)
       = length (filter (\<lambda>(sc', i'). extracted br cr t sp sc' i' \<noteq> None) jobs)"
    by (induction jobs) (simp_all add: count case_prod_beta)
  have 7: "credentials_missing cr (name sc) \<or> extractCars sc = None \<longrightarrow>
         progress_count (ps_events ?J) = 0"
    unfolding count
    using extracted_credentials_missing[of cr sc br t sp i]
      extracted_no_extractCars[of sc br cr t sp i]
    by auto
  from calls[of onProgress sc i] 2 3 4 5 6 7 show ?thesis by blast
qed

theorem C3_progress_per_job_witness:
  "extracted demo_browser demo_credentials 2 demo_params (demo_site ''carwow'' []) 1 = Some []
   \<and> progress_count (ps_events (processSite demo_browser demo_credentials (Some demo_callback) 2
                                   demo_params (demo_site ''carwow'' []) 1)) = 1
   \<and> ps_outcome (processSite demo_browser demo_credentials (Some throwing_callback) 2
                   demo_params (demo_site ''carwow'' []) 1) = Some (Inr None)
   \<and> progress_count (ps_events (processSite demo_browser demo_credentials (Some throwing_callback) 2
                                   demo_params (demo_site ''carwow'' []) 1)) = 1
   \<and> extracted demo_browser demo_credentials 2 demo_params (failing_site ''motorway'') 0 = None
   \<and> sum_list (map (\<lambda>(sc', i'). progress_count
                  (ps_events (processSite demo_browser demo_credentials (Some demo_callback) 2
                                demo_params sc' i')))
         [(failing_site ''motorway'', 0), (demo_site ''carwow'' [], 1)]) = 1"
proof -
  let ?jobs = "[(failing_site ''motorway'', 0::nat), (demo_site ''carwow'' [], 1)]"
  have x1: "extracted demo_browser demo_credentials 2 demo_params (demo_site ''carwow'' []) 1
            = Some []"
    by (simp add: extracted_def ps_try_def ps_navigate_def ps_filter_def ps_extract_def
          contextBlocking_def demo_site_def demo_browser_def demo_credentials_def)
  have x0: "extracted demo_browser demo_credentials 2 demo_params (failing_site ''motorway'') 0
            = None"
    by (simp add: extracted_def ps_try_def contextBlocking_def failing_site_def demo_site_def
          demo_browser_def demo_credentials_def)
  have o: "ps_outcome (processSite demo_browser demo_credentials (Some throwing_callback) 2
                   demo_params (demo_site ''carwow'' []) 1) = Some (Inr None)"
    by (simp add: processSite_def ps_try_def ps_navigate_def ps_filter_def ps_extract_def
          contextBlocking_def demo_site_def demo_browser_def demo_credentials_def
          throwing_callback_def)
  from C3_progress_per_job[of demo_browser demo_credentials "Some demo_callback" 2 demo_params
         "demo_site ''carwow'' []" 1 demo_callback ?jobs] x0 x1
  have a: "progress_count (ps_events (processSite demo_browser demo_credentials
             (Some demo_callback) 2 demo_params (demo_site ''carwow'' []) 1)) = 1"
    and s: "sum_list (map (\<lambda>(sc', i'). progress_count
                  (ps_events (processSite demo_browser demo_credentials (Some demo_callback) 2
                                demo_params sc' i'))) ?jobs) = 1"
    by simp_all
  from C3_progress_per_job[of demo_browser demo_credentials "Some throwing_callback" 2
         demo_params "demo_site ''carwow'' []" 1 demo_callback ?jobs] x1
  have b: "progress_count (ps_events (processSite demo_browser demo_credentials
             (Some throwing_callback) 2 demo_params (demo_site ''carwow'' []) 1)) = 1"
    by simp
  from x0 x1 o a b s show ?thesis by blast
qed

subsection \<open>One value per site\<close>

text \<open>
  C1, as stated: the result of a failed job is an empty-records result that carries the
  error message, and it can be told apart in the final aggregate from the result of a
  site that returned no records. Neither holds: the job of a site whose login throws
  resolves with \<open>null\<close>, which carries nothing, and the run over that site alone returns
  the same aggregate, the empty list, as the run over a site that extracted no records.
\<close>

theorem C1_failed_site_counterexample:
  "ps_outcome (processSite demo_browser demo_credentials (Some demo_callback) 1 demo_params
                 (failing_site ''motorway'') 0) = Some (Inr None)
   \<and> run_result (scrapeAllSites demo_browser demo_credentials None (Some demo_callback)
                   demo_params (\<lambda>siteConfig. 0) [failing_site ''motorway'']) = Some (Inr [])
   \<and> run_result (scrapeAllSites demo_browser demo_credentials None (Some demo_callback)
                   demo_params (\<lambda>siteConfig. 0) [demo_site ''motorway'' []]) = Some (Inr [])"
proof -
  have f: "ps_outcome (processSite demo_browser demo_credentials (Some demo_callback) 1 demo_params
                 (failing_site ''motorway'') 0) = Some (Inr None)"
    by (simp add: failing_site_job demo_credentials_motorway)
  have e: "ps_outcome (processSite demo_browser demo_credentials (Some demo_callback) 1 demo_params
                 (demo_site ''motorway'' []) 0) = Some (Inr (Some []))"
    by (simp add: demo_site_job demo_credentials_motorway)
  have "\<not> useProxies (failing_site ''motorway'')" "\<not> useProxies (demo_site ''motorway'' [])"
    by (simp_all add: failing_site_def demo_site_def)
  from scrape_one_site[where idx = "\<lambda>siteConfig. 0", OF this(1) f]
    scrape_one_site[where idx = "\<lambda>siteConfig. 0", OF this(2) e] f
  show ?thesis by (simp add: compile_def)
qed

text \<open>
  C1, amended: for every list of site jobs whose pages are created and closed without an
  error and whose drivers return, each job resolves with exactly one value and never
  rejects, even when the job fails: the value is the extracted array, or \<open>null\<close> on every
  failure path (the error is logged, not carried). \<open>runInBatches\<close> so returns one value
  per site, in the order of the sites. In the final aggregate a \<open>null\<close> contributes no
  records, exactly like an empty array: there a failed site is not told apart from a site
  that returned zero records.
\<close>

theorem C1_one_value_per_site:
  assumes "0 < batchSize"
    and "\<forall>sc \<in> set sites. br_newPage br (name sc) = Inr (pg sc) \<and> br_route br (pg sc) = None
           \<and> br_contextRoute br (name sc) = None"
    and "\<forall>q. br_close br q = None"
    and "\<forall>sc \<in> set sites. fst (ps_try br cr onP t sp sc (idx sc) (pg sc)) \<noteq> Hangs"
  shows "runInBatches (map (\<lambda>sc. ps_outcome (processSite br cr onP t sp sc (idx sc))) sites) batchSize
         = Some (Inr (map (\<lambda>sc. case fst (ps_try br cr onP t sp sc (idx sc) (pg sc)) of
                                  Returns extractedData \<Rightarrow> extractedData
                                | Throws e \<Rightarrow> None
                                | Hangs \<Rightarrow> None) sites))
       \<and> compile (xs @ None # ys) = compile (xs @ Some [] # ys)"
proof -
  let ?v = "\<lambda>sc. case fst (ps_try br cr onP t sp sc (idx sc) (pg sc)) of
                   Returns extractedData \<Rightarrow> extractedData | Throws e \<Rightarrow> None | Hangs \<Rightarrow> None"
  have "map (\<lambda>sc. ps_outcome (processSite br cr onP t sp sc (idx sc))) sites
        = map fulfilled_with (map ?v sites)"
  proof (simp, intro ballI)
    fix sc assume sc: "sc \<in> set sites"
    with assms(2) have "br_newPage br (name sc) = Inr (pg sc)" "br_route br (pg sc) = None"
      "br_contextRoute br (name sc) = None" by auto
    from processSite_outcome[OF this assms(3)]
    have "ps_outcome (processSite br cr onP t sp sc (idx sc))
          = try_value (fst (ps_try br cr onP t sp sc (idx sc) (pg sc)))" .
    with assms(4) sc
    show "ps_outcome (processSite br cr onP t sp sc (idx sc)) = fulfilled_with (?v sc)"
      by (auto simp: try_value_def fulfilled_with_def split: try_result.splits)
  qed
  note eq = this
  have "runInBatches (map fulfilled_with (map ?v sites)) batchSize = Some (Inr (map ?v sites))"
    by (rule runInBatches_all_fulfilled[OF assms(1)])
  then have "runInBatches (map (\<lambda>sc. ps_outcome (processSite br cr onP t sp sc (idx sc))) sites)
               batchSize = Some (Inr (map ?v sites))"
    by (simp only: eq)
  with compile_null[of xs ys] show ?thesis by blast
qed

theorem C1_one_value_per_site_witness:
  "runInBatches (map (\<lambda>sc. ps_outcome (processSite demo_browser demo_credentials (Some demo_callback) 2
                                          demo_params sc 0))
                   [failing_site ''motorway'', demo_site ''carwow'' [''car'']]) 2
     = Some (Inr [None, Some [''car'']])
   \<and> compile [None, Some [''car'']] = compile [Some [], Some [''car'']]"
proof -
  let ?sites = "[failing_site ''motorway'', demo_site ''carwow'' [''car'']]"
  have b: "(0::nat) < 2" by simp
  have pages: "\<forall>sc \<in> set ?sites. br_newPage demo_browser (name sc) = Inr ((\<lambda>sc. ()) sc)
      \<and> br_route demo_browser ((\<lambda>sc. ()) sc) = None
      \<and> br_contextRoute demo_browser (name sc) = None"
    by (simp add: demo_browser_def)
  have cl: "\<forall>q. br_close demo_browser q = None" by (simp add: demo_browser_def)
  have t1: "fst (ps_try demo_browser demo_credentials (Some demo_callback) 2 demo_params
                  (failing_site ''motorway'') 0 ()) = Throws ''Login error''"
    by (simp add: ps_try_def failing_site_def demo_site_def demo_credentials_def)
  have t2: "fst (ps_try demo_browser demo_credentials (Some demo_callback) 2 demo_params
                  (demo_site ''carwow'' [''car'']) 0 ()) = Returns (Some [''car''])"
    by (simp add: ps_try_def ps_navigate_def ps_filter_def ps_extract_def demo_site_def
          demo_credentials_def demo_browser_def demo_callback_def)
  have nh: "\<forall>sc \<in> set ?sites. fst (ps_try demo_browser demo_credentials (Some demo_callback) 2 demo_params sc
                                      ((\<lambda>sc. 0) sc) ((\<lambda>sc. ()) sc)) \<noteq> Hangs"
    using t1 t2 by simp
  from C1_one_value_per_site[OF b pages cl nh, of "[]" "[Some [''car'']]"] t1 t2
  show ?thesis by simp
qed

subsection \<open>Closing a group's browser\<close>

text \<open>
  A group that has sites. At every point of a run with a limit of at least 1, the browser
  environment of each group has been closed at most once, and if it has been closed then
  every job of that group has settled; as soon as the group's \<open>runInBatches\<close> has
  returned, closing is the group's next step and it can be taken whatever the state of
  the other group is; and a group whose jobs all resolve is closed exactly once when it
  ends.
\<close>

lemma group_closed_once:
  assumes "0 < limit" and "sys_reachable proxyTasks directTasks limit (p, d)"
  shows "g_closes p \<le> 1 \<and> g_closes d \<le> 1
    \<and> (g_closes p = 1 \<longrightarrow> set (rb_settled (g_rb p)) = {0 ..< length proxyTasks})
    \<and> (g_closes d = 1 \<longrightarrow> set (rb_settled (g_rb d)) = {0 ..< length directTasks})
    \<and> (g_chain p = Batching \<and> rb_phase (g_rb p) = Returned \<longrightarrow>
         sys_step proxyTasks directTasks limit (p, d) (p\<lparr>g_chain := Closed, g_closes := 1\<rparr>, d))
    \<and> (g_chain d = Batching \<and> rb_phase (g_rb d) = Returned \<longrightarrow>
         sys_step proxyTasks directTasks limit (p, d) (p, d\<lparr>g_chain := Closed, g_closes := 1\<rparr>))
    \<and> (\<forall>vs. vs \<noteq> [] \<longrightarrow> gr_closes (runGroup br True (map fulfilled_with vs) limit) = 1
               \<and> gr_closes (runGroup br False (map fulfilled_with vs) limit) = 1)"
proof -
  from sys_reachable_inv[OF assms(2)]
  have ip: "g_inv proxyTasks limit p" and id: "g_inv directTasks limit d" by simp_all
  have 1: "g_closes p \<le> 1" "g_closes d \<le> 1"
    using g_inv_closes[OF ip] g_inv_closes[OF id] by simp_all
  have 2: "g_closes p = 1 \<longrightarrow> set (rb_settled (g_rb p)) = {0 ..< length proxyTasks}"
    "g_closes d = 1 \<longrightarrow> set (rb_settled (g_rb d)) = {0 ..< length directTasks}"
    using g_inv_closed_settled[OF assms(1) ip] g_inv_closed_settled[OF assms(1) id] by simp_all
  have 3: "g_chain p = Batching \<and> rb_phase (g_rb p) = Returned \<longrightarrow>
         sys_step proxyTasks directTasks limit (p, d) (p\<lparr>g_chain := Closed, g_closes := 1\<rparr>, d)"
  proof
    assume h: "g_chain p = Batching \<and> rb_phase (g_rb p) = Returned"
    with ip have "g_closes p = 0" by (simp add: g_inv_def)
    with group_step.close[of p proxyTasks limit] h
    have "group_step proxyTasks limit p (p\<lparr>g_chain := Closed, g_closes := 1\<rparr>)" by simp
    then show "sys_step proxyTasks directTasks limit (p, d) (p\<lparr>g_chain := Closed, g_closes := 1\<rparr>, d)"
      by (rule sys_step.proxy)
  qed
  have 4: "g_chain d = Batching \<and> rb_phase (g_rb d) = Returned \<longrightarrow>
         sys_step proxyTasks directTasks limit (p, d) (p, d\<lparr>g_chain := Closed, g_closes := 1\<rparr>)"
  proof
    assume h: "g_chain d = Batching \<and> rb_phase (g_rb d) = Returned"
    with id have "g_closes d = 0" by (simp add: g_inv_def)
    with group_step.close[of d directTasks limit] h
    have "group_step directTasks limit d (d\<lparr>g_chain := Closed, g_closes := 1\<rparr>)" by simp
    then show "sys_step proxyTasks directTasks limit (p, d) (p, d\<lparr>g_chain := Closed, g_closes := 1\<rparr>)"
      by (rule sys_step.direct)
  qed
  have 6: "\<forall>vs. vs \<noteq> [] \<longrightarrow> gr_closes (runGroup br True (map fulfilled_with vs) limit) = 1
               \<and> gr_closes (runGroup br False (map fulfilled_with vs) limit) = 1"
    using assms(1) by (simp add: runGroup_fulfilled)
  from 1 2 3 4 6 show ?thesis by blast
qed

lemma demo_sys_reachable:
  "sys_reachable demo_proxy_tasks demo_direct_tasks 5
     (demo_proxy_closed, group_init demo_direct_tasks)"
proof -
  let ?d = "group_init demo_direct_tasks"
  let ?R = "\<lambda>s. sys_reachable demo_proxy_tasks demo_direct_tasks 5 (s, ?d)"
  note S = sys_reachable.step[OF _ sys_step.proxy]
  note B = group_step.batch
  have "?R (group_init demo_proxy_tasks)" by (rule sys_reachable.init)
  then have "?R \<lparr> g_rb = rb_init, g_chain = Batching, g_closes = 0 \<rparr>"
    by (simp add: group_init_def demo_proxy_tasks_def)
  from S[OF this B[OF _ rb_step.enter]]
  have "?R \<lparr> g_rb = \<lparr> rb_i = 0, rb_results = [], rb_phase = Mapping [0], rb_batch = [],
                      rb_started = [], rb_settled = [] \<rparr>,
             g_chain = Batching, g_closes = 0 \<rparr>"
    by (simp add: rb_init_def demo_proxy_tasks_def)
  from S[OF this B[OF _ rb_step.call[where j = 0 and js = "[]"]]]
  have "?R \<lparr> g_rb = \<lparr> rb_i = 0, rb_results = [], rb_phase = Mapping [], rb_batch = [0],
                      rb_started = [0], rb_settled = [] \<rparr>,
             g_chain = Batching, g_closes = 0 \<rparr>"
    by simp
  from S[OF this B[OF _ rb_step.await]]
  have "?R \<lparr> g_rb = \<lparr> rb_i = 0, rb_results = [], rb_phase = Awaiting, rb_batch = [0],
                      rb_started = [0], rb_settled = [] \<rparr>,
             g_chain = Batching, g_closes = 0 \<rparr>"
    by simp
  from S[OF this B[OF _ rb_step.settle[where j = 0]]]
  have "?R \<lparr> g_rb = \<lparr> rb_i = 0, rb_results = [], rb_phase = Awaiting, rb_batch = [0],
                      rb_started = [0], rb_settled = [0] \<rparr>,
             g_chain = Batching, g_closes = 0 \<rparr>"
    by (simp add: demo_proxy_tasks_def fulfilled_with_def)
  from S[OF this B[OF _ rb_step.fulfilled[where vs = "[''a'']"]]]
  have "?R \<lparr> g_rb = \<lparr> rb_i = 1, rb_results = [''a''], rb_phase = LoopHead, rb_batch = [0],
                      rb_started = [0], rb_settled = [0] \<rparr>,
             g_chain = Batching, g_closes = 0 \<rparr>"
    by (simp add: demo_proxy_tasks_def fulfilled_with_def)
  from S[OF this B[OF _ rb_step.return]]
  have "?R \<lparr> g_rb = \<lparr> rb_i = 1, rb_results = [''a''], rb_phase = Returned, rb_batch = [0],
                      rb_started = [0], rb_settled = [0] \<rparr>,
             g_chain = Batching, g_closes = 0 \<rparr>"
    by (simp add: demo_proxy_tasks_def)
  from S[OF this group_step.close]
  show ?thesis by (simp add: demo_proxy_closed_def)
qed

text \<open>In that run the group with proxies is closed, all its jobs settled, before the other
  group has started a job.\<close>

lemma group_closed_before_other_starts:
  "g_closes demo_proxy_closed = 1
   \<and> set (rb_settled (g_rb demo_proxy_closed)) = {0 ..< length demo_proxy_tasks}
   \<and> rb_started (g_rb (group_init demo_direct_tasks)) = []"
proof -
  have l: "(0::nat) < 5" by simp
  have c: "g_closes demo_proxy_closed = 1" by (simp add: demo_proxy_closed_def)
  have s: "rb_started (g_rb (group_init demo_direct_tasks)) = []"
    by (simp add: group_init_def rb_init_def)
  from group_closed_once[OF l demo_sys_reachable, of demo_browser] c
  have "set (rb_settled (g_rb demo_proxy_closed)) = {0 ..< length demo_proxy_tasks}"
    by blast
  with c s show ?thesis by blast
qed

text \<open>A group without sites has no chain: it takes no step at all, so nothing closes its
  browser environment.\<close>

lemma empty_group_takes_no_step: "\<not> group_step [] limit (group_init []) s"
  by (auto simp: group_init_def elim: group_step.cases)


section \<open>A filter value the site does not offer\<close>

subsection \<open>Strings with letters outside ASCII\<close>

text \<open>The case mappings on a model name with an accent, on a sharp s, on a letter of a
  supplementary plane, and on a Greek word that ends in a sigma.\<close>

lemma toUpperCase_accent:
  "toUpperCase [0x4D, 0xE9, 0x67, 0x61, 0x6E, 0x65] = [0x4D, 0xC9, 0x47, 0x41, 0x4E, 0x45]"
  by (simp add: toUpperCase_def CodePointsToString_def UTF16EncodeCodePoint_def toUppercase_def
        special_upper_def upper_runs_def map_runs_def)

lemma toUpperCase_special:
  "toUpperCase [0xDF, 0xFF, 0xD801, 0xDC28, 0xD801]
   = [0x53, 0x53, 0x178, 0xD801, 0xDC00, 0xD801]"
  by (simp add: toUpperCase_def CodePointsToString_def UTF16EncodeCodePoint_def toUppercase_def
        special_upper_def upper_runs_def map_runs_def)

lemma toLowerCase_final_sigma:
  "toLowerCase [0x39F, 0x394, 0x39F, 0x3A3] = [0x3BF, 0x3B4, 0x3BF, 0x3C2]
   \<and> toLowerCase [0x3A3, 0x130, 0x4E] = [0x3C3, 0x69, 0x307, 0x6E]"
  by (simp add: toLowerCase_def CodePointsToString_def UTF16EncodeCodePoint_def toLowercase_def
        lower_runs_def map_runs_def Final_Sigma_def cased_next_def in_ranges_def
        cased_ranges_def case_ignorable_ranges_def)

text \<open>CarToTrade finds the option of a model whose name has an accent, whatever the case
  the search writes it in.\<close>

lemma ct_match_accent:
  "ct_match [0x4D, 0xE9, 0x67, 0x61, 0x6E, 0x65]
     [([], Some (js ''Select range'')), (js ''23'', Some [0x4D, 0xC9, 0x47, 0x41, 0x4E, 0x45])]
   = Some (js ''23'', Some [0x4D, 0xC9, 0x47, 0x41, 0x4E, 0x45])"
proof -
  have u: "toUpperCase [0x4D, 0xC9, 0x47, 0x41, 0x4E, 0x45] = [0x4D, 0xC9, 0x47, 0x41, 0x4E, 0x45]"
    by (simp add: toUpperCase_def CodePointsToString_def UTF16EncodeCodePoint_def
          toUppercase_def special_upper_def upper_runs_def map_runs_def)
  have s: "toUpperCase (js ''Select range'') = js ''SELECT RANGE''"
    by (simp add: toUpperCase_def CodePointsToString_def UTF16EncodeCodePoint_def
          toUppercase_def js_def)
  show ?thesis
    by (simp add: ct_match_def toUpperCase_accent u s) (simp add: js_def)
qed

subsection \<open>The drivers\<close>

lemma dn_applyFilters_unavailable:
  assumes "dn_make_unavailable site params \<or> dn_model_unavailable site params"
  shows "\<exists>page'. dn_applyFilters site page params = (None, page')
           \<and> (dn_makeApplied page' = Some False \<or> dn_modelApplied page' = Some False)"
  using assms
  by (auto simp: dn_make_unavailable_def dn_model_unavailable_def dn_applyFilters_def
        dn_modelAndMileage_def)

lemma dn_extractCars_guard:
  "dn_makeApplied page = Some False \<or> dn_modelApplied page = Some False \<Longrightarrow>
   dn_extractCars site page params = (Inr [], page)"
  by (auto simp: dn_extractCars_def)

lemma ct_applyFilters_unavailable:
  assumes "ct_model_unavailable site params"
  shows "ct_applyFilters site page params = (None, page\<lparr>ct_searchExecuted := Some False\<rparr>)"
  using assms
  by (auto simp: ct_model_unavailable_def ct_applyFilters_def split: sum.splits)

text \<open>On Disposal Network the model of a search that names no make is never read.\<close>

lemma dn_finish_model:
  "dn_finish site page (params\<lparr>sp_model := m\<rparr>) = dn_finish site page params"
  by (simp add: dn_finish_def cong: option.case_cong sum.case_cong flow.case_cong prod.case_cong if_cong)

lemma dn_searchAndRefine_model:
  "dn_searchAndRefine site page (params\<lparr>sp_model := m\<rparr>) = dn_searchAndRefine site page params"
  by (simp add: dn_searchAndRefine_def dn_priceAge_def dn_finish_model cong: option.case_cong sum.case_cong flow.case_cong prod.case_cong if_cong)

lemma dn_modelAndMileage_without_make:
  assumes "\<not> given (sp_make params)"
  shows "dn_modelAndMileage site page (params\<lparr>sp_model := m\<rparr>)
         = dn_modelAndMileage site page params"
  using assms by (simp add: dn_modelAndMileage_def dn_searchAndRefine_model cong: option.case_cong sum.case_cong flow.case_cong prod.case_cong if_cong)

lemma dn_applyFilters_model_without_make:
  assumes "\<not> given (sp_make params)"
  shows "dn_applyFilters site page (params\<lparr>sp_model := m\<rparr>) = dn_applyFilters site page params"
  using assms by (simp add: dn_applyFilters_def dn_modelAndMileage_without_make cong: option.case_cong sum.case_cong flow.case_cong prod.case_cong if_cong)

lemma dn_job_model_without_make:
  assumes "\<not> given (sp_make params)"
  shows "processSite br cr onP t (params\<lparr>sp_model := m\<rparr>) (disposalnetworkConfig dn) i
         = processSite br cr onP t params (disposalnetworkConfig dn) i"
proof -
  have x: "ps_extract onP t (params\<lparr>sp_model := m\<rparr>) (disposalnetworkConfig dn) i p
           = ps_extract onP t params (disposalnetworkConfig dn) i p" for p
    by (simp add: ps_extract_def disposalnetworkConfig_def dn_extractCars_def)
  have f: "ps_filter onP t (params\<lparr>sp_model := m\<rparr>) (disposalnetworkConfig dn) i p
           = ps_filter onP t params (disposalnetworkConfig dn) i p" for p
  proof -
    have a: "applyFilters (disposalnetworkConfig dn) = Some (dn_applyFilters dn)"
      by (simp add: disposalnetworkConfig_def)
    show ?thesis
      unfolding ps_filter_def a
      by (simp add: dn_applyFilters_model_without_make[OF assms] x cong: option.case_cong sum.case_cong flow.case_cong prod.case_cong if_cong)
  qed
  have s: "\<not> shouldNavigateToSearchUrl (disposalnetworkConfig dn)"
    by (simp add: disposalnetworkConfig_def)
  have n: "ps_navigate br onP t (params\<lparr>sp_model := m\<rparr>) (disposalnetworkConfig dn) i p
        = ps_navigate br onP t params (disposalnetworkConfig dn) i p" for p
    by (simp add: ps_navigate_def f s)
  have y: "ps_try br cr onP t (params\<lparr>sp_model := m\<rparr>) (disposalnetworkConfig dn) i p
        = ps_try br cr onP t params (disposalnetworkConfig dn) i p" for p
    unfolding ps_try_def n ..
  show ?thesis unfolding processSite_def y ..
qed

lemma ready_try:
  assumes "job_ready br cr sc p" "\<not> shouldNavigateToSearchUrl sc"
    and "ps_filter onP t params sc i p = (r, evs, q)"
  shows "ps_try br cr onP t params sc i p = (r, Login (name sc) # evs, q)"
proof -
  from assms(1) obtain c where c: "cr (name sc) = Some c" "username c \<noteq> []" "password c \<noteq> []"
    "login sc p c = (None, p)"
    by (auto simp: job_ready_def split: option.splits)
  from assms(1) have b: "br_waitAfterLogin br p = (None, p)"
    by (auto simp: job_ready_def)
  show ?thesis
    using c b assms(2,3) by (simp add: ps_try_def ps_navigate_def)
qed

lemma ready_job:
  assumes "job_ready br cr sc p" "\<not> shouldNavigateToSearchUrl sc"
    and "ps_filter onP t params sc i p = (r, evs, q)"
  shows "processSite br cr onP t params sc i =
     (case r of
        Hangs \<Rightarrow>
          \<lparr> ps_outcome = None, ps_events = ps_setup sc @ Login (name sc) # evs, ps_index = i \<rparr>
      | Throws e \<Rightarrow>
          \<lparr> ps_outcome = Some (Inr None),
            ps_events = ps_setup sc @ Login (name sc) # evs @ [ClosePage (name sc)],
            ps_index = i + 1 \<rparr>
      | Returns d \<Rightarrow>
          \<lparr> ps_outcome = Some (Inr d),
            ps_events = ps_setup sc @ Login (name sc) # evs @ [ClosePage (name sc)],
            ps_index = i + 1 \<rparr>)"
proof -
  from assms(1) have b: "br_newPage br (name sc) = Inr p" "br_route br p = None"
    "br_contextRoute br (name sc) = None" "\<And>q. br_close br q = None"
    by (auto simp: job_ready_def)
  show ?thesis
    using b ready_try[OF assms] by (cases r) (simp_all add: processSite_def)
qed

lemma ready_extracted:
  assumes "job_ready br cr sc p" "\<not> shouldNavigateToSearchUrl sc"
    and "ps_filter None t params sc i p = (Returns d, evs, q)"
  shows "extracted br cr t params sc i = d"
proof -
  from assms(1) have b: "br_newPage br (name sc) = Inr p" "br_route br p = None"
    "br_contextRoute br (name sc) = None"
    by (auto simp: job_ready_def)
  show ?thesis
    using b ready_try[OF assms] by (simp add: extracted_def)
qed

lemma dn_browser_ready:
  "job_ready dn_browser driver_credentials (disposalnetworkConfig demo_dn) dn_newPage"
  by (simp add: job_ready_def dn_browser_def driver_credentials_def disposalnetworkConfig_def
        demo_dn_def)

lemma ct_browser_ready:
  "job_ready ct_browser driver_credentials (cartotradeConfig demo_ct) ct_newPage"
  by (simp add: job_ready_def ct_browser_def driver_credentials_def cartotradeConfig_def
        demo_ct_def)

lemma given_Golf: "given (Some (js ''Golf''))"
  by (simp add: given_def trim_def is_ws_def js_def)

lemma given_Zeta: "given (Some (js ''Zeta''))"
  by (simp add: given_def trim_def is_ws_def js_def)

lemma toUpperCase_Golf: "toUpperCase (js ''Golf'') = js ''GOLF''"
  by (simp add: toUpperCase_def CodePointsToString_def UTF16EncodeCodePoint_def toUppercase_def
        js_def)

lemma toUpperCase_Zeta: "toUpperCase (js ''Zeta'') = js ''ZETA''"
  by (simp add: toUpperCase_def CodePointsToString_def UTF16EncodeCodePoint_def toUppercase_def
        js_def)

subsection \<open>The jobs\<close>

text \<open>
  C4, as stated: whenever a specified make or model has no selectable option on a site,
  the site's job completes with an empty list of records. It fails on Disposal Network
  for a search that names a model and no make: the model filter is only applied together
  with a make, so the site is never asked for the model, the search runs without it, and
  the job returns the vehicle the search found.
\<close>

theorem C4_model_without_make_counterexample:
  "given (sp_model (demo_params\<lparr>sp_model := Some (js ''Golf'')\<rparr>))
   \<and> dn_modelLabels demo_dn (toUpperCase (js ''Golf'')) = Inr 0
   \<and> ps_outcome (processSite dn_browser driver_credentials (Some demo_callback) 1
                   (demo_params\<lparr>sp_model := Some (js ''Golf'')\<rparr>) (disposalnetworkConfig demo_dn) 0)
       = Some (Inr (Some [''vehicle 1'']))"
proof -
  let ?P = "demo_params\<lparr>sp_model := Some (js ''Golf'')\<rparr>"
  have m: "\<not> given (sp_make ?P)" "given (sp_model ?P)"
    using given_Golf by (simp_all add: demo_params_def given_def)
  have a: "dn_applyFilters demo_dn dn_newPage ?P
           = (None, \<lparr> dn_makeApplied = Some True, dn_modelApplied = Some True,
                      dn_noResults = False,
                      dn_lastResponse = Some (Inr (DObject (Some [''vehicle 1'']))) \<rparr>)"
    by (simp add: dn_applyFilters_def dn_modelAndMileage_def dn_searchAndRefine_def
          dn_priceAge_def dn_finish_def dn_newPage_def demo_dn_def demo_params_def given_def)
  have e: "dn_extractCars demo_dn
             \<lparr> dn_makeApplied = Some True, dn_modelApplied = Some True, dn_noResults = False,
               dn_lastResponse = Some (Inr (DObject (Some [''vehicle 1'']))) \<rparr> (Some ?P)
           = (Inr [''vehicle 1''],
              \<lparr> dn_makeApplied = Some True, dn_modelApplied = Some True, dn_noResults = False,
                dn_lastResponse = Some (Inr (DObject (Some [''vehicle 1'']))) \<rparr>)"
    by (simp add: dn_extractCars_def dn_turn_def List.map_filter_simps demo_dn_def)
  have f: "ps_filter (Some demo_callback) 1 ?P (disposalnetworkConfig demo_dn) 0 dn_newPage
           = (Returns (Some [''vehicle 1'']),
              [ApplyFilters ''disposalnetwork'', ExtractCars ''disposalnetwork'',
               Progress ''disposalnetwork'' [''vehicle 1''] 1 1],
              \<lparr> dn_makeApplied = Some True, dn_modelApplied = Some True, dn_noResults = False,
                dn_lastResponse = Some (Inr (DObject (Some [''vehicle 1'']))) \<rparr>)"
    using a e
    by (simp add: ps_filter_def ps_extract_def disposalnetworkConfig_def demo_callback_def)
  have n: "\<not> shouldNavigateToSearchUrl (disposalnetworkConfig demo_dn :: (string dn_page, string) SiteConfig)"
    by (simp add: disposalnetworkConfig_def)
  have l: "dn_modelLabels demo_dn (toUpperCase (js ''Golf'')) = Inr 0"
    by (simp add: demo_dn_def toUpperCase_Golf) (simp add: js_def)
  from ready_job[OF dn_browser_ready n f] m l show ?thesis by simp
qed

text \<open>
  C4, amended: on Disposal Network, a search whose specified make has no label, or whose
  specified make has one while the model specified with it has none, and on CarToTrade a
  search whose specified model matches no option, completes as a normal empty result
  when the steps up to the look-up succeed: the driver returns an empty array to the job
  and throws nothing; the job reports the empty array to the progress callback, if one
  is given, and, when that call comes back, resolves with the empty array, not with the
  \<open>null\<close> of a failure. On Disposal Network the model of a search that names no make is
  not looked up at all: the job is the one of the same search without the model.
\<close>

theorem C4_unavailable_option_empty_result:
  "(job_ready br cr (disposalnetworkConfig dn) p
      \<and> (dn_make_unavailable dn params \<or> dn_model_unavailable dn params)
     \<longrightarrow> extracted br cr t params (disposalnetworkConfig dn) i = Some []
         \<and> (callback_returns onP ''disposalnetwork'' [] t (i + 1) \<longrightarrow>
              processSite br cr onP t params (disposalnetworkConfig dn) i
              = empty_job ''disposalnetwork'' (onP \<noteq> None) t i))
   \<and> (job_ready br' cr' (cartotradeConfig ct) p' \<and> ct_model_unavailable ct params
     \<longrightarrow> extracted br' cr' t params (cartotradeConfig ct) i = Some []
         \<and> (callback_returns onP ''CarToTrade'' [] t (i + 1) \<longrightarrow>
              processSite br' cr' onP t params (cartotradeConfig ct) i
              = empty_job ''CarToTrade'' (onP \<noteq> None) t i))
   \<and> (\<not> given (sp_make params)
     \<longrightarrow> processSite br cr onP t params (disposalnetworkConfig dn) i
         = processSite br cr onP t (params\<lparr>sp_model := None\<rparr>) (disposalnetworkConfig dn) i)"
proof (intro conjI impI)
  assume h: "job_ready br cr (disposalnetworkConfig dn) p
             \<and> (dn_make_unavailable dn params \<or> dn_model_unavailable dn params)"
  then obtain q where q: "dn_applyFilters dn p params = (None, q)"
      "dn_makeApplied q = Some False \<or> dn_modelApplied q = Some False"
    using dn_applyFilters_unavailable by blast
  have f0: "ps_filter None t params (disposalnetworkConfig dn) i p
           = (Returns (Some []),
              [ApplyFilters ''disposalnetwork'', ExtractCars ''disposalnetwork''], q)"
    using q(1) dn_extractCars_guard[OF q(2), of dn "Some params"]
    by (simp add: ps_filter_def ps_extract_def disposalnetworkConfig_def)
  have n: "\<not> shouldNavigateToSearchUrl (disposalnetworkConfig dn)"
    by (simp add: disposalnetworkConfig_def)
  from h have r: "job_ready br cr (disposalnetworkConfig dn) p" by simp
  from ready_extracted[OF r n f0]
  show "extracted br cr t params (disposalnetworkConfig dn) i = Some []" .
  assume c: "callback_returns onP ''disposalnetwork'' [] t (i + 1)"
  have f: "ps_filter onP t params (disposalnetworkConfig dn) i p
           = (Returns (Some []),
              ApplyFilters ''disposalnetwork'' # ExtractCars ''disposalnetwork''
                # (if onP \<noteq> None then [Progress ''disposalnetwork'' [] t (i + 1)] else []), q)"
    using q(1) dn_extractCars_guard[OF q(2), of dn "Some params"] c
    by (simp add: ps_filter_def ps_extract_def disposalnetworkConfig_def callback_returns_def
          split: option.splits)
  show "processSite br cr onP t params (disposalnetworkConfig dn) i
        = empty_job ''disposalnetwork'' (onP \<noteq> None) t i"
    using ready_job[OF r n f]
    by (simp add: empty_job_def ps_setup_def contextBlocking_def disposalnetworkConfig_def)
next
  assume h: "job_ready br' cr' (cartotradeConfig ct) p' \<and> ct_model_unavailable ct params"
  then have a: "ct_applyFilters ct p' params = (None, p'\<lparr>ct_searchExecuted := Some False\<rparr>)"
    using ct_applyFilters_unavailable by blast
  have f0: "ps_filter None t params (cartotradeConfig ct) i p'
           = (Returns (Some []), [ApplyFilters ''CarToTrade'', ExtractCars ''CarToTrade''],
              p'\<lparr>ct_searchExecuted := Some False\<rparr>)"
    using a by (simp add: ps_filter_def ps_extract_def cartotradeConfig_def ct_extractCars_def)
  have n: "\<not> shouldNavigateToSearchUrl (cartotradeConfig ct)"
    by (simp add: cartotradeConfig_def)
  from h have r: "job_ready br' cr' (cartotradeConfig ct) p'" by simp
  from ready_extracted[OF r n f0]
  show "extracted br' cr' t params (cartotradeConfig ct) i = Some []" .
  assume c: "callback_returns onP ''CarToTrade'' [] t (i + 1)"
  have f: "ps_filter onP t params (cartotradeConfig ct) i p'
           = (Returns (Some []),
              ApplyFilters ''CarToTrade'' # ExtractCars ''CarToTrade''
                # (if onP \<noteq> None then [Progress ''CarToTrade'' [] t (i + 1)] else []),
              p'\<lparr>ct_searchExecuted := Some False\<rparr>)"
    using a c
    by (simp add: ps_filter_def ps_extract_def cartotradeConfig_def ct_extractCars_def
          callback_returns_def split: option.splits)
  show "processSite br' cr' onP t params (cartotradeConfig ct) i
        = empty_job ''CarToTrade'' (onP \<noteq> None) t i"
    using ready_job[OF r n f]
    by (simp add: empty_job_def ps_setup_def contextBlocking_def cartotradeConfig_def)
next
  assume "\<not> given (sp_make params)"
  from dn_job_model_without_make[OF this, of br cr onP t None dn i]
  show "processSite br cr onP t params (disposalnetworkConfig dn) i
        = processSite br cr onP t (params\<lparr>sp_model := None\<rparr>) (disposalnetworkConfig dn) i"
    by simp
qed

theorem C4_unavailable_option_empty_result_witness:
  "job_ready dn_browser driver_credentials (disposalnetworkConfig demo_dn) dn_newPage
   \<and> dn_make_unavailable demo_dn (demo_params\<lparr>sp_make := Some (js ''Zeta'')\<rparr>)
   \<and> callback_returns (Some demo_callback) ''disposalnetwork'' [] 1 1
   \<and> processSite dn_browser driver_credentials (Some demo_callback) 1
        (demo_params\<lparr>sp_make := Some (js ''Zeta'')\<rparr>) (disposalnetworkConfig demo_dn) 0
       = empty_job ''disposalnetwork'' True 1 0
   \<and> job_ready ct_browser driver_credentials (cartotradeConfig demo_ct) ct_newPage
   \<and> ct_model_unavailable demo_ct (demo_params\<lparr>sp_model := Some (js ''Golf'')\<rparr>)
   \<and> callback_returns (Some demo_callback) ''CarToTrade'' [] 1 1
   \<and> processSite ct_browser driver_credentials (Some demo_callback) 1
        (demo_params\<lparr>sp_model := Some (js ''Golf'')\<rparr>) (cartotradeConfig demo_ct) 0
       = empty_job ''CarToTrade'' True 1 0
   \<and> \<not> given (sp_make (demo_params\<lparr>sp_model := Some (js ''Golf'')\<rparr>))
   \<and> processSite dn_browser driver_credentials (Some demo_callback) 1
        (demo_params\<lparr>sp_model := Some (js ''Golf'')\<rparr>) (disposalnetworkConfig demo_dn) 0
       = processSite dn_browser driver_credentials (Some demo_callback) 1
           demo_params (disposalnetworkConfig demo_dn) 0"
proof -
  let ?Z = "demo_params\<lparr>sp_make := Some (js ''Zeta'')\<rparr>"
  let ?G = "demo_params\<lparr>sp_model := Some (js ''Golf'')\<rparr>"
  let ?cb = "Some demo_callback :: string callback option"
  have z: "dn_make_unavailable demo_dn ?Z"
    using given_Zeta
    by (simp add: dn_make_unavailable_def demo_dn_def toUpperCase_Zeta) (simp add: js_def)
  have g: "ct_model_unavailable demo_ct ?G"
  proof -
    have u: "toUpperCase (js ''Select range'') = js ''SELECT RANGE''"
      "toUpperCase (js ''3 Series'') = js ''3 SERIES''"
      by (simp_all add: toUpperCase_def CodePointsToString_def UTF16EncodeCodePoint_def
            toUppercase_def js_def)
    have i: "\<not> js_includes (js ''SELECT RANGE'') (js ''GOLF'')"
      "\<not> js_includes (js ''3 SERIES'') (js ''GOLF'')"
      by (simp_all add: js_def)
    show ?thesis
      using given_Golf
      by (simp add: ct_model_unavailable_def demo_ct_def ct_match_def toUpperCase_Golf u i
            demo_params_def given_def)
  qed
  have c: "callback_returns ?cb ''disposalnetwork'' [] 1 1"
    "callback_returns ?cb ''CarToTrade'' [] 1 1"
    by (simp_all add: callback_returns_def demo_callback_def)
  have m: "\<not> given (sp_make ?G)" by (simp add: demo_params_def given_def)
  have s: "?G\<lparr>sp_model := None\<rparr> = demo_params" by (simp add: demo_params_def)
  from C4_unavailable_option_empty_result
         [of dn_browser driver_credentials demo_dn dn_newPage ?Z 1 0 ?cb
             ct_browser driver_credentials demo_ct ct_newPage]
       dn_browser_ready z c
  have 1: "processSite dn_browser driver_credentials ?cb 1 ?Z (disposalnetworkConfig demo_dn) 0
           = empty_job ''disposalnetwork'' True 1 0"
    by simp
  from C4_unavailable_option_empty_result
         [of dn_browser driver_credentials demo_dn dn_newPage ?G 1 0 ?cb
             ct_browser driver_credentials demo_ct ct_newPage]
       ct_browser_ready g c m s
  have 2: "processSite ct_browser driver_credentials ?cb 1 ?G (cartotradeConfig demo_ct) 0
           = empty_job ''CarToTrade'' True 1 0"
    and 3: "processSite dn_browser driver_credentials ?cb 1 ?G (disposalnetworkConfig demo_dn) 0
       = processSite dn_browser driver_credentials ?cb 1 demo_params (disposalnetworkConfig demo_dn) 0"
    by simp_all
  from 1 2 3 z g c m dn_browser_ready ct_browser_ready show ?thesis by blast
qed

section \<open>A page that fails after the first\<close>

text \<open>On Disposal Network every iteration of the page loop stands in a \<open>try\<close> whose
  \<open>catch\<close> leaves the loop: \<open>extractCars\<close> never throws, and returns what it has.\<close>

lemma dn_extractCars_never_throws:
  "\<exists>cars. dn_extractCars site page params = (Inr cars, page)"
  by (simp add: dn_extractCars_def)

text \<open>On CarToTrade a throw while the way to the next page is looked for ends the loop with
  the records read so far.\<close>

lemma ct_pagination_error_keeps_records:
  assumes "cv_load (ct_views site (ct_shown page)) = None"
    and "cv_panels (ct_views site (ct_shown page)) = Inr cards"
    and "ct_findNext (ct_views site (ct_shown page)) currentPage = Inl e"
  shows "ct_pages site allCarData currentPage page
         = Some (Inr (allCarData @ ct_records cards), page)"
  using assms by (subst ct_pages.simps) (simp add: ct_paginate_def)

text \<open>
  C5. The claim: when a page after the first fails, the loop ends and the job returns the
  records of the pages that succeeded, with no error. The code evaluated on the CarToTrade
  above, whose second page throws in the wait at the top of the loop (line 289), outside
  every \<open>try\<close>: \<open>extractCars\<close> throws, the record of the first page is gone, and the job
  resolves with \<open>null\<close> and reports no progress.
\<close>

theorem C5_cartotrade_second_page_throws:
  "ct_extractCars demo_ct \<lparr> ct_searchExecuted = Some True, ct_shown = 0 \<rparr> None
     = Some (Inl ''page.waitForLoadState: Timeout 30000ms exceeded'',
             \<lparr> ct_searchExecuted = Some True, ct_shown = 1 \<rparr>)
   \<and> processSite ct_browser driver_credentials (Some demo_callback) 1 demo_params (cartotradeConfig demo_ct) 0
     = \<lparr> ps_outcome = Some (Inr None),
         ps_events = [NewPage ''CarToTrade'', RouteSetup ''CarToTrade'', Login ''CarToTrade'',
                      ApplyFilters ''CarToTrade'', ExtractCars ''CarToTrade'',
                      ClosePage ''CarToTrade''],
         ps_index = 1 \<rparr>"
proof -
  let ?p0 = "\<lparr> ct_searchExecuted = Some True, ct_shown = 0 \<rparr>"
  let ?p1 = "\<lparr> ct_searchExecuted = Some True, ct_shown = Suc 0 \<rparr>"
  let ?e = "''page.waitForLoadState: Timeout 30000ms exceeded''"
  have pg: "ct_paginate first_view 0 = (True, True)"
    by (simp add: ct_paginate_def ct_findNext_def ct_move_def first_view_def next_button_def)
  have v: "ct_views demo_ct 0 = first_view" "ct_views demo_ct (Suc 0) = stuck_view"
    by (simp_all add: demo_ct_def)
  have l: "cv_load first_view = None" "cv_panels first_view = Inr [Card ''car 1'', Skipped]"
    "cv_load stuck_view = Some ?e"
    by (simp_all add: first_view_def stuck_view_def)
  have second: "ct_pages demo_ct [''car 1''] (Suc 0) ?p1 = Some (Inl ?e, ?p1)"
    by (subst ct_pages.simps) (simp add: v l)
  have first: "ct_pages demo_ct [] 0 ?p0 = Some (Inl ?e, ?p1)"
    by (subst ct_pages.simps) (simp add: v l pg second)
  have x: "ct_extractCars demo_ct ?p0 None = Some (Inl ?e, ?p1)"
    using first by (simp add: ct_extractCars_def)
  have a: "ct_applyFilters demo_ct ct_newPage demo_params = (None, ?p0)"
    by (simp add: ct_applyFilters_def demo_ct_def demo_params_def given_def ct_newPage_def)
  have f: "ps_filter (Some demo_callback) 1 demo_params (cartotradeConfig demo_ct) 0 ct_newPage
           = (Throws ?e, [ApplyFilters ''CarToTrade'', ExtractCars ''CarToTrade''], ?p1)"
    using a x by (simp add: ps_filter_def ps_extract_def cartotradeConfig_def)
  have n: "\<not> shouldNavigateToSearchUrl (cartotradeConfig demo_ct)"
    by (simp add: cartotradeConfig_def)
  from ready_job[OF ct_browser_ready n f] x show ?thesis
    by (simp add: ps_setup_def contextBlocking_def cartotradeConfig_def)
qed

end
